theory Spec2Isabelle
  imports Complex_Main "HOL-Library.Word"
begin

section \<open>Conventions of the embedding\<close>

text \<open>
  The C++ sources are embedded shallowly. A \<^verbatim>\<open>float64_t\<close> is a \<^typ>\<open>real\<close>: the
  arithmetic of the engine is read over the reals, without rounding, infinities or NaN.
  A quotient by \<^verbatim>\<open>transitionEps\<close> or \<^verbatim>\<open>dryFrictionVelEps\<close> is meant for a divisor that
  is not zero, as these two scales of the contact options are; at zero the reals of HOL
  answer \<open>0\<close> where a double answers an infinity or NaN. The scale
  \<^verbatim>\<open>boundTransitionEps\<close> of the joint options may be zero, and there the value of the
  double arithmetic is written out: a number that may be NaN is a \<^typ>\<open>real option\<close>,
  \<open>None\<close> the NaN, and the zero of the reals is the double \<^verbatim>\<open>+0.0\<close>.
  An Eigen vector \<^verbatim>\<open>vectorN_t\<close> is a list of reals, a \<^verbatim>\<open>Vector3d\<close> a triple, a
  \<^verbatim>\<open>Matrix3d\<close> a triple of rows. A member function that mutates its object takes the
  object and returns the new one. The codes of \<^verbatim>\<open>result_t\<close> are the ones the sources
  return. A member \<^verbatim>\<open>name_\<close> of a C++ class is the field \<open>name\<close> of a record: an
  identifier of Isabelle cannot end with an underscore.
\<close>

type_synonym float64_t = real
type_synonym vectorN_t = "real list"
type_synonym vector3_t = "real \<times> real \<times> real"
type_synonym matrix3_t = "vector3_t \<times> vector3_t \<times> vector3_t"
type_synonym float64_or_nan = "real option"
type_synonym vectorN_or_nan = "real option list"

datatype result_t = SUCCESS | ERROR_GENERIC | ERROR_BAD_INPUT | ERROR_INIT_FAILED

section \<open>MemoryDevice\<close>

text \<open>
  \<^verbatim>\<open>MemoryDevice\<close> (core/src/MemoryDevice.cc) keeps a byte buffer and a signed 64-bit
  position. The position is an \<^typ>\<open>int\<close>; the one place where the machine width
  matters, the cast of the byte count to \<^verbatim>\<open>std::size_t\<close> in front of
  \<^verbatim>\<open>memcpy\<close>, is written out.
\<close>

record MemoryDevice =
  buffer :: "8 word list"
  currentPos :: int

definition size_dev :: "MemoryDevice \<Rightarrow> int" where
  "size_dev d = int (length (buffer d))"

text \<open>
  Modelled from the spec: \<^verbatim>\<open>bytesAvailable\<close> is declared in MemoryDevice.h, which is
  not among the sources, and the spec does not describe it. It is what its name and its
  use in \<^verbatim>\<open>readData\<close> say: the size of the buffer minus the current position, the
  number of bytes that remain when the position is inside the buffer.
\<close>

definition bytesAvailable :: "MemoryDevice \<Rightarrow> int" where
  "bytesAvailable d = size_dev d - currentPos d"

definition seek :: "MemoryDevice \<Rightarrow> int \<Rightarrow> result_t \<times> MemoryDevice" where
  "seek d pos =
     (if pos < 0 \<or> pos \<ge> int (length (buffer d))
      then (ERROR_GENERIC, d)
      else (SUCCESS, d\<lparr>currentPos := pos\<rparr>))"

text \<open>\<^verbatim>\<open>static_cast<std::size_t>\<close> of a signed 64-bit count.\<close>

definition to_size_t :: "int \<Rightarrow> nat" where
  "to_size_t n = nat (n mod 2 ^ 64)"

text \<open>
  \<^verbatim>\<open>memcpy\<close> out of the buffer: \<open>n\<close> bytes starting at offset \<open>pos\<close>. A range that
  leaves the buffer is undefined behaviour in C++; the model answers \<open>None\<close>.
\<close>

definition memcpy_from :: "8 word list \<Rightarrow> int \<Rightarrow> nat \<Rightarrow> 8 word list option" where
  "memcpy_from buf pos n =
     (if 0 \<le> pos \<and> pos + int n \<le> int (length buf)
      then Some (take n (drop (nat pos) buf))
      else None)"

text \<open>
  \<^verbatim>\<open>memcpy\<close> into the buffer: the first \<open>n\<close> bytes of \<open>data\<close> overwrite the bytes from
  offset \<open>pos\<close> on. \<open>None\<close> when the range leaves the buffer or the caller's data.
\<close>

definition memcpy_into :: "8 word list \<Rightarrow> int \<Rightarrow> 8 word list \<Rightarrow> nat \<Rightarrow> 8 word list option" where
  "memcpy_into buf pos data n =
     (if 0 \<le> pos \<and> pos + int n \<le> int (length buf) \<and> n \<le> length data
      then Some (take (nat pos) buf @ take n data @ drop (nat pos + n) buf)
      else None)"

text \<open>
  \<^verbatim>\<open>readData\<close> returns the bytes copied to the caller, the count, and the device.
\<close>

definition readData :: "MemoryDevice \<Rightarrow> int \<Rightarrow> (8 word list \<times> int \<times> MemoryDevice) option" where
  "readData d dataSize =
     (let toRead = bytesAvailable d;
          toRead = (if dataSize < toRead then dataSize else toRead)
      in case memcpy_from (buffer d) (currentPos d) (to_size_t toRead) of
           None \<Rightarrow> None
         | Some bytes \<Rightarrow> Some (bytes, toRead, d\<lparr>currentPos := currentPos d + toRead\<rparr>))"

definition writeData :: "MemoryDevice \<Rightarrow> 8 word list \<Rightarrow> int \<Rightarrow> (int \<times> MemoryDevice) option" where
  "writeData d data dataSize =
     (let toWrite = bytesAvailable d;
          toWrite = (if dataSize < toWrite then dataSize else toWrite)
      in case memcpy_into (buffer d) (currentPos d) data (to_size_t toWrite) of
           None \<Rightarrow> None
         | Some buf \<Rightarrow> Some (toWrite, d\<lparr>buffer := buf, currentPos := currentPos d + toWrite\<rparr>))"

text \<open>
  The constructors from a size and from a buffer (lines 8 to 13 and 34 to 39), and
  \<^verbatim>\<open>resize\<close> (lines 128 to 131), which passes its argument to
  \<^verbatim>\<open>std::vector::resize\<close> and leaves the position as it is. A vector of bytes holds
  at most \<open>2^63 - 1\<close> of them: beyond that the library throws \<^verbatim>\<open>std::length_error\<close>,
  the answer \<open>None\<close>. New bytes are zero.
\<close>

definition max_size :: nat where
  "max_size = 2 ^ 63 - 1"

definition MemoryDevice_size :: "int \<Rightarrow> MemoryDevice option" where
  "MemoryDevice_size sz =
     (if to_size_t sz > max_size then None
      else Some \<lparr>buffer = replicate (to_size_t sz) 0, currentPos = 0\<rparr>)"

definition MemoryDevice_buffer :: "8 word list \<Rightarrow> MemoryDevice" where
  "MemoryDevice_buffer initBuffer = \<lparr>buffer = initBuffer, currentPos = 0\<rparr>"

definition resize :: "MemoryDevice \<Rightarrow> int \<Rightarrow> MemoryDevice option" where
  "resize d sz =
     (let n = to_size_t sz
      in if n > max_size then None
         else Some (d\<lparr>buffer := take n (buffer d) @ replicate (n - length (buffer d)) 0\<rparr>))"

text \<open>The position is inside the buffer, or at its end.\<close>

definition positionInside :: "MemoryDevice \<Rightarrow> bool" where
  "positionInside d \<longleftrightarrow> 0 \<le> currentPos d \<and> currentPos d \<le> size_dev d"

section \<open>The engine: data\<close>

text \<open>
  The engine (\<^verbatim>\<open>class Engine\<close>, unnamed/part_000) works on the rigid-body model of the
  pinocchio library, on a \<^verbatim>\<open>Model\<close> (declared in unnamed/part_001) and on a
  controller. The records below hold the members the engine reads and writes; vectors
  indexed by the code are lists, read with \<open>!\<close>. The indices the code uses are the
  ones \<^verbatim>\<open>Model::initialize\<close> computed; a read out of range is undefined behaviour in
  C++ and an unspecified value here.
\<close>

subsection \<open>Three-dimensional vectors and matrices\<close>

definition x3 :: "vector3_t \<Rightarrow> real" where "x3 p = fst p"
definition y3 :: "vector3_t \<Rightarrow> real" where "y3 p = fst (snd p)"
definition z3 :: "vector3_t \<Rightarrow> real" where "z3 p = snd (snd p)"

definition dot3 :: "vector3_t \<Rightarrow> vector3_t \<Rightarrow> real" where
  "dot3 a b = x3 a * x3 b + y3 a * y3 b + z3 a * z3 b"

definition cross3 :: "vector3_t \<Rightarrow> vector3_t \<Rightarrow> vector3_t" where
  "cross3 a b =
     (y3 a * z3 b - z3 a * y3 b, z3 a * x3 b - x3 a * z3 b, x3 a * y3 b - y3 a * x3 b)"

definition mat_vec :: "matrix3_t \<Rightarrow> vector3_t \<Rightarrow> vector3_t" where
  "mat_vec m p = (dot3 (fst m) p, dot3 (fst (snd m)) p, dot3 (snd (snd m)) p)"

definition transpose3 :: "matrix3_t \<Rightarrow> matrix3_t" where
  "transpose3 m =
     (let r1 = fst m; r2 = fst (snd m); r3 = snd (snd m)
      in ((x3 r1, x3 r2, x3 r3), (y3 r1, y3 r2, y3 r3), (z3 r1, z3 r2, z3 r3)))"

definition mat_mul :: "matrix3_t \<Rightarrow> matrix3_t \<Rightarrow> matrix3_t" where
  "mat_mul a b =
     (let c = transpose3 b
      in (mat_vec c (fst a), mat_vec c (fst (snd a)), mat_vec c (snd (snd a))))"

definition vec_add :: "vectorN_t \<Rightarrow> vectorN_t \<Rightarrow> vectorN_t" where
  "vec_add a b = map2 (+) a b"

definition Zero :: "nat \<Rightarrow> vectorN_t" where
  "Zero n = replicate n 0"

subsection \<open>Options\<close>

record contactOptions_t =
  frictionViscous :: real
  frictionDry :: real
  dryFrictionVelEps :: real
  stiffness :: real
  damping :: real
  transitionEps :: real

record jointOptions_t =
  boundStiffness :: real
  boundDamping :: real
  boundTransitionEps :: real

record worldOptions_t =
  gravity :: vectorN_t

record stepperOptions_t =
  randomSeed :: int
  tolAbs :: real
  tolRel :: real
  sensorsUpdatePeriod :: real
  controllerUpdatePeriod :: real

record telemetryOptions_t =
  logConfiguration :: bool
  logVelocity :: bool
  logAcceleration :: bool
  logCommand :: bool

text \<open>
  \<^verbatim>\<open>engineOptions_t\<close> is the typed view of the options; the holder
  (\<^verbatim>\<open>configHolder_t\<close>) it is built from carries the same keys, and is the same record
  here.
\<close>

record engineOptions_t =
  telemetry :: telemetryOptions_t
  stepper :: stepperOptions_t
  world :: worldOptions_t
  joints :: jointOptions_t
  contacts :: contactOptions_t

type_synonym configHolder_t = engineOptions_t

subsection \<open>The rigid-body model and the Model\<close>

record SE3 =
  rotation :: matrix3_t
  translation :: vector3_t

record Frame =
  placement :: SE3
  parent :: nat

text \<open>
  Of \<^verbatim>\<open>pinocchio::Model\<close>: the frames, the number of joints (\<^verbatim>\<open>joints.size()\<close>), the
  effort limits and the gravity. Of \<^verbatim>\<open>pinocchio::Data\<close>: the frame placements in the
  world \<^verbatim>\<open>oMf\<close> and, per frame, the linear part of the motion
  \<^verbatim>\<open>pinocchio::getFrameVelocity\<close> returns for it, both left there by the forward
  kinematics.
\<close>

record pncModel_t =
  frames :: "Frame list"
  njoints :: nat
  effortLimit :: vectorN_t
  gravity_pnc :: vectorN_t

record pncData_t =
  oMf :: "SE3 list"
  frameVelocityLinear :: "vector3_t list"

definition getFrameVelocity_linear :: "pncModel_t \<Rightarrow> pncData_t \<Rightarrow> nat \<Rightarrow> vector3_t" where
  "getFrameVelocity_linear M D frameId = frameVelocityLinear D ! frameId"

record mdlJointOptions_t =
  boundsFromUrdf :: bool
  boundsMin :: vectorN_t
  boundsMax :: vectorN_t

record modelOptions_t =
  joints_mdl :: mdlJointOptions_t

text \<open>
  Modelled from the spec: Model.cc is not among the sources. \<^verbatim>\<open>setSensorsData\<close>
  refreshes the sensors from \<open>(t, q, v, a, u)\<close>; the model keeps the arguments of the
  latest refresh, and \<^verbatim>\<open>reset\<close> forgets them.
\<close>

record Model =
  pncModel :: pncModel_t
  pncData :: pncData_t
  mdlOptions :: modelOptions_t
  contactForces :: "vectorN_t list"
  sensorsData :: "(real \<times> vectorN_t \<times> vectorN_t \<times> vectorN_t \<times> vectorN_t) option"
  contactFramesIdx :: "nat list"
  jointsPositionIdx :: "nat list"
  jointsVelocityIdx :: "nat list"
  nq :: nat
  nv :: nat
  nx :: nat

definition setSensorsData ::
  "real \<Rightarrow> vectorN_t \<Rightarrow> vectorN_t \<Rightarrow> vectorN_t \<Rightarrow> vectorN_t \<Rightarrow> Model \<Rightarrow> Model" where
  "setSensorsData t q v a u M = M\<lparr>sensorsData := Some (t, q, v, a, u)\<rparr>"

definition reset_model :: "Model \<Rightarrow> Model" where
  "reset_model M = M\<lparr>sensorsData := None\<rparr>"

subsection \<open>The controller\<close>

text \<open>
  An \<^verbatim>\<open>AbstractController\<close> is an object with a state of its own (of type \<open>'c\<close>) and
  the three methods the engine calls. \<^verbatim>\<open>compute_command\<close> and \<^verbatim>\<open>internalDynamics\<close>
  read the model, the time, \<open>q\<close> and \<open>v\<close>, and write the vector passed by reference:
  they take its old value and return the new one with the controller's new state.
\<close>

record 'c AbstractController =
  ctrlState :: 'c
  compute_command ::
    "Model \<Rightarrow> real \<Rightarrow> vectorN_t \<Rightarrow> vectorN_t \<Rightarrow> vectorN_t \<Rightarrow> 'c \<Rightarrow> vectorN_t \<times> 'c"
  internalDynamics ::
    "Model \<Rightarrow> real \<Rightarrow> vectorN_t \<Rightarrow> vectorN_t \<Rightarrow> vectorN_t \<Rightarrow> 'c \<Rightarrow> vectorN_t \<times> 'c"
  reset_ctrl :: "'c \<Rightarrow> 'c"

subsection \<open>Stepper state, telemetry, engine\<close>

text \<open>
  \<^verbatim>\<open>stepperState_t\<close> is declared in Engine.h, which is not among the sources; its
  members are the ones part_000 reads and writes. The members \<^verbatim>\<open>x\<close> and \<^verbatim>\<open>dxdt\<close>
  are \<open>xState\<close> and \<open>dxdtState\<close> here.
\<close>

record stepperState_t =
  iterLast :: nat
  tLast :: real
  qLast :: vectorN_t
  vLast :: vectorN_t
  aLast :: vectorN_t
  uLast :: vectorN_t
  uCommandLast :: vectorN_t
  energyLast :: real
  xState :: vectorN_t
  dxdtState :: vectorN_t
  uControl :: vectorN_t
  uInternal :: vectorN_t
  uBounds :: vectorN_or_nan

text \<open>
  Modelled from the spec: the telemetry classes are not among the sources. The channels
  \<open>q\<close>, \<open>v\<close>, \<open>a\<close> and \<open>u_cmd\<close> are registered once (\<open>None\<close>: not registered), the
  energy always; \<^verbatim>\<open>updateVectorValue\<close> overwrites a registered channel and leaves an
  unregistered one alone; \<^verbatim>\<open>flushDataSnapshot(t)\<close> appends a row, the time and a copy
  of the channels, to the record.
\<close>

record TelemetryData =
  qEntry :: "vectorN_t option"
  vEntry :: "vectorN_t option"
  aEntry :: "vectorN_t option"
  uCommandEntry :: "vectorN_t option"
  energyEntry :: real

definition updateVectorValue :: "vectorN_t option \<Rightarrow> vectorN_t \<Rightarrow> vectorN_t option" where
  "updateVectorValue entry val = (case entry of None \<Rightarrow> None | Some _ \<Rightarrow> Some val)"

record 'c Engine =
  engineOptions :: engineOptions_t
  isInitialized :: bool
  model :: Model
  controller :: "'c AbstractController"
  engineOptionsHolder :: configHolder_t
  callbackFct :: "real \<Rightarrow> vectorN_t \<Rightarrow> bool"
  telemetryData :: TelemetryData
  telemetryRecorder :: "(real \<times> TelemetryData) list"
  stepperState :: stepperState_t

section \<open>Contact dynamics\<close>

text \<open>
  \<^verbatim>\<open>Engine::contactDynamics\<close> (part_000, lines 422 to 495). \<open>frictionCoeff\<close> is the
  local variable of that name (lines 458 to 475), a function of the tangential speed;
  \<open>fextInWorld\<close> is the local variable of that name as it stands at line 482, a
  function of the height \<open>posFrame(2)\<close> and of the frame's velocity in the world.
\<close>

definition frictionCoeff :: "contactOptions_t \<Rightarrow> real \<Rightarrow> real" where
  "frictionCoeff contactOptions vNorm =
     (if vNorm > dryFrictionVelEps contactOptions
      then (if vNorm < 1.5 * dryFrictionVelEps contactOptions
            then - 2.0 * vNorm * (frictionDry contactOptions - frictionViscous contactOptions)
                   / dryFrictionVelEps contactOptions + 3.0 * frictionDry contactOptions
                 - 2.0 * frictionViscous contactOptions
            else frictionViscous contactOptions)
      else vNorm * frictionDry contactOptions / dryFrictionVelEps contactOptions)"

definition fextInWorld :: "contactOptions_t \<Rightarrow> real \<Rightarrow> vector3_t \<Rightarrow> vector3_t" where
  "fextInWorld contactOptions pz vFrameInWorld =
     (let dmp = (if z3 vFrameInWorld < 0
                 then - damping contactOptions * z3 vFrameInWorld else 0);
          fz = - stiffness contactOptions * pz + dmp;
          vxy = (x3 vFrameInWorld, y3 vFrameInWorld);
          vNorm = sqrt ((fst vxy)\<^sup>2 + (snd vxy)\<^sup>2);
          mu = frictionCoeff contactOptions vNorm;
          fx = - fst vxy * mu * fz;
          fy = - snd vxy * mu * fz
      in (min (max fx (- 100000)) 100000, min (max fy (- 100000)) 100000, fz))"

definition contactDynamics :: "'c Engine \<Rightarrow> nat \<Rightarrow> vectorN_t" where
  "contactDynamics E frameId =
     (let contactOptions = contacts (engineOptions E);
          tformFrameRot = rotation (oMf (pncData (model E)) ! frameId);
          posFrame = translation (oMf (pncData (model E)) ! frameId);
          fextLocal = Zero 6
      in if z3 posFrame < 0.0
         then (let tformFrameJointRot =
                     rotation (placement (frames (pncModel (model E)) ! frameId));
                   posFrameJoint =
                     translation (placement (frames (pncModel (model E)) ! frameId));
                   motionFrame =
                     getFrameVelocity_linear (pncModel (model E)) (pncData (model E)) frameId;
                   vFrameInWorld = mat_vec tformFrameRot motionFrame;
                   fw = fextInWorld contactOptions (z3 posFrame) vFrameInWorld;
                   hd3 = mat_vec (mat_mul tformFrameJointRot (transpose3 tformFrameRot)) fw;
                   tl3 = cross3 posFrameJoint hd3;
                   fextLocal = [x3 hd3, y3 hd3, z3 hd3, x3 tl3, y3 tl3, z3 tl3];
                   blendingFactor = - z3 posFrame / transitionEps contactOptions;
                   blendingLaw = tanh (2 * blendingFactor)
               in map (\<lambda>c. c * blendingLaw) fextLocal)
         else fextLocal)"

section \<open>Joint-limit dynamics\<close>

text \<open>
  \<^verbatim>\<open>Engine::boundsDynamics\<close> (part_000, lines 497 to 537). \<open>boundsBlendingLaw\<close> is
  the local variable \<^verbatim>\<open>blendingLaw\<close> of lines 531 and 532,
  \<^verbatim>\<open>tanh(2 * (qJointError / boundTransitionEps))\<close>, as the double arithmetic gives it: over
  a zero scale the quotient of a zero error is NaN, and the quotient of a positive
  (negative) error is plus (minus) infinity, whose \<^verbatim>\<open>tanh\<close> is \<open>1\<close> (\<open>- 1\<close>).
  \<open>forceJoint\<close> is the local variable of that name as it stands at line 533, the body of
  the loop for one joint: a product with NaN is NaN. The loop adds it to the row
  \<^verbatim>\<open>jointsVelocityIdx[i]\<close> of the output, and a sum with NaN is NaN (\<open>fadd\<close>).
\<close>

definition boundsBlendingLaw :: "real \<Rightarrow> real \<Rightarrow> float64_or_nan" where
  "boundsBlendingLaw qJointError eps =
     (if eps \<noteq> 0 then Some (tanh (2 * (qJointError / eps)))
      else if qJointError = 0 then None
      else if qJointError > 0 then Some 1
      else Some (- 1))"

definition fadd :: "float64_or_nan \<Rightarrow> float64_or_nan \<Rightarrow> float64_or_nan" where
  "fadd a b = (case a of None \<Rightarrow> None | Some x \<Rightarrow> map_option (\<lambda>y. x + y) b)"

definition forceJoint ::
  "jointOptions_t \<Rightarrow> real \<Rightarrow> real \<Rightarrow> real \<Rightarrow> real \<Rightarrow> float64_or_nan" where
  "forceJoint engineJointOptions qJoint vJoint qJointMin qJointMax =
     (let (force, qJointError) =
            (if qJoint > qJointMax
             then (let qJointError = qJoint - qJointMax;
                       dmp = - boundDamping engineJointOptions * max vJoint 0.0
                   in (- boundStiffness engineJointOptions * qJointError + dmp, qJointError))
             else if qJoint < qJointMin
             then (let qJointError = qJointMin - qJoint;
                       dmp = - boundDamping engineJointOptions * min vJoint 0.0
                   in (boundStiffness engineJointOptions * qJointError + dmp, qJointError))
             else (0, 0));
          blendingLaw = boundsBlendingLaw qJointError (boundTransitionEps engineJointOptions)
      in map_option (\<lambda>blendingLaw. force * blendingLaw) blendingLaw)"

definition boundsDynamics :: "'c Engine \<Rightarrow> vectorN_t \<Rightarrow> vectorN_t \<Rightarrow> vectorN_or_nan" where
  "boundsDynamics E q v =
     (let u = map Some (Zero (nv (model E)));
          mdlJointOptions = joints_mdl (mdlOptions (model E));
          engineJointOptions = joints (engineOptions E);
          jointsPositionIdx = jointsPositionIdx (model E);
          jointsVelocityIdx = jointsVelocityIdx (model E)
      in fold (\<lambda>i u.
                 u[jointsVelocityIdx ! i :=
                     fadd (u ! (jointsVelocityIdx ! i))
                       (forceJoint engineJointOptions (q ! (jointsPositionIdx ! i))
                          (v ! (jointsVelocityIdx ! i))
                          (boundsMin mdlJointOptions ! i) (boundsMax mdlJointOptions ! i))])
              [0..<length jointsPositionIdx] u)"

section \<open>Options and break-point period\<close>

text \<open>\<^verbatim>\<open>Engine::setOptions\<close> (part_000, lines 544 to 552).\<close>

definition setOptions :: "'c Engine \<Rightarrow> configHolder_t \<Rightarrow> 'c Engine" where
  "setOptions E opts =
     (let E = E\<lparr>engineOptionsHolder := opts\<rparr>;
          E = E\<lparr>engineOptions := engineOptionsHolder E\<rparr>
      in if isInitialized E
         then E\<lparr>model := (model E)\<lparr>pncModel :=
                  (pncModel (model E))\<lparr>gravity_pnc := gravity (world (engineOptions E))\<rparr>\<rparr>\<rparr>
         else E)"

text \<open>\<^verbatim>\<open>std::numeric_limits<float64_t>::epsilon()\<close>, the machine epsilon of a double.\<close>

definition epsilon :: real where
  "epsilon = 1 / 2 ^ 52"

text \<open>
  The local variable \<^verbatim>\<open>updatePeriod\<close> of \<^verbatim>\<open>Engine::simulate\<close> (part_000, lines 193 to
  207), a function of the stepper options.
\<close>

definition updatePeriod :: "stepperOptions_t \<Rightarrow> real" where
  "updatePeriod so =
     (if sensorsUpdatePeriod so < epsilon then controllerUpdatePeriod so
      else if controllerUpdatePeriod so < epsilon then sensorsUpdatePeriod so
      else min (sensorsUpdatePeriod so) (controllerUpdatePeriod so))"

section \<open>System dynamics\<close>

text \<open>
  The libraries the engine calls are parameters of the model. Of pinocchio: the forward
  kinematics (with the frames' placements), a fresh \<^verbatim>\<open>Data\<close>, \<^verbatim>\<open>aba\<close>, \<^verbatim>\<open>rnea\<close>,
  \<^verbatim>\<open>integrate\<close> and the two energies, as functions of the model and of their vector
  arguments. Of boost::odeint: the controlled stepper's \<^verbatim>\<open>try_step\<close>, which evaluates
  the right-hand side it is given any number of times, at points of its choice, and
  then answers; it is a program over right-hand-side calls, so that every effect of a
  step on the engine goes through \<^verbatim>\<open>systemDynamics\<close>. \<^verbatim>\<open>try_step\<close> answers whether the
  step succeeded and the new \<open>x\<close>, \<open>dxdt\<close>, \<open>t\<close> and \<open>dt\<close> (it takes all four by
  reference).
\<close>

datatype controlled_step_result = success | fail

datatype 'a rhs_prog = Return 'a | Rhs real vectorN_t "vectorN_t \<Rightarrow> 'a rhs_prog"

type_synonym step_answer = "controlled_step_result \<times> vectorN_t \<times> vectorN_t \<times> real \<times> real"

record ext_t =
  forwardKinematics :: "pncModel_t \<Rightarrow> vectorN_t \<Rightarrow> vectorN_t \<Rightarrow> pncData_t"
  newData :: "pncModel_t \<Rightarrow> pncData_t"
  aba :: "pncModel_t \<Rightarrow> vectorN_t \<Rightarrow> vectorN_t \<Rightarrow> vectorN_or_nan \<Rightarrow> vectorN_t list \<Rightarrow> vectorN_t"
  rnea :: "pncModel_t \<Rightarrow> vectorN_t \<Rightarrow> vectorN_t \<Rightarrow> vectorN_t \<Rightarrow> vectorN_t"
  integrate :: "pncModel_t \<Rightarrow> vectorN_t \<Rightarrow> vectorN_t \<Rightarrow> vectorN_t"
  kineticEnergy :: "pncModel_t \<Rightarrow> vectorN_t \<Rightarrow> vectorN_t \<Rightarrow> real"
  potentialEnergy :: "pncModel_t \<Rightarrow> vectorN_t \<Rightarrow> real"
  try_step ::
    "real \<Rightarrow> real \<Rightarrow> vectorN_t \<Rightarrow> vectorN_t \<Rightarrow> real \<Rightarrow> real \<Rightarrow> step_answer rhs_prog"

primrec run_prog ::
  "(real \<Rightarrow> vectorN_t \<Rightarrow> 's \<Rightarrow> vectorN_t \<times> 's) \<Rightarrow> 'a rhs_prog \<Rightarrow> 's \<Rightarrow> 'a \<times> 's" where
  "run_prog f (Return a) = (\<lambda>s. (a, s))"
| "run_prog f (Rhs t x k) = (\<lambda>s. case f t x s of (d, s') \<Rightarrow> run_prog f (k d) s')"

text \<open>\<^verbatim>\<open>boost::algorithm::clamp(val, lo, hi)\<close>.\<close>

definition clamp :: "real \<Rightarrow> real \<Rightarrow> real \<Rightarrow> real" where
  "clamp val lo hi = (if val < lo then lo else if hi < val then hi else val)"

text \<open>
  The saturation loop that follows each call of \<^verbatim>\<open>compute_command\<close> (part_000, lines
  290 to 297 in \<^verbatim>\<open>simulate\<close> and, the same text, lines 389 to 396 in
  \<^verbatim>\<open>systemDynamics\<close>): \<open>clampEntry\<close> is its body for the index \<open>i\<close>.
\<close>

definition clampEntry :: "Model \<Rightarrow> nat \<Rightarrow> stepperState_t \<Rightarrow> stepperState_t" where
  "clampEntry M i st =
     (let jointId = jointsVelocityIdx M ! i;
          torque_max = effortLimit (pncModel M) ! jointId;
          st = st\<lparr>uCommandLast :=
                  (uCommandLast st)[i := clamp (uCommandLast st ! i) (- torque_max) torque_max]\<rparr>
      in st\<lparr>uControl := (uControl st)[jointId := uCommandLast st ! i]\<rparr>)"

definition clampCommand :: "Model \<Rightarrow> stepperState_t \<Rightarrow> stepperState_t" where
  "clampCommand M st = fold (clampEntry M) [0..<length (jointsVelocityIdx M)] st"

text \<open>
  \<^verbatim>\<open>controller_->compute_command(*model_, t, q, v, stepperState_.uCommandLast)\<close>
  followed by the saturation loop.
\<close>

definition commandAndClamp :: "real \<Rightarrow> vectorN_t \<Rightarrow> vectorN_t \<Rightarrow> 'c Engine \<Rightarrow> 'c Engine" where
  "commandAndClamp t q v E =
     (let (u, c) = compute_command (controller E) (model E) t q v
                     (uCommandLast (stepperState E)) (ctrlState (controller E));
          E = E\<lparr>controller := (controller E)\<lparr>ctrlState := c\<rparr>,
                stepperState := (stepperState E)\<lparr>uCommandLast := u\<rparr>\<rparr>
      in E\<lparr>stepperState := clampCommand (model E) (stepperState E)\<rparr>)"

text \<open>
  \<^verbatim>\<open>Engine::systemDynamics\<close> (part_000, lines 352 to 420), block by block. First the
  kinematics (lines 363 to 365).
\<close>

definition updateKinematics :: "ext_t \<Rightarrow> vectorN_t \<Rightarrow> vectorN_t \<Rightarrow> 'c Engine \<Rightarrow> 'c Engine" where
  "updateKinematics X q v E =
     E\<lparr>model := (model E)\<lparr>pncData := forwardKinematics X (pncModel (model E)) q v\<rparr>\<rparr>"

text \<open>
  The external forces (lines 367 to 377): the loop over the contact frames fills the
  model's buffer \<^verbatim>\<open>contactForces_\<close> and accumulates \<^verbatim>\<open>fext\<close>, one force per joint.
\<close>

definition contactLoop :: "'c Engine \<Rightarrow> vectorN_t list \<times> vectorN_t list" where
  "contactLoop E =
     (let contactFramesIdx = contactFramesIdx (model E)
      in fold (\<lambda>i (cf, fext).
                 let contactFrameIdx = contactFramesIdx ! i;
                     cf = cf[i := contactDynamics E contactFrameIdx];
                     parentIdx = parent (frames (pncModel (model E)) ! contactFrameIdx)
                 in (cf, fext[parentIdx := vec_add (fext ! parentIdx) (cf ! i)]))
              [0..<length contactFramesIdx]
              (contactForces (model E), replicate (njoints (pncModel (model E))) (Zero 6)))"

definition externalForces :: "'c Engine \<Rightarrow> vectorN_t list \<times> 'c Engine" where
  "externalForces E =
     (let (cf, fext) = contactLoop E
      in (fext, E\<lparr>model := (model E)\<lparr>contactForces := cf\<rparr>\<rparr>))"

text \<open>The sensors, for an infinite update frequency (lines 379 to 383).\<close>

definition updateSensors :: "real \<Rightarrow> vectorN_t \<Rightarrow> vectorN_t \<Rightarrow> 'c Engine \<Rightarrow> 'c Engine" where
  "updateSensors t q v E =
     (if sensorsUpdatePeriod (stepper (engineOptions E)) < epsilon
      then E\<lparr>model := setSensorsData t q v (aLast (stepperState E))
                         (uLast (stepperState E)) (model E)\<rparr>
      else E)"

text \<open>The command, for an infinite update frequency (lines 385 to 397).\<close>

definition updateCommand :: "real \<Rightarrow> vectorN_t \<Rightarrow> vectorN_t \<Rightarrow> 'c Engine \<Rightarrow> 'c Engine" where
  "updateCommand t q v E =
     (if controllerUpdatePeriod (stepper (engineOptions E)) < epsilon
      then commandAndClamp t q v E
      else E)"

text \<open>The internal dynamics and the joint bounds (lines 399 to 401).\<close>

definition updateInternal :: "real \<Rightarrow> vectorN_t \<Rightarrow> vectorN_t \<Rightarrow> 'c Engine \<Rightarrow> 'c Engine" where
  "updateInternal t q v E =
     (let (ui, c) = internalDynamics (controller E) (model E) t q v
                      (uInternal (stepperState E)) (ctrlState (controller E));
          E = E\<lparr>controller := (controller E)\<lparr>ctrlState := c\<rparr>,
                stepperState := (stepperState E)\<lparr>uInternal := ui\<rparr>\<rparr>
      in E\<lparr>stepperState := (stepperState E)\<lparr>uBounds := boundsDynamics E q v\<rparr>\<rparr>)"

text \<open>
  The whole: the derivative written to \<^verbatim>\<open>dxdt\<close> (\<open>qDot\<close>, of size \<open>nq\<close>, then \<open>a\<close>,
  of size \<open>nv\<close>), and the engine. The force \<open>u\<close> handed to \<^verbatim>\<open>aba\<close> is the sum of the
  three forces, NaN in a row where the joint bounds gave NaN.
\<close>

definition systemDynamics ::
  "ext_t \<Rightarrow> real \<Rightarrow> vectorN_t \<Rightarrow> 'c Engine \<Rightarrow> vectorN_t \<times> 'c Engine" where
  "systemDynamics X t x E =
     (let q = take (nq (model E)) x;
          v = drop (length x - nv (model E)) x;
          E = updateKinematics X q v E;
          (fext, E) = externalForces E;
          E = updateSensors t q v E;
          E = updateCommand t q v E;
          E = updateInternal t q v E;
          u = map2 fadd (map2 fadd (uBounds (stepperState E))
                           (map Some (uInternal (stepperState E))))
                (map Some (uControl (stepperState E)));
          a = aba X (pncModel (model E)) q v u fext;
          dt = max (1 / 10 ^ 5) (t - tLast (stepperState E));
          qNext = integrate X (pncModel (model E)) q (map (\<lambda>c. c * dt) v);
          qDot = map (\<lambda>c. c / dt) (map2 (-) qNext q)
      in (qDot @ a, E))"

section \<open>The integration loop\<close>

text \<open>
  Modelled from the spec: the two member functions of \<^verbatim>\<open>stepperState_t\<close> that
  \<^verbatim>\<open>simulate\<close> calls are in Engine.h, not among the sources. \<^verbatim>\<open>initialize\<close> resets
  the snapshot to the initial state \<open>x_init\<close> at time zero, with zero forces and the
  iteration counter at zero; \<^verbatim>\<open>updateLast\<close> stores a snapshot and counts the
  iteration.
\<close>

definition initialize_stepperState :: "Model \<Rightarrow> vectorN_t \<Rightarrow> stepperState_t" where
  "initialize_stepperState M x_init =
     \<lparr>iterLast = 0, tLast = 0,
      qLast = take (nq M) x_init, vLast = drop (length x_init - nv M) x_init,
      aLast = Zero (nv M), uLast = Zero (nv M),
      uCommandLast = Zero (length (jointsVelocityIdx M)), energyLast = 0,
      xState = x_init, dxdtState = Zero (nx M),
      uControl = Zero (nv M), uInternal = Zero (nv M), uBounds = map Some (Zero (nv M))\<rparr>"

definition updateLast ::
  "real \<Rightarrow> vectorN_t \<Rightarrow> vectorN_t \<Rightarrow> vectorN_t \<Rightarrow> vectorN_t \<Rightarrow> vectorN_t \<Rightarrow> real \<Rightarrow>
   stepperState_t \<Rightarrow> stepperState_t" where
  "updateLast t q v a u uCommand energy st =
     st\<lparr>tLast := t, qLast := q, vLast := v, aLast := a, uLast := u,
        uCommandLast := uCommand, energyLast := energy, iterLast := iterLast st + 1\<rparr>"

text \<open>
  The variables of the loop of \<^verbatim>\<open>simulate\<close>: the engine, \<^verbatim>\<open>dt\<close>, \<^verbatim>\<open>current_time\<close>,
  \<^verbatim>\<open>next_time\<close>, the counter of odeint's \<^verbatim>\<open>failed_step_checker\<close>, and the exception
  in flight, if one was thrown.
\<close>

datatype exception = step_adjustment_error

record 'c loopState =
  eng :: "'c Engine"
  dt :: real
  current_time :: real
  next_time :: real
  fail_checker :: nat
  thrown :: "exception option"

text \<open>
  \<^verbatim>\<open>failed_step_checker::operator()\<close> of boost::odeint, with its default of 500 steps:
  \<^verbatim>\<open>if (m_steps++ >= m_max_steps) throw step_adjustment_error\<close>.
\<close>

definition fail_check :: "'c loopState \<Rightarrow> 'c loopState" where
  "fail_check L =
     (if fail_checker L \<ge> 500
      then L\<lparr>fail_checker := fail_checker L + 1, thrown := Some step_adjustment_error\<rparr>
      else L\<lparr>fail_checker := fail_checker L + 1\<rparr>)"

text \<open>\<^verbatim>\<open>std::round\<close>: to the nearest integer, halves away from zero.\<close>

definition std_round :: "real \<Rightarrow> real" where
  "std_round r = (if r \<ge> 0 then of_int \<lfloor>r + 1 / 2\<rfloor> else - of_int \<lfloor>- r + 1 / 2\<rfloor>)"

text \<open>
  The head of the loop (lines 226 to 245): the enabled channels take the values of the
  last snapshot and a row is flushed at \<^verbatim>\<open>tLast\<close>. (The sensors' own telemetry is not
  part of the model.)
\<close>

definition publish :: "'c Engine \<Rightarrow> 'c Engine" where
  "publish E =
     (let tel = telemetry (engineOptions E);
          st = stepperState E;
          td = telemetryData E;
          td = (if logConfiguration tel
                then td\<lparr>qEntry := updateVectorValue (qEntry td) (qLast st)\<rparr> else td);
          td = (if logVelocity tel
                then td\<lparr>vEntry := updateVectorValue (vEntry td) (vLast st)\<rparr> else td);
          td = (if logAcceleration tel
                then td\<lparr>aEntry := updateVectorValue (aEntry td) (aLast st)\<rparr> else td);
          td = (if logCommand tel
                then td\<lparr>uCommandEntry := updateVectorValue (uCommandEntry td) (uCommandLast st)\<rparr>
                else td);
          td = td\<lparr>energyEntry := energyLast st\<rparr>
      in E\<lparr>telemetryData := td, telemetryRecorder := telemetryRecorder E @ [(tLast st, td)]\<rparr>)"

text \<open>The test of lines 250 to 252.\<close>

definition stopCondition :: "real \<Rightarrow> 'c loopState \<Rightarrow> bool" where
  "stopCondition end_time L \<longleftrightarrow>
     \<bar>end_time - current_time L\<bar> < epsilon
     \<or> \<not> callbackFct (eng L) (current_time L) (xState (stepperState (eng L)))
     \<or> real (iterLast (stepperState (eng L))) \<ge> 10 ^ 5"

text \<open>
  One call of the stepper: \<^verbatim>\<open>stepper.try_step(rhsBind, x, dxdt, t, dt)\<close> on the state
  of the engine, with \<^verbatim>\<open>systemDynamics\<close> as right-hand side. The answer's \<open>x\<close> and
  \<open>dxdt\<close> are written to the stepper state; the result, \<open>t\<close> and \<open>dt\<close> are returned.
\<close>

definition tryStep ::
  "ext_t \<Rightarrow> real \<Rightarrow> real \<Rightarrow> 'c Engine \<Rightarrow> (controlled_step_result \<times> real \<times> real) \<times> 'c Engine" where
  "tryStep X t h E =
     (let so = stepper (engineOptions E);
          ((res, x', dxdt', t', h'), E) =
             run_prog (systemDynamics X)
               (try_step X (tolAbs so) (tolRel so) (xState (stepperState E))
                  (dxdtState (stepperState E)) t h) E
      in ((res, t', h'), E\<lparr>stepperState := (stepperState E)\<lparr>xState := x', dxdtState := dxdt'\<rparr>\<rparr>))"

text \<open>Break-point mode: the body of the inner loop (lines 305 to 316), and the loop.\<close>

definition stepBreakpoint :: "ext_t \<Rightarrow> 'c loopState \<Rightarrow> 'c loopState" where
  "stepBreakpoint X L =
     (let current_dt = min (dt L) (next_time L - current_time L);
          ((res, t', current_dt), E) = tryStep X (current_time L) current_dt (eng L);
          L = L\<lparr>eng := E, current_time := t'\<rparr>
      in if res = success
         then L\<lparr>fail_checker := 0, dt := max (dt L) current_dt\<rparr>
         else (let L = fail_check L
               in if thrown L \<noteq> None then L else L\<lparr>dt := current_dt\<rparr>))"

partial_function (option) breakpointLoop :: "ext_t \<Rightarrow> 'c loopState \<Rightarrow> 'c loopState option" where
  "breakpointLoop X L =
     (if thrown L = None \<and> current_time L < next_time L
      then breakpointLoop X (stepBreakpoint X L)
      else Some L)"

text \<open>Free adaptive mode: the body of the inner loop (lines 326 to 334), and the loop.\<close>

definition stepAdaptive :: "ext_t \<Rightarrow> 'c loopState \<Rightarrow> controlled_step_result \<times> 'c loopState" where
  "stepAdaptive X L =
     (let ((res, t', h'), E) = tryStep X (current_time L) (dt L) (eng L);
          L = L\<lparr>eng := E, current_time := t', dt := h'\<rparr>
      in if res = success then (res, L\<lparr>fail_checker := 0\<rparr>) else (res, fail_check L))"

lemma stepAdaptive_fail_checker:
  "stepAdaptive X L = (fail, L') \<Longrightarrow> thrown L' = None \<Longrightarrow>
   fail_checker L < 500 \<and> fail_checker L' = fail_checker L + 1"
  by (auto simp: stepAdaptive_def fail_check_def Let_def split: prod.splits if_splits)

lemma stepAdaptive_measure:
  "(fail, L') = stepAdaptive X L \<Longrightarrow> thrown L' = None \<Longrightarrow>
   500 - fail_checker L' < 500 - fail_checker L"
proof -
  assume "(fail, L') = stepAdaptive X L" and "thrown L' = None"
  then have "fail_checker L < 500 \<and> fail_checker L' = fail_checker L + 1"
    by (intro stepAdaptive_fail_checker) simp_all
  then show ?thesis by linarith
qed

function adaptiveLoop :: "ext_t \<Rightarrow> 'c loopState \<Rightarrow> 'c loopState" where
  "adaptiveLoop X L =
     (case stepAdaptive X L of
        (res, L') \<Rightarrow> if res = fail \<and> thrown L' = None then adaptiveLoop X L' else L')"
  by pat_completeness auto
termination
  by (relation "measure (\<lambda>(X, L). 500 - fail_checker L)")
     (auto intro: stepAdaptive_measure)

declare adaptiveLoop.simps [simp del]

text \<open>
  Break-point mode, before the inner loop (lines 259 to 300): the times move to the next
  break-point (\<open>period\<close> is the value of the local variable \<^verbatim>\<open>updatePeriod\<close>), the
  sensors are refreshed (lines 263 to 276) and the controller is called (lines 278 to
  300) where the time is a multiple of their periods.
\<close>

definition advanceTimes :: "real \<Rightarrow> real \<Rightarrow> 'c loopState \<Rightarrow> 'c loopState" where
  "advanceTimes end_time period L =
     (let L = L\<lparr>current_time := next_time L\<rparr>
      in L\<lparr>next_time := next_time L + min period (end_time - current_time L)\<rparr>)"

definition breakpointSensors :: "real \<Rightarrow> 'c Engine \<Rightarrow> 'c Engine" where
  "breakpointSensors t E =
     (let so = stepper (engineOptions E)
      in if sensorsUpdatePeriod so > 0
         then (let next_time_update_sensor =
                     std_round (t / sensorsUpdatePeriod so) * sensorsUpdatePeriod so
               in if \<bar>t - next_time_update_sensor\<bar> < 1 / 10 ^ 8
                  then E\<lparr>model := setSensorsData (tLast (stepperState E)) (qLast (stepperState E))
                                     (vLast (stepperState E)) (aLast (stepperState E))
                                     (uLast (stepperState E)) (model E)\<rparr>
                  else E)
         else E)"

definition refreshDerivative :: "ext_t \<Rightarrow> real \<Rightarrow> 'c Engine \<Rightarrow> 'c Engine" where
  "refreshDerivative X t E =
     (let (d, E) = systemDynamics X t (xState (stepperState E)) E
      in E\<lparr>stepperState := (stepperState E)\<lparr>dxdtState := d\<rparr>\<rparr>)"

definition breakpointController :: "ext_t \<Rightarrow> real \<Rightarrow> 'c Engine \<Rightarrow> 'c Engine" where
  "breakpointController X t E =
     (let so = stepper (engineOptions E)
      in if controllerUpdatePeriod so > 0
         then (let next_time_update_controller =
                     std_round (t / controllerUpdatePeriod so) * controllerUpdatePeriod so
               in if \<bar>t - next_time_update_controller\<bar> < 1 / 10 ^ 8
                  then refreshDerivative X t
                         (commandAndClamp (tLast (stepperState E)) (qLast (stepperState E))
                            (vLast (stepperState E)) E)
                  else E)
         else E)"

definition breakpointUpdate :: "ext_t \<Rightarrow> real \<Rightarrow> real \<Rightarrow> 'c loopState \<Rightarrow> 'c loopState" where
  "breakpointUpdate X end_time period L =
     (let L = advanceTimes end_time period L
      in L\<lparr>eng := breakpointController X (current_time L)
                     (breakpointSensors (current_time L) (eng L))\<rparr>)"

text \<open>
  After the step (lines 339 to 346): the acceleration is read off \<^verbatim>\<open>dxdt\<close>, the
  efforts are recomputed with \<^verbatim>\<open>rnea\<close>, the energy is evaluated and the snapshot is
  updated.
\<close>

definition postStep :: "ext_t \<Rightarrow> 'c loopState \<Rightarrow> 'c loopState" where
  "postStep X L =
     (let E = eng L;
          st = stepperState E;
          q = take (nq (model E)) (xState st);
          v = drop (length (xState st) - nv (model E)) (xState st);
          a = drop (length (dxdtState st) - nv (model E)) (dxdtState st);
          st = st\<lparr>uLast := rnea X (pncModel (model E)) q v a\<rparr>;
          energy = kineticEnergy X (pncModel (model E)) q v
                   + potentialEnergy X (pncModel (model E)) q;
          st = updateLast (current_time L) q v a (uLast st) (uCommandLast st) energy st
      in L\<lparr>eng := E\<lparr>stepperState := st\<rparr>\<rparr>)"

text \<open>
  The rest of an iteration after the test (lines 257 to 346). \<open>None\<close>: the inner loop
  of the break-point mode does not return. An exception leaves the iteration where it
  was thrown.
\<close>

definition iteration :: "ext_t \<Rightarrow> real \<Rightarrow> real \<Rightarrow> 'c loopState \<Rightarrow> 'c loopState option" where
  "iteration X end_time period L =
     (case (if period > 0
            then breakpointLoop X (breakpointUpdate X end_time period L)
            else Some (adaptiveLoop X (L\<lparr>dt := min (dt L) (end_time - current_time L)\<rparr>))) of
        None \<Rightarrow> None
      | Some L \<Rightarrow> if thrown L \<noteq> None then Some L else Some (postStep X L))"

text \<open>
  Two relations between the engine before and after a piece of a run. \<open>sameStatic\<close>
  lists what a run never changes: the options, the call-back, the structure of the
  model and the controller's methods. \<open>sameSetup\<close> adds what stays between two
  snapshots: the telemetry and the iteration counter.
\<close>

definition sameStatic :: "'c Engine \<Rightarrow> 'c Engine \<Rightarrow> bool" where
  "sameStatic E E' \<longleftrightarrow>
     engineOptions E' = engineOptions E \<and> engineOptionsHolder E' = engineOptionsHolder E \<and>
     isInitialized E' = isInitialized E \<and> callbackFct E' = callbackFct E \<and>
     pncModel (model E') = pncModel (model E) \<and> mdlOptions (model E') = mdlOptions (model E) \<and>
     contactFramesIdx (model E') = contactFramesIdx (model E) \<and>
     jointsPositionIdx (model E') = jointsPositionIdx (model E) \<and>
     jointsVelocityIdx (model E') = jointsVelocityIdx (model E) \<and>
     nq (model E') = nq (model E) \<and> nv (model E') = nv (model E) \<and> nx (model E') = nx (model E) \<and>
     compute_command (controller E') = compute_command (controller E) \<and>
     internalDynamics (controller E') = internalDynamics (controller E) \<and>
     reset_ctrl (controller E') = reset_ctrl (controller E)"

definition sameSetup :: "'c Engine \<Rightarrow> 'c Engine \<Rightarrow> bool" where
  "sameSetup E E' \<longleftrightarrow>
     sameStatic E E' \<and>
     telemetryData E' = telemetryData E \<and> telemetryRecorder E' = telemetryRecorder E \<and>
     iterLast (stepperState E') = iterLast (stepperState E)"

section \<open>A small engine\<close>

text \<open>
  A concrete engine on which the theorems below are instantiated: one actuated joint with
  effort limit 10 and bounds \<open>[-1, 1]\<close>, two frames (the first one unit below the ground
  and moving, the second above it), a controller that writes its request in place into
  the first entry of the vector it is handed (\<open>requestController\<close>; the engine's asks
  for the torque 1000), rigid-body algorithms of a unit mass without gravity, and a
  stepper that takes one explicit Euler step and accepts it. Sensors and controller are
  updated every 50 ms.
\<close>

definition exampleOptions :: engineOptions_t where
  "exampleOptions =
     \<lparr>telemetry = \<lparr>logConfiguration = True, logVelocity = True, logAcceleration = True,
                   logCommand = True\<rparr>,
      stepper = \<lparr>randomSeed = 0, tolAbs = 1 / 10 ^ 5, tolRel = 1 / 10 ^ 4,
                 sensorsUpdatePeriod = 5 / 100, controllerUpdatePeriod = 5 / 100\<rparr>,
      world = \<lparr>gravity = [0, 0, - 981 / 100, 0, 0, 0]\<rparr>,
      joints = \<lparr>boundStiffness = 100000, boundDamping = 10000, boundTransitionEps = 1 / 100\<rparr>,
      contacts = \<lparr>frictionViscous = 1, frictionDry = 1, dryFrictionVelEps = 1,
                  stiffness = 1, damping = 1, transitionEps = 2\<rparr>\<rparr>"

definition identity3 :: matrix3_t where
  "identity3 = ((1, 0, 0), (0, 1, 0), (0, 0, 1))"

definition exampleModel :: Model where
  "exampleModel =
     \<lparr>pncModel =
        \<lparr>frames = [\<lparr>placement = \<lparr>rotation = identity3, translation = (0, 1, 0)\<rparr>, parent = 1\<rparr>,
                   \<lparr>placement = \<lparr>rotation = identity3, translation = (0, 0, 0)\<rparr>, parent = 1\<rparr>],
         njoints = 2, effortLimit = [10], gravity_pnc = [0, 0, 0, 0, 0, 0]\<rparr>,
      pncData =
        \<lparr>oMf = [\<lparr>rotation = identity3, translation = (0, 0, - 1)\<rparr>,
                 \<lparr>rotation = identity3, translation = (0, 0, 1)\<rparr>],
         frameVelocityLinear = [(2, 0, - 1), (0, 0, 0)]\<rparr>,
      mdlOptions = \<lparr>joints_mdl = \<lparr>boundsFromUrdf = False, boundsMin = [- 1], boundsMax = [1]\<rparr>\<rparr>,
      contactForces = [], sensorsData = None,
      contactFramesIdx = [], jointsPositionIdx = [0], jointsVelocityIdx = [0],
      nq = 1, nv = 1, nx = 2\<rparr>"

definition requestController :: "real \<Rightarrow> unit AbstractController" where
  "requestController r =
     \<lparr>ctrlState = (),
      compute_command = (\<lambda>M t q v u c. (u[0 := r], c)),
      internalDynamics = (\<lambda>M t q v u c. (u, c)),
      reset_ctrl = (\<lambda>c. c)\<rparr>"

definition exampleController :: "unit AbstractController" where
  "exampleController = requestController 1000"

definition exampleEngine :: "unit Engine" where
  "exampleEngine =
     \<lparr>engineOptions = exampleOptions, isInitialized = True, model = exampleModel,
      controller = exampleController, engineOptionsHolder = exampleOptions,
      callbackFct = (\<lambda>t x. True),
      telemetryData = \<lparr>qEntry = Some [0], vEntry = Some [0], aEntry = Some [0],
                       uCommandEntry = Some [0], energyEntry = 0\<rparr>,
      telemetryRecorder = [],
      stepperState = initialize_stepperState exampleModel [0, 0]\<rparr>"

definition exampleExt :: ext_t where
  "exampleExt =
     \<lparr>forwardKinematics = (\<lambda>M q v. \<lparr>oMf = [], frameVelocityLinear = []\<rparr>),
      newData = (\<lambda>M. \<lparr>oMf = [], frameVelocityLinear = []\<rparr>),
      aba = (\<lambda>M q v u fext. map (case_option 0 id) u),
      rnea = (\<lambda>M q v a. a),
      integrate = (\<lambda>M q dq. map2 (+) q dq),
      kineticEnergy = (\<lambda>M q v. 0),
      potentialEnergy = (\<lambda>M q. 0),
      try_step = (\<lambda>ta tr x dxdt t h.
                    Rhs t x (\<lambda>d. Return (success, map2 (+) x (map (\<lambda>c. c * h) d), d, t + h, h)))\<rparr>"

section \<open>Saturated commands\<close>

text \<open>
  A command vector is saturated for a model when it has one entry per actuated joint and
  each entry is within the effort limit of its joint. The controller's contract: the
  effort limits of the actuated joints are not negative, and \<^verbatim>\<open>compute_command\<close>,
  handed the engine's model (whatever its kinematic data, contact forces and sensor
  data) and a command vector with one entry per actuated joint, leaves one entry per
  actuated joint in it. This is the test \<^verbatim>\<open>Engine::initialize\<close> makes of a controller
  (part_000, lines 85 to 92), asked of every call; a controller that writes the vector
  in place meets it, and so does one that sizes its answer by the model.
\<close>

definition saturated :: "Model \<Rightarrow> vectorN_t \<Rightarrow> bool" where
  "saturated M u \<longleftrightarrow>
     length u = length (jointsVelocityIdx M) \<and>
     (\<forall>i < length (jointsVelocityIdx M).
        \<bar>u ! i\<bar> \<le> effortLimit (pncModel M) ! (jointsVelocityIdx M ! i))"

definition controllerContract :: "'c Engine \<Rightarrow> bool" where
  "controllerContract E \<longleftrightarrow>
     (\<forall>j \<in> set (jointsVelocityIdx (model E)). 0 \<le> effortLimit (pncModel (model E)) ! j) \<and>
     (\<forall>D cf sd t q v u c.
        length u = length (jointsVelocityIdx (model E)) \<longrightarrow>
        length (fst (compute_command (controller E)
                       ((model E)\<lparr>pncData := D, contactForces := cf, sensorsData := sd\<rparr>)
                       t q v u c))
          = length (jointsVelocityIdx (model E)))"

text \<open>
  The invariant of a run: the contract holds and the stored command is saturated; and,
  with the command logged, every command of the telemetry record is saturated.
\<close>

definition commandInvariant :: "'c Engine \<Rightarrow> bool" where
  "commandInvariant E \<longleftrightarrow>
     controllerContract E \<and> saturated (model E) (uCommandLast (stepperState E))"

definition rowsSaturated :: "'c Engine \<Rightarrow> bool" where
  "rowsSaturated E \<longleftrightarrow>
     (\<forall>row \<in> set (telemetryRecorder E).
        \<forall>u. uCommandEntry (snd row) = Some u \<longrightarrow> saturated (model E) u)"

definition logInvariant :: "'c Engine \<Rightarrow> bool" where
  "logInvariant E \<longleftrightarrow>
     commandInvariant E \<and> logCommand (telemetry (engineOptions E)) \<and> rowsSaturated E"

section \<open>What a step leaves alone\<close>

text \<open>
  Between two snapshots the engine changes its kinematic data, its buffers, the
  controller's state and the forces of the stepper state, and nothing that \<open>sameSetup\<close>
  lists. The iteration counter moves once per turn of the loop, in \<open>postStep\<close>.
\<close>

lemma sameStatic_refl: "sameStatic E E"
  by (simp add: sameStatic_def)

lemma sameStatic_trans: "sameStatic E E' \<Longrightarrow> sameStatic E' E'' \<Longrightarrow> sameStatic E E''"
  by (simp add: sameStatic_def)

lemma sameSetup_refl: "sameSetup E E"
  by (simp add: sameSetup_def sameStatic_def)

lemma sameSetup_trans: "sameSetup E E' \<Longrightarrow> sameSetup E' E'' \<Longrightarrow> sameSetup E E''"
  by (simp add: sameSetup_def sameStatic_def)

lemma clampEntry_iterLast: "iterLast (clampEntry M i st) = iterLast st"
  by (simp add: clampEntry_def Let_def)

lemma clampCommand_iterLast: "iterLast (clampCommand M st) = iterLast st"
proof -
  have "iterLast (fold (clampEntry M) is st) = iterLast st" for "is"
    by (induction "is" arbitrary: st) (simp_all add: clampEntry_iterLast)
  then show ?thesis by (simp add: clampCommand_def)
qed

lemma commandAndClamp_sameSetup: "sameSetup E (commandAndClamp t q v E)"
  by (simp add: commandAndClamp_def sameSetup_def sameStatic_def Let_def clampCommand_iterLast split: prod.splits)

lemma updateKinematics_sameSetup: "sameSetup E (updateKinematics X q v E)"
  by (simp add: updateKinematics_def sameSetup_def sameStatic_def)

lemma externalForces_sameSetup: "sameSetup E (snd (externalForces E))"
  by (simp add: externalForces_def sameSetup_def sameStatic_def split: prod.splits)

lemma updateSensors_sameSetup: "sameSetup E (updateSensors t q v E)"
  by (simp add: updateSensors_def sameSetup_def sameStatic_def setSensorsData_def)

lemma updateCommand_sameSetup: "sameSetup E (updateCommand t q v E)"
  by (simp add: updateCommand_def commandAndClamp_sameSetup sameSetup_refl)

lemma updateInternal_sameSetup: "sameSetup E (updateInternal t q v E)"
  by (simp add: updateInternal_def sameSetup_def sameStatic_def Let_def split: prod.splits)

lemma snd_systemDynamics:
  "snd (systemDynamics X t x E) =
     updateInternal t (take (nq (model E)) x) (drop (length x - nv (model E)) x)
       (updateCommand t (take (nq (model E)) x) (drop (length x - nv (model E)) x)
          (updateSensors t (take (nq (model E)) x) (drop (length x - nv (model E)) x)
             (snd (externalForces
                (updateKinematics X (take (nq (model E)) x) (drop (length x - nv (model E)) x) E)))))"
  by (simp add: systemDynamics_def Let_def case_prod_beta)

lemma systemDynamics_sameSetup: "sameSetup E (snd (systemDynamics X t x E))"
  unfolding snd_systemDynamics
  by (intro sameSetup_trans [OF _ updateInternal_sameSetup]
      sameSetup_trans [OF _ updateCommand_sameSetup]
      sameSetup_trans [OF _ updateSensors_sameSetup]
      sameSetup_trans [OF _ externalForces_sameSetup]
      updateKinematics_sameSetup)

lemma run_prog_sameSetup: "sameSetup E (snd (run_prog (systemDynamics X) p E))"
proof (induction p arbitrary: E)
  case (Return a)
  show ?case by (simp add: sameSetup_refl)
next
  case (Rhs t x k)
  obtain d E1 where sd: "systemDynamics X t x E = (d, E1)" by (cases "systemDynamics X t x E")
  have "sameSetup E E1" using systemDynamics_sameSetup [of E X t x] sd by simp
  moreover have "sameSetup E1 (snd (run_prog (systemDynamics X) (k d) E1))"
    by (rule Rhs.IH) simp
  ultimately show ?case using sd by (simp add: sameSetup_trans)
qed

lemma tryStep_eng:
  "\<exists>x' d'. snd (tryStep X t h E) =
     (let E1 = snd (run_prog (systemDynamics X)
                 (try_step X (tolAbs (stepper (engineOptions E))) (tolRel (stepper (engineOptions E)))
                    (xState (stepperState E)) (dxdtState (stepperState E)) t h) E)
      in E1\<lparr>stepperState := (stepperState E1)\<lparr>xState := x', dxdtState := d'\<rparr>\<rparr>)"
  by (auto simp: tryStep_def Let_def split: prod.splits)

lemma sameSetup_xState:
  "sameSetup E E1 \<Longrightarrow>
   sameSetup E (E1\<lparr>stepperState := (stepperState E1)\<lparr>xState := x', dxdtState := d'\<rparr>\<rparr>)"
  by (simp add: sameSetup_def sameStatic_def)

lemma tryStep_sameSetup: "sameSetup E (snd (tryStep X t h E))"
proof -
  obtain x' d' where
    "snd (tryStep X t h E) =
     (let E1 = snd (run_prog (systemDynamics X)
                 (try_step X (tolAbs (stepper (engineOptions E))) (tolRel (stepper (engineOptions E)))
                    (xState (stepperState E)) (dxdtState (stepperState E)) t h) E)
      in E1\<lparr>stepperState := (stepperState E1)\<lparr>xState := x', dxdtState := d'\<rparr>\<rparr>)"
    using tryStep_eng by blast
  then show ?thesis
    by (simp only: Let_def sameSetup_xState run_prog_sameSetup)
qed

lemma fail_check_eng: "eng (fail_check L) = eng L"
  by (simp add: fail_check_def)

lemma stepBreakpoint_sameSetup: "sameSetup (eng L) (eng (stepBreakpoint X L))"
proof -
  have "eng (stepBreakpoint X L) =
          snd (tryStep X (current_time L) (min (dt L) (next_time L - current_time L)) (eng L))"
    by (simp add: stepBreakpoint_def Let_def fail_check_eng split: prod.splits)
  then show ?thesis by (simp add: tryStep_sameSetup)
qed

lemma breakpointLoop_invariant:
  fixes L :: "'c loopState"
  assumes run: "breakpointLoop X L = Some L'"
    and init: "P L"
    and step: "\<And>L. P L \<Longrightarrow> thrown L = None \<Longrightarrow> current_time L < next_time L \<Longrightarrow>
                 P (stepBreakpoint X L)"
  shows "P L' \<and> \<not> (thrown L' = None \<and> current_time L' < next_time L')"
proof -
  have "X = X \<longrightarrow> P L \<longrightarrow> P L' \<and> \<not> (thrown L' = None \<and> current_time L' < next_time L')"
  proof (rule breakpointLoop.raw_induct
      [where P = "\<lambda>Y L L'. Y = X \<longrightarrow> P L \<longrightarrow>
                     P L' \<and> \<not> (thrown L' = None \<and> current_time L' < next_time L')",
        OF _ run], intro impI)
    fix bl Y and L L' :: "'c loopState"
    assume IH: "\<And>Y L y. bl Y L = Some y \<Longrightarrow> Y = X \<longrightarrow> P L \<longrightarrow>
                  P y \<and> \<not> (thrown y = None \<and> current_time y < next_time y)"
      and body: "(if thrown L = None \<and> current_time L < next_time L
                  then bl Y (stepBreakpoint Y L) else Some L) = Some L'"
      and Y: "Y = X" and P: "P L"
    show "P L' \<and> \<not> (thrown L' = None \<and> current_time L' < next_time L')"
    proof (cases "thrown L = None \<and> current_time L < next_time L")
      case True
      with body have "bl Y (stepBreakpoint Y L) = Some L'" by simp
      moreover have "P (stepBreakpoint Y L)" using True P Y step by simp
      ultimately show ?thesis using IH Y by blast
    next
      case False
      with body have "L' = L" by simp
      with False P show ?thesis by simp
    qed
  qed
  with init show ?thesis by simp
qed

lemma breakpointLoop_sameSetup:
  fixes L :: "'c loopState"
  assumes "breakpointLoop X L = Some L'"
  shows "sameSetup (eng L) (eng L')"
proof -
  have "sameSetup (eng L) (eng L') \<and> \<not> (thrown L' = None \<and> current_time L' < next_time L')"
  proof (rule breakpointLoop_invariant [OF assms])
    show "sameSetup (eng L) (eng L)" by (rule sameSetup_refl)
  next
    fix L1 :: "'c loopState" assume "sameSetup (eng L) (eng L1)"
    then show "sameSetup (eng L) (eng (stepBreakpoint X L1))"
      using stepBreakpoint_sameSetup by (rule sameSetup_trans)
  qed
  then show ?thesis by simp
qed

lemma stepAdaptive_sameSetup: "sameSetup (eng L) (eng (snd (stepAdaptive X L)))"
proof -
  have "eng (snd (stepAdaptive X L)) = snd (tryStep X (current_time L) (dt L) (eng L))"
    by (simp add: stepAdaptive_def Let_def fail_check_eng split: prod.splits)
  then show ?thesis by (simp add: tryStep_sameSetup)
qed

lemma adaptiveLoop_invariant:
  fixes L :: "'c loopState"
  assumes init: "P L"
    and step: "\<And>L. P L \<Longrightarrow> P (snd (stepAdaptive X L))"
  shows "P (adaptiveLoop X L)"
proof -
  have "(\<forall>L. P L \<longrightarrow> P (snd (stepAdaptive Y L))) \<longrightarrow> P L \<longrightarrow> P (adaptiveLoop Y L)" for Y
  proof (induction Y L rule: adaptiveLoop.induct)
    case (1 Y L)
    show ?case
    proof (intro impI)
      assume st: "\<forall>L. P L \<longrightarrow> P (snd (stepAdaptive Y L))" and P: "P L"
      obtain res L' where s: "stepAdaptive Y L = (res, L')" by (cases "stepAdaptive Y L")
      have a: "P L'" using st P s by (metis snd_conv)
      show "P (adaptiveLoop Y L)"
      proof (cases "res = fail \<and> thrown L' = None")
        case True
        have "P (adaptiveLoop Y L')" using 1 [OF s [symmetric] True] st a by simp
        then show ?thesis using s True by (subst adaptiveLoop.simps) simp
      next
        case False
        then show ?thesis using s a by (subst adaptiveLoop.simps) auto
      qed
    qed
  qed
  with init step show ?thesis by simp
qed

lemma adaptiveLoop_sameSetup:
  fixes L :: "'c loopState"
  shows "sameSetup (eng L) (eng (adaptiveLoop X L))"
proof (rule adaptiveLoop_invariant)
  show "sameSetup (eng L) (eng L)" by (rule sameSetup_refl)
next
  fix L1 :: "'c loopState" assume "sameSetup (eng L) (eng L1)"
  then show "sameSetup (eng L) (eng (snd (stepAdaptive X L1)))"
    using stepAdaptive_sameSetup by (rule sameSetup_trans)
qed

lemma breakpointSensors_sameSetup: "sameSetup E (breakpointSensors t E)"
  by (simp add: breakpointSensors_def Let_def sameSetup_def sameStatic_def setSensorsData_def)

lemma refreshDerivative_sameSetup: "sameSetup E (refreshDerivative X t E)"
proof -
  obtain d E1 where sd: "systemDynamics X t (xState (stepperState E)) E = (d, E1)"
    by (cases "systemDynamics X t (xState (stepperState E)) E")
  then have "sameSetup E E1" using systemDynamics_sameSetup [of E X t "xState (stepperState E)"] by simp
  then show ?thesis using sd by (simp add: refreshDerivative_def sameSetup_def sameStatic_def)
qed

lemma breakpointController_sameSetup: "sameSetup E (breakpointController X t E)"
  by (auto simp: breakpointController_def Let_def sameSetup_refl
      intro: sameSetup_trans [OF commandAndClamp_sameSetup refreshDerivative_sameSetup])

lemma breakpointUpdate_sameSetup: "sameSetup (eng L) (eng (breakpointUpdate X end_time period L))"
  by (simp add: breakpointUpdate_def advanceTimes_def Let_def)
     (rule sameSetup_trans [OF breakpointSensors_sameSetup breakpointController_sameSetup])

lemma postStep_iterLast:
  "iterLast (stepperState (eng (postStep X L))) = iterLast (stepperState (eng L)) + 1"
  by (simp add: postStep_def updateLast_def Let_def)

lemma iteration_iterLast:
  assumes "iteration X end_time period L = Some L'" and "thrown L' = None"
  shows "iterLast (stepperState (eng L')) = iterLast (stepperState (eng L)) + 1"
proof -
  let ?r = "if period > 0
            then breakpointLoop X (breakpointUpdate X end_time period L)
            else Some (adaptiveLoop X (L\<lparr>dt := min (dt L) (end_time - current_time L)\<rparr>))"
  from assms(1) obtain L1 where r: "?r = Some L1"
    and L': "L' = (if thrown L1 \<noteq> None then L1 else postStep X L1)"
    by (auto simp: iteration_def split: option.splits if_splits)
  have "sameSetup (eng L) (eng L1)"
  proof (cases "period > 0")
    case True
    with r have "breakpointLoop X (breakpointUpdate X end_time period L) = Some L1" by simp
    then have "sameSetup (eng (breakpointUpdate X end_time period L)) (eng L1)"
      by (rule breakpointLoop_sameSetup)
    with breakpointUpdate_sameSetup show ?thesis by (rule sameSetup_trans)
  next
    case False
    with r have "L1 = adaptiveLoop X (L\<lparr>dt := min (dt L) (end_time - current_time L)\<rparr>)" by simp
    then show ?thesis
      using adaptiveLoop_sameSetup [of "L\<lparr>dt := min (dt L) (end_time - current_time L)\<rparr>" X] by simp
  qed
  then have i: "iterLast (stepperState (eng L1)) = iterLast (stepperState (eng L))"
    by (simp add: sameSetup_def sameStatic_def)
  have "thrown L1 = None"
  proof (rule ccontr)
    assume "thrown L1 \<noteq> None"
    then show False using L' assms(2) by simp
  qed
  then have "L' = postStep X L1" using L' by simp
  then show ?thesis using i by (simp add: postStep_iterLast)
qed

section \<open>simulate\<close>

text \<open>
  The loop of \<^verbatim>\<open>Engine::simulate\<close> (part_000, lines 224 to 347). Each turn publishes the
  snapshot, tests the three conditions and, unless one holds, integrates up to the next
  snapshot. The result is \<open>None\<close> when an inner loop does not return; an exception ends
  the loop with the exception in flight. The loop itself needs no fuel: every turn that
  comes back to the test has counted one iteration, and the test stops at 100000.
\<close>

lemma publish_iterLast: "iterLast (stepperState (publish E)) = iterLast (stepperState E)"
  by (simp add: publish_def Let_def)

lemma stopCondition_iterLast:
  "\<not> stopCondition end_time L \<Longrightarrow> iterLast (stepperState (eng L)) < 100000"
proof -
  assume "\<not> stopCondition end_time L"
  then have "real (iterLast (stepperState (eng L))) < 10 ^ 5"
    by (simp add: stopCondition_def)
  then have "real (iterLast (stepperState (eng L))) < real 100000" by simp
  then show ?thesis by (simp only: of_nat_less_iff)
qed

function simulate_loop :: "ext_t \<Rightarrow> real \<Rightarrow> real \<Rightarrow> 'c loopState \<Rightarrow> 'c loopState option" where
  "simulate_loop X end_time period L =
     (let L = L\<lparr>eng := publish (eng L)\<rparr>
      in if stopCondition end_time L then Some L
         else (case iteration X end_time period L of
                 None \<Rightarrow> None
               | Some L' \<Rightarrow> if thrown L' \<noteq> None then Some L'
                            else simulate_loop X end_time period L'))"
  by pat_completeness auto
termination
proof (relation "measure (\<lambda>(X, end_time, period, L). 100000 - iterLast (stepperState (eng L)))")
  show "wf (measure (\<lambda>(X, end_time, period, L :: 'c loopState).
              100000 - iterLast (stepperState (eng L))))"
    by simp
next
  fix X end_time period and L L1 L' :: "'c loopState"
  assume L1: "L1 = L\<lparr>eng := publish (eng L)\<rparr>"
    and ns: "\<not> stopCondition end_time L1"
    and it: "iteration X end_time period L1 = Some L'"
    and nt: "\<not> thrown L' \<noteq> None"
  have "iterLast (stepperState (eng L1)) < 100000" using ns by (rule stopCondition_iterLast)
  moreover have "iterLast (stepperState (eng L1)) = iterLast (stepperState (eng L))"
    using L1 by (simp add: publish_iterLast)
  moreover have "iterLast (stepperState (eng L')) = iterLast (stepperState (eng L1)) + 1"
    using it nt by (intro iteration_iterLast) simp_all
  ultimately show "((X, end_time, period, L'), (X, end_time, period, L))
      \<in> measure (\<lambda>(X, end_time, period, L). 100000 - iterLast (stepperState (eng L)))"
    by simp
qed

declare simulate_loop.simps [simp del]

text \<open>
  \<^verbatim>\<open>Engine::simulate\<close> (part_000, lines 150 to 350). The result is the engine and either
  the code returned or the exception that left the function. \<open>resetState\<close> is lines
  184 to 189, \<open>startSimulation\<close> lines 184 to 191: the recorder's \<^verbatim>\<open>initialize\<close>
  starts an empty record. (The random generators that line 183 seeds are global and not
  part of the engine.)
\<close>

definition resetState :: "ext_t \<Rightarrow> vectorN_t \<Rightarrow> 'c Engine \<Rightarrow> 'c Engine" where
  "resetState X x_init E =
     (let E = E\<lparr>model := reset_model (model E)\<rparr>;
          E = E\<lparr>controller :=
                  (controller E)\<lparr>ctrlState := reset_ctrl (controller E) (ctrlState (controller E))\<rparr>\<rparr>;
          E = E\<lparr>model := (model E)\<lparr>pncData := newData X (pncModel (model E))\<rparr>\<rparr>
      in E\<lparr>stepperState := initialize_stepperState (model E) x_init\<rparr>)"

definition startSimulation :: "ext_t \<Rightarrow> vectorN_t \<Rightarrow> 'c Engine \<Rightarrow> 'c Engine" where
  "startSimulation X x_init E =
     (refreshDerivative X 0 (resetState X x_init E))\<lparr>telemetryRecorder := []\<rparr>"

definition simulate ::
  "ext_t \<Rightarrow> 'c Engine \<Rightarrow> vectorN_t \<Rightarrow> real \<Rightarrow> ((exception + result_t) \<times> 'c Engine) option" where
  "simulate X E x_init end_time =
     (if \<not> isInitialized E then Some (Inr ERROR_INIT_FAILED, E)
      else if length x_init \<noteq> nx (model E) then Some (Inr ERROR_BAD_INPUT, E)
      else if end_time < 5 / 100 then Some (Inr ERROR_BAD_INPUT, E)
      else (let E = startSimulation X x_init E;
                period = updatePeriod (stepper (engineOptions E));
                h = (if period > 0 then period else 5 / 10 ^ 4);
                L = \<lparr>eng = E, dt = h, current_time = 0, next_time = 0,
                     fail_checker = 0, thrown = None\<rparr>
            in case simulate_loop X end_time period L of
                 None \<Rightarrow> None
               | Some L \<Rightarrow> Some (case thrown L of None \<Rightarrow> Inr SUCCESS | Some e \<Rightarrow> Inl e, eng L)))"

section \<open>MemoryDevice: seek, readData, writeData\<close>

subsection \<open>seek\<close>

text \<open>
  C9, as the spec states it, asks for a bad-input error from \<^verbatim>\<open>seek\<close>. The code returns
  the generic error: on a one-byte buffer, \<^verbatim>\<open>seek(1)\<close> answers \<^verbatim>\<open>ERROR_GENERIC\<close>.
\<close>

theorem seek_error_code_counterexample:
  "fst (seek \<lparr>buffer = [0], currentPos = 0\<rparr> 1) \<noteq> ERROR_BAD_INPUT"
  by (simp add: seek_def)

text \<open>
  C9 (amended): \<^verbatim>\<open>seek(pos)\<close> fails, with \<^verbatim>\<open>ERROR_GENERIC\<close>, exactly when \<open>pos < 0\<close> or
  \<open>pos\<close> is at least the buffer size, and then leaves the device as it was; for every
  \<open>pos\<close> inside the buffer it sets the current position to \<open>pos\<close> and returns
  \<^verbatim>\<open>SUCCESS\<close>.
\<close>

theorem seek_spec:
  "(fst (seek d pos) \<noteq> SUCCESS \<longleftrightarrow> (pos < 0 \<or> pos \<ge> size_dev d)) \<and>
   ((pos < 0 \<or> pos \<ge> size_dev d) \<longrightarrow> seek d pos = (ERROR_GENERIC, d)) \<and>
   ((0 \<le> pos \<and> pos < size_dev d) \<longrightarrow> seek d pos = (SUCCESS, d\<lparr>currentPos := pos\<rparr>))"
  by (auto simp: seek_def size_dev_def)

theorem seek_spec_witness:
  "seek \<lparr>buffer = [1, 2, 3], currentPos = 1\<rparr> 3 = (ERROR_GENERIC, \<lparr>buffer = [1, 2, 3], currentPos = 1\<rparr>) \<and>
   seek \<lparr>buffer = [1, 2, 3], currentPos = 1\<rparr> (- 1) = (ERROR_GENERIC, \<lparr>buffer = [1, 2, 3], currentPos = 1\<rparr>) \<and>
   seek \<lparr>buffer = [1, 2, 3], currentPos = 1\<rparr> 2 = (SUCCESS, \<lparr>buffer = [1, 2, 3], currentPos = 2\<rparr>)"
  using seek_spec [of "\<lparr>buffer = [1, 2, 3], currentPos = 1\<rparr>" 3]
    seek_spec [of "\<lparr>buffer = [1, 2, 3], currentPos = 1\<rparr>" "- 1"]
    seek_spec [of "\<lparr>buffer = [1, 2, 3], currentPos = 1\<rparr>" 2]
  by (simp add: size_dev_def)

subsection \<open>readData and writeData\<close>

lemma to_size_t_count: "0 \<le> n \<Longrightarrow> n < 2 ^ 64 \<Longrightarrow> to_size_t n = nat n"
  by (simp add: to_size_t_def)

text \<open>
  With the position inside the buffer (\<open>0 \<le> currentPos \<le> size\<close>) and a
  non-negative request \<open>n\<close>, both calls transfer \<open>k = min n (size - currentPos)\<close>
  bytes: the copy stays inside the buffer (the result is not \<open>None\<close>), \<^verbatim>\<open>readData\<close>
  hands out the \<open>k\<close> bytes at the position, \<^verbatim>\<open>writeData\<close> overwrites exactly those \<open>k\<close>
  bytes and keeps the buffer's size, the position advances by \<open>k\<close>, and \<open>k\<close> is
  returned; at the end of the buffer \<open>k = 0\<close>. The buffer is shorter than \<open>2^63\<close>
  bytes, as its size must fit the \<^verbatim>\<open>int64_t\<close> the code casts it to, and the caller of
  \<^verbatim>\<open>writeData\<close> passes at least \<open>n\<close> bytes.
\<close>

lemma readData_writeData_inside:
  assumes pos: "0 \<le> currentPos d" "currentPos d \<le> size_dev d"
    and n: "0 \<le> n"
    and small: "size_dev d < 2 ^ 63"
    and k: "k = min n (size_dev d - currentPos d)"
  shows "readData d n =
           Some (take (nat k) (drop (nat (currentPos d)) (buffer d)), k,
                 d\<lparr>currentPos := currentPos d + k\<rparr>) \<and>
         (n \<le> int (length data) \<longrightarrow>
           writeData d data n =
             Some (k, d\<lparr>buffer := take (nat (currentPos d)) (buffer d) @ take (nat k) data @
                                   drop (nat (currentPos d) + nat k) (buffer d),
                        currentPos := currentPos d + k\<rparr>) \<and>
           length (take (nat (currentPos d)) (buffer d) @ take (nat k) data @
                   drop (nat (currentPos d) + nat k) (buffer d)) = length (buffer d)) \<and>
         0 \<le> k \<and> currentPos d + k \<le> size_dev d \<and>
         (currentPos d = size_dev d \<longrightarrow> k = 0)"
proof -
  have k0: "0 \<le> k" and kn: "k \<le> n" and kr: "k \<le> size_dev d - currentPos d"
    using pos n k by auto
  have tr: "(if n < bytesAvailable d then n else bytesAvailable d) = k"
    using k by (auto simp: bytesAvailable_def)
  have cast: "to_size_t k = nat k"
    using k0 kr pos small by (intro to_size_t_count) auto
  have inb: "currentPos d + int (nat k) \<le> int (length (buffer d))"
    using k0 kr by (simp add: size_dev_def)
  have rd: "readData d n =
           Some (take (nat k) (drop (nat (currentPos d)) (buffer d)), k,
                 d\<lparr>currentPos := currentPos d + k\<rparr>)"
    using pos inb by (simp add: readData_def Let_def tr cast memcpy_from_def)
  have wr: "writeData d data n =
           Some (k, d\<lparr>buffer := take (nat (currentPos d)) (buffer d) @ take (nat k) data @
                                 drop (nat (currentPos d) + nat k) (buffer d),
                      currentPos := currentPos d + k\<rparr>) \<and>
           length (take (nat (currentPos d)) (buffer d) @ take (nat k) data @
                   drop (nat (currentPos d) + nat k) (buffer d)) = length (buffer d)"
    if len: "n \<le> int (length data)"
  proof -
    have ld: "nat k \<le> length data" using kn len by simp
    have fit: "nat (currentPos d) + nat k \<le> length (buffer d)"
      using pos k0 inb by linarith
    have "writeData d data n =
           Some (k, d\<lparr>buffer := take (nat (currentPos d)) (buffer d) @ take (nat k) data @
                                 drop (nat (currentPos d) + nat k) (buffer d),
                      currentPos := currentPos d + k\<rparr>)"
      using pos inb ld by (simp add: writeData_def Let_def tr cast memcpy_into_def)
    moreover have "length (take (nat (currentPos d)) (buffer d) @ take (nat k) data @
                   drop (nat (currentPos d) + nat k) (buffer d)) = length (buffer d)"
      using ld fit by simp
    ultimately show ?thesis by simp
  qed
  from rd wr k0 kr show ?thesis by simp
qed

lemma readData_writeData_inside_example:
  "readData \<lparr>buffer = [1, 2, 3], currentPos = 1\<rparr> 5 =
     Some ([2, 3], 2, \<lparr>buffer = [1, 2, 3], currentPos = 3\<rparr>) \<and>
   writeData \<lparr>buffer = [1, 2, 3], currentPos = 1\<rparr> [7, 8, 9, 10, 11] 5 =
     Some (2, \<lparr>buffer = [1, 7, 8], currentPos = 3\<rparr>) \<and>
   readData \<lparr>buffer = [1, 2, 3], currentPos = 3\<rparr> 5 =
     Some ([], 0, \<lparr>buffer = [1, 2, 3], currentPos = 3\<rparr>)"
proof -
  let ?d = "\<lparr>buffer = [1, 2, 3], currentPos = 1\<rparr>"
  let ?e = "\<lparr>buffer = [1, 2, 3], currentPos = 3\<rparr>"
  have h: "0 \<le> currentPos ?d" "currentPos ?d \<le> size_dev ?d" "(0::int) \<le> 5"
    "size_dev ?d < 2 ^ 63" "(2::int) = min 5 (size_dev ?d - currentPos ?d)"
    by (simp_all add: size_dev_def)
  have g: "0 \<le> currentPos ?e" "currentPos ?e \<le> size_dev ?e" "(0::int) \<le> 5"
    "size_dev ?e < 2 ^ 63" "(0::int) = min 5 (size_dev ?e - currentPos ?e)"
    by (simp_all add: size_dev_def)
  have l: "(5::int) \<le> int (length [7, 8, 9, 10, 11 :: 8 word])" by simp
  from readData_writeData_inside [OF h, of "[7, 8, 9, 10, 11]"]
    readData_writeData_inside [OF g, of "[]"] l
  show ?thesis by simp
qed

text \<open>
  The constructors put the position inside the buffer, and \<^verbatim>\<open>seek\<close>, \<^verbatim>\<open>readData\<close>
  and \<^verbatim>\<open>writeData\<close> keep it there. \<^verbatim>\<open>resize\<close> keeps it there only when the new size
  is not below the position: it never moves the position.
\<close>

lemma positionInside_constructors:
  "MemoryDevice_size sz = Some d \<Longrightarrow> positionInside d"
  "positionInside (MemoryDevice_buffer b)"
  by (auto simp: MemoryDevice_size_def MemoryDevice_buffer_def positionInside_def size_dev_def
      split: if_splits)

lemma positionInside_seek: "positionInside d \<Longrightarrow> positionInside (snd (seek d pos))"
  by (auto simp: seek_def positionInside_def size_dev_def)

lemma positionInside_readData:
  assumes "positionInside d" "0 \<le> n" "size_dev d < 2 ^ 63" "readData d n = Some (bytes, k, d')"
  shows "positionInside d'"
proof -
  define k0 where "k0 = min n (size_dev d - currentPos d)"
  from assms(1) have p: "0 \<le> currentPos d" "currentPos d \<le> size_dev d"
    by (simp_all add: positionInside_def)
  note r = readData_writeData_inside [OF p assms(2,3) k0_def, of "[]"]
  from r assms(4) have d': "d' = d\<lparr>currentPos := currentPos d + k0\<rparr>" by simp
  from r have "0 \<le> k0" "currentPos d + k0 \<le> size_dev d" by simp_all
  with p show ?thesis by (simp add: d' positionInside_def size_dev_def)
qed

lemma positionInside_writeData:
  assumes "positionInside d" "0 \<le> n" "size_dev d < 2 ^ 63" "n \<le> int (length data)"
    "writeData d data n = Some (k, d')"
  shows "positionInside d'"
proof -
  define k0 where "k0 = min n (size_dev d - currentPos d)"
  define b where "b = take (nat (currentPos d)) (buffer d) @ take (nat k0) data @
                   drop (nat (currentPos d) + nat k0) (buffer d)"
  from assms(1) have p: "0 \<le> currentPos d" "currentPos d \<le> size_dev d"
    by (simp_all add: positionInside_def)
  note r = readData_writeData_inside [OF p assms(2,3) k0_def, of data]
  from r assms(4,5) have d': "d' = d\<lparr>buffer := b, currentPos := currentPos d + k0\<rparr>"
    by (simp add: b_def)
  from r assms(4) have len: "length b = length (buffer d)" by (simp add: b_def)
  from r have "0 \<le> k0" "currentPos d + k0 \<le> size_dev d" by simp_all
  with p len show ?thesis by (simp add: d' positionInside_def size_dev_def)
qed

lemma positionInside_resize:
  assumes "positionInside d" "resize d sz = Some d'" "currentPos d \<le> sz" "sz < 2 ^ 63"
  shows "positionInside d'"
proof -
  from assms(1,3) have "0 \<le> sz" by (simp add: positionInside_def)
  with assms(4) have c: "to_size_t sz = nat sz" by (intro to_size_t_count) simp_all
  from assms(2) have d': "d' = d\<lparr>buffer := take (nat sz) (buffer d) @
                                 replicate (nat sz - length (buffer d)) 0\<rparr>"
    by (simp add: resize_def Let_def c split: if_splits)
  from assms(1,3) \<open>0 \<le> sz\<close> show ?thesis
    by (simp add: d' positionInside_def size_dev_def)
qed

text \<open>
  C10 fails on a device whose position is beyond the end of its buffer, the state
  \<^verbatim>\<open>resize\<close> leaves when it shrinks the buffer below the position. A device of four
  bytes, \<^verbatim>\<open>seek(3)\<close>, \<^verbatim>\<open>resize(1)\<close>: the position is 3 in a buffer of one byte, and
  \<^verbatim>\<open>bytesAvailable\<close> is \<open>- 2\<close>. A request of 5 bytes is cut to \<open>- 2\<close>, not to a count
  between 0 and 5; the cast to \<^verbatim>\<open>std::size_t\<close> makes it \<open>2^64 - 2\<close>, and \<^verbatim>\<open>memcpy\<close>
  runs over that many bytes from an address outside the buffer: both \<^verbatim>\<open>readData\<close> and
  \<^verbatim>\<open>writeData\<close> leave the buffer (the answer \<open>None\<close>), where the claim has no byte
  outside the buffer read or written and a count of \<open>min n remaining\<close> returned.
\<close>

theorem readData_writeData_after_resize:
  "MemoryDevice_size 4 = Some \<lparr>buffer = [0, 0, 0, 0], currentPos = 0\<rparr> \<and>
   seek \<lparr>buffer = [0, 0, 0, 0], currentPos = 0\<rparr> 3
     = (SUCCESS, \<lparr>buffer = [0, 0, 0, 0], currentPos = 3\<rparr>) \<and>
   resize \<lparr>buffer = [0, 0, 0, 0], currentPos = 3\<rparr> 1 = Some \<lparr>buffer = [0], currentPos = 3\<rparr> \<and>
   bytesAvailable \<lparr>buffer = [0], currentPos = 3\<rparr> = - 2 \<and>
   (if (5::int) < bytesAvailable \<lparr>buffer = [0], currentPos = 3\<rparr> then 5
    else bytesAvailable \<lparr>buffer = [0], currentPos = 3\<rparr>) = - 2 \<and>
   to_size_t (- 2) = 2 ^ 64 - 2 \<and>
   readData \<lparr>buffer = [0], currentPos = 3\<rparr> 5 = None \<and>
   writeData \<lparr>buffer = [0], currentPos = 3\<rparr> [7, 8, 9, 10, 11] 5 = None"
proof -
  have r: "replicate 4 (0 :: 8 word) = [0, 0, 0, 0]" by (simp add: numeral_eq_Suc)
  have a: "MemoryDevice_size 4 = Some \<lparr>buffer = [0, 0, 0, 0], currentPos = 0\<rparr>"
    by (simp add: MemoryDevice_size_def to_size_t_def max_size_def r)
  have b: "seek \<lparr>buffer = [0, 0, 0, 0], currentPos = 0\<rparr> 3
             = (SUCCESS, \<lparr>buffer = [0, 0, 0, 0], currentPos = 3\<rparr>)"
    by (simp add: seek_def)
  have c: "resize \<lparr>buffer = [0, 0, 0, 0], currentPos = 3\<rparr> 1
             = Some \<lparr>buffer = [0], currentPos = 3\<rparr>"
    by (simp add: resize_def to_size_t_def max_size_def)
  have d: "bytesAvailable \<lparr>buffer = [0], currentPos = 3\<rparr> = - 2"
    by (simp add: bytesAvailable_def size_dev_def)
  have e: "to_size_t (- 2) = 2 ^ 64 - 2" by (simp add: to_size_t_def)
  have f: "readData \<lparr>buffer = [0], currentPos = 3\<rparr> 5 = None"
    by (simp add: readData_def d e memcpy_from_def)
  have g: "writeData \<lparr>buffer = [0], currentPos = 3\<rparr> [7, 8, 9, 10, 11] 5 = None"
    by (simp add: writeData_def d e memcpy_into_def)
  from a b c d e f g show ?thesis by simp
qed

section \<open>Contact dynamics: normal force, blending, friction\<close>

lemma z3_fextInWorld:
  "z3 (fextInWorld opts pz vW) = - stiffness opts * pz + damping opts * max 0 (- z3 vW)"
  by (simp add: fextInWorld_def Let_def z3_def max_def)

text \<open>
  C1: for a contact frame whose height \<open>pz\<close> in the world is not negative,
  \<^verbatim>\<open>contactDynamics\<close> returns the zero wrench of six components. For \<open>pz < 0\<close> the
  vertical force in the world is \<open>- stiffness * pz + damping * max 0 (- vz)\<close>, with \<open>vz\<close>
  the vertical velocity of the frame in the world, and the result is the wrench of the
  world force at the origin of the parent joint frame (the force \<open>fl\<close> rotated into the
  joint frame, then the moment of \<open>fl\<close> at the frame's position \<open>pj\<close> in the joint
  frame), every component multiplied by \<open>tanh (2 * (- pz) / transitionEps)\<close>.
\<close>

theorem contactDynamics_spec:
  fixes E :: "'c Engine" and frameId :: nat
  defines "opts \<equiv> contacts (engineOptions E)"
    and "pz \<equiv> z3 (translation (oMf (pncData (model E)) ! frameId))"
    and "pj \<equiv> translation (placement (frames (pncModel (model E)) ! frameId))"
    and "vW \<equiv> mat_vec (rotation (oMf (pncData (model E)) ! frameId))
                 (getFrameVelocity_linear (pncModel (model E)) (pncData (model E)) frameId)"
    and "fl \<equiv> mat_vec (mat_mul (rotation (placement (frames (pncModel (model E)) ! frameId)))
                          (transpose3 (rotation (oMf (pncData (model E)) ! frameId))))
                 (fextInWorld (contacts (engineOptions E))
                    (z3 (translation (oMf (pncData (model E)) ! frameId)))
                    (mat_vec (rotation (oMf (pncData (model E)) ! frameId))
                       (getFrameVelocity_linear (pncModel (model E)) (pncData (model E)) frameId)))"
  shows "(pz \<ge> 0 \<longrightarrow> contactDynamics E frameId = [0, 0, 0, 0, 0, 0]) \<and>
         (pz < 0 \<longrightarrow>
            z3 (fextInWorld opts pz vW) = - stiffness opts * pz + damping opts * max 0 (- z3 vW) \<and>
            contactDynamics E frameId =
              map (\<lambda>c. tanh (2 * (- pz) / transitionEps opts) * c)
                [x3 fl, y3 fl, z3 fl, x3 (cross3 pj fl), y3 (cross3 pj fl), z3 (cross3 pj fl)])"
proof (intro conjI impI)
  assume "pz \<ge> 0"
  then show "contactDynamics E frameId = [0, 0, 0, 0, 0, 0]"
    by (simp add: contactDynamics_def pz_def Let_def Zero_def numeral_eq_Suc)
next
  assume "pz < 0"
  show "z3 (fextInWorld opts pz vW) = - stiffness opts * pz + damping opts * max 0 (- z3 vW)"
    by (rule z3_fextInWorld)
  from \<open>pz < 0\<close> show "contactDynamics E frameId =
              map (\<lambda>c. tanh (2 * (- pz) / transitionEps opts) * c)
                [x3 fl, y3 fl, z3 fl, x3 (cross3 pj fl), y3 (cross3 pj fl), z3 (cross3 pj fl)]"
    unfolding pz_def opts_def fl_def pj_def
    by (simp add: contactDynamics_def Let_def mult.commute)
qed

lemma example_frames:
  "oMf (pncData (model exampleEngine)) ! 0 = \<lparr>rotation = identity3, translation = (0, 0, - 1)\<rparr>"
  "oMf (pncData (model exampleEngine)) ! Suc 0 = \<lparr>rotation = identity3, translation = (0, 0, 1)\<rparr>"
  "frames (pncModel (model exampleEngine)) ! 0
     = \<lparr>placement = \<lparr>rotation = identity3, translation = (0, 1, 0)\<rparr>, parent = 1\<rparr>"
  "getFrameVelocity_linear (pncModel (model exampleEngine)) (pncData (model exampleEngine)) 0
     = (2, 0, - 1)"
  "contacts (engineOptions exampleEngine) = contacts exampleOptions"
  by (simp_all add: exampleEngine_def exampleModel_def getFrameVelocity_linear_def)

lemma example_contact_force:
  "fextInWorld (contacts exampleOptions) (- 1) (2, 0, - 1) = (- 4, 0, 2)"
  by (simp add: fextInWorld_def frictionCoeff_def exampleOptions_def Let_def x3_def y3_def z3_def)

theorem contactDynamics_spec_witness:
  "contactDynamics exampleEngine 1 = [0, 0, 0, 0, 0, 0] \<and>
   contactDynamics exampleEngine 0 =
     [tanh 1 * (- 4), 0, tanh 1 * 2, tanh 1 * 2, 0, tanh 1 * 4]"
proof -
  have eps: "transitionEps (contacts exampleOptions) = 2" by (simp add: exampleOptions_def)
  have a: "contactDynamics exampleEngine 1 = [0, 0, 0, 0, 0, 0]"
    using contactDynamics_spec [of exampleEngine "Suc 0"]
    by (simp add: example_frames z3_def)
  have b: "contactDynamics exampleEngine 0 =
     [tanh 1 * (- 4), 0, tanh 1 * 2, tanh 1 * 2, 0, tanh 1 * 4]"
    using contactDynamics_spec [of exampleEngine 0]
    by (simp add: example_frames eps identity3_def mat_vec_def mat_mul_def transpose3_def
        dot3_def cross3_def x3_def y3_def z3_def Let_def
        example_contact_force [unfolded x3_def y3_def z3_def])
  from a b show ?thesis by simp
qed

text \<open>
  C2, as the spec states it, divides the tangential velocity by the speed \<open>s\<close>. The code
  multiplies the velocity itself by the coefficient and the normal force: with the
  velocity \<open>(2, 0, 0)\<close>, so \<open>s = 2\<close>, a coefficient of 1 and a normal force of 1, the
  force along \<open>x\<close> is \<open>- 2\<close>, where the spec's formula gives \<open>- 1\<close>.
\<close>

theorem friction_normalised_counterexample:
  "sqrt (2\<^sup>2 + 0\<^sup>2) = (2::real) \<and>
   x3 (fextInWorld \<lparr>frictionViscous = 1, frictionDry = 1, dryFrictionVelEps = 1,
                     stiffness = 1, damping = 0, transitionEps = 1\<rparr> (- 1) (2, 0, 0)) = - 2 \<and>
   min (max (- (2 / 2) *
              frictionCoeff \<lparr>frictionViscous = 1, frictionDry = 1, dryFrictionVelEps = 1,
                     stiffness = 1, damping = 0, transitionEps = 1\<rparr> 2 *
              z3 (fextInWorld \<lparr>frictionViscous = 1, frictionDry = 1, dryFrictionVelEps = 1,
                     stiffness = 1, damping = 0, transitionEps = 1\<rparr> (- 1) (2, 0, 0)))
         (- 100000)) 100000 = (- 1 :: real)"
  by (simp add: fextInWorld_def frictionCoeff_def Let_def x3_def y3_def z3_def)

text \<open>
  C2 (amended): for a contact frame with tangential speed \<open>s\<close>, the norm of the
  tangential velocity in the world, and a positive \<open>eps = dryFrictionVelEps\<close>, the
  friction coefficient \<open>mu\<close> is \<open>(s / eps) * mu_dry\<close> for \<open>s \<le> eps\<close>,
  \<open>- 2 * s * (mu_dry - mu_visc) / eps + 3 * mu_dry - 2 * mu_visc\<close> for
  \<open>eps < s < 1.5 * eps\<close>, and \<open>mu_visc\<close> for \<open>s \<ge> 1.5 * eps\<close>; the tangential force in
  the world is the tangential velocity itself (not divided by \<open>s\<close>) times \<open>- mu * Fz\<close>,
  each component clamped to \<open>[-100000, 100000]\<close>. (\<open>fextInWorld\<close> is the world force
  \<^verbatim>\<open>contactDynamics\<close> computes for a frame below the ground.)
\<close>

theorem friction_spec:
  fixes opts :: contactOptions_t and pz :: real and v :: vector3_t
  defines "s \<equiv> sqrt ((x3 v)\<^sup>2 + (y3 v)\<^sup>2)"
    and "eps \<equiv> dryFrictionVelEps opts"
    and "mu \<equiv> frictionCoeff opts (sqrt ((x3 v)\<^sup>2 + (y3 v)\<^sup>2))"
    and "Fz \<equiv> z3 (fextInWorld opts pz v)"
  assumes eps: "dryFrictionVelEps opts > 0"
  shows "(s \<le> eps \<longrightarrow> mu = (s / eps) * frictionDry opts) \<and>
         (eps < s \<and> s < 1.5 * eps \<longrightarrow>
            mu = - 2 * s * (frictionDry opts - frictionViscous opts) / eps
                 + 3 * frictionDry opts - 2 * frictionViscous opts) \<and>
         (s \<ge> 1.5 * eps \<longrightarrow> mu = frictionViscous opts) \<and>
         x3 (fextInWorld opts pz v) = min (max (- x3 v * mu * Fz) (- 100000)) 100000 \<and>
         y3 (fextInWorld opts pz v) = min (max (- y3 v * mu * Fz) (- 100000)) 100000"
proof -
  have a: "s \<le> eps \<Longrightarrow> mu = (s / eps) * frictionDry opts"
    unfolding mu_def s_def eps_def by (simp add: frictionCoeff_def)
  have b: "eps < s \<Longrightarrow> s < 1.5 * eps \<Longrightarrow>
            mu = - 2 * s * (frictionDry opts - frictionViscous opts) / eps
                 + 3 * frictionDry opts - 2 * frictionViscous opts"
    unfolding mu_def s_def eps_def by (simp add: frictionCoeff_def)
  have c: "s \<ge> 1.5 * eps \<Longrightarrow> mu = frictionViscous opts"
    using eps unfolding mu_def s_def eps_def by (simp add: frictionCoeff_def)
  have d: "x3 (fextInWorld opts pz v) = min (max (- x3 v * mu * Fz) (- 100000)) 100000"
    unfolding mu_def Fz_def by (simp add: fextInWorld_def Let_def x3_def y3_def z3_def)
  have e: "y3 (fextInWorld opts pz v) = min (max (- y3 v * mu * Fz) (- 100000)) 100000"
    unfolding mu_def Fz_def by (simp add: fextInWorld_def Let_def x3_def y3_def z3_def)
  from a b c d e show ?thesis by blast
qed

theorem friction_spec_witness:
  "frictionCoeff \<lparr>frictionViscous = 1 / 2, frictionDry = 1, dryFrictionVelEps = 1,
                   stiffness = 1, damping = 0, transitionEps = 1\<rparr> (1 / 2) = 1 / 2 \<and>
   frictionCoeff \<lparr>frictionViscous = 1 / 2, frictionDry = 1, dryFrictionVelEps = 1,
                   stiffness = 1, damping = 0, transitionEps = 1\<rparr> (5 / 4) = 3 / 4 \<and>
   frictionCoeff \<lparr>frictionViscous = 1 / 2, frictionDry = 1, dryFrictionVelEps = 1,
                   stiffness = 1, damping = 0, transitionEps = 1\<rparr> 2 = 1 / 2 \<and>
   x3 (fextInWorld \<lparr>frictionViscous = 1 / 2, frictionDry = 1, dryFrictionVelEps = 1,
                     stiffness = 1, damping = 0, transitionEps = 1\<rparr> (- 1) (5 / 4, 0, 0))
     = - 15 / 16"
proof -
  let ?o = "\<lparr>frictionViscous = 1 / 2, frictionDry = 1, dryFrictionVelEps = 1,
                   stiffness = 1, damping = 0, transitionEps = 1 :: real\<rparr>"
  have e: "dryFrictionVelEps ?o > 0" by simp
  have s: "sqrt ((x3 (1 / 2, 0, 0 :: real))\<^sup>2 + (y3 (1 / 2, 0 :: real, 0 :: real))\<^sup>2) = 1 / 2"
    "sqrt ((x3 (5 / 4, 0, 0 :: real))\<^sup>2 + (y3 (5 / 4, 0 :: real, 0 :: real))\<^sup>2) = 5 / 4"
    "sqrt ((x3 (2, 0, 0 :: real))\<^sup>2 + (y3 (2, 0 :: real, 0 :: real))\<^sup>2) = 2"
    by (simp_all add: x3_def y3_def)
  have z: "z3 (fextInWorld ?o (- 1) (5 / 4, 0, 0)) = 1"
    unfolding z3_fextInWorld by (simp add: z3_def)
  from friction_spec [OF e, of "(1 / 2, 0, 0)" "- 1"] friction_spec [OF e, of "(5 / 4, 0, 0)" "- 1"]
    friction_spec [OF e, of "(2, 0, 0)" "- 1"]
  show ?thesis
    unfolding s z by (simp add: x3_def)
qed

section \<open>Joint-limit dynamics: the force at each row\<close>

text \<open>
  The loop of \<^verbatim>\<open>boundsDynamics\<close> adds a force to the row \<open>jv ! i\<close> for each \<open>i\<close>: a
  row no index points to keeps its value, and a row exactly one index points to
  receives that index's force.
\<close>

lemma fadd_zero: "fadd (Some 0) b = b"
  by (cases b) (simp_all add: fadd_def)

lemma fold_deposit_length:
  "length (fold (\<lambda>i u. u[jv ! i := fadd (u ! (jv ! i)) (F i)]) is u) = length u"
  by (induction "is" arbitrary: u) auto

lemma fold_deposit_other:
  "r \<notin> (\<lambda>i. jv ! i) ` set is \<Longrightarrow>
   fold (\<lambda>i u. u[jv ! i := fadd (u ! (jv ! i)) (F i)]) is u ! r = u ! r"
  by (induction "is" arbitrary: u) auto

lemma fold_deposit_row:
  "distinct (map (\<lambda>i. jv ! i) is) \<Longrightarrow> i \<in> set is \<Longrightarrow> jv ! i < length u \<Longrightarrow>
   fold (\<lambda>i u. u[jv ! i := fadd (u ! (jv ! i)) (F i)]) is u ! (jv ! i) = fadd (u ! (jv ! i)) (F i)"
proof (induction "is" arbitrary: u)
  case Nil
  then show ?case by simp
next
  case (Cons j js)
  show ?case
  proof (cases "i = j")
    case True
    with Cons.prems have "jv ! i \<notin> (\<lambda>i. jv ! i) ` set js" by auto
    then show ?thesis
      using True Cons.prems(3) by (simp add: fold_deposit_other)
  next
    case False
    with Cons.prems have mem: "i \<in> set js" and ne: "jv ! j \<noteq> jv ! i" by auto
    from Cons.prems have d: "distinct (map (\<lambda>i. jv ! i) js)" by simp
    have "fold (\<lambda>i u. u[jv ! i := fadd (u ! (jv ! i)) (F i)]) js
            (u[jv ! j := fadd (u ! (jv ! j)) (F j)]) ! (jv ! i)
          = fadd ((u[jv ! j := fadd (u ! (jv ! j)) (F j)]) ! (jv ! i)) (F i)"
      using Cons.prems(3) by (intro Cons.IH [OF d mem]) simp
    then show ?thesis using ne by simp
  qed
qed

lemma boundsDynamics_row:
  fixes E :: "'c Engine"
  assumes len: "length (jointsPositionIdx (model E)) = length (jointsVelocityIdx (model E))"
    and dist: "distinct (jointsVelocityIdx (model E))"
    and rows: "\<forall>r \<in> set (jointsVelocityIdx (model E)). r < nv (model E)"
    and i: "i < length (jointsVelocityIdx (model E))"
  shows "boundsDynamics E q v ! (jointsVelocityIdx (model E) ! i) =
           forceJoint (joints (engineOptions E)) (q ! (jointsPositionIdx (model E) ! i))
             (v ! (jointsVelocityIdx (model E) ! i))
             (boundsMin (joints_mdl (mdlOptions (model E))) ! i)
             (boundsMax (joints_mdl (mdlOptions (model E))) ! i)"
    and "length (boundsDynamics E q v) = nv (model E)"
    and "\<forall>r < nv (model E). r \<notin> set (jointsVelocityIdx (model E)) \<longrightarrow>
           boundsDynamics E q v ! r = Some 0"
proof -
  define jp where "jp = jointsPositionIdx (model E)"
  define jv where "jv = jointsVelocityIdx (model E)"
  let ?F = "\<lambda>i. forceJoint (joints (engineOptions E)) (q ! (jp ! i)) (v ! (jv ! i))
                   (boundsMin (joints_mdl (mdlOptions (model E))) ! i)
                   (boundsMax (joints_mdl (mdlOptions (model E))) ! i)"
  have bd: "boundsDynamics E q v =
              fold (\<lambda>i u. u[jv ! i := fadd (u ! (jv ! i)) (?F i)]) [0..<length jv]
                (replicate (nv (model E)) (Some 0))"
    by (simp add: boundsDynamics_def Let_def Zero_def jp_def jv_def len)
  have "map (\<lambda>i. jv ! i) [0..<length jv] = jv" by (rule map_nth)
  then have d: "distinct (map (\<lambda>i. jv ! i) [0..<length jv])"
    using dist by (simp add: jv_def)
  have inr: "jv ! i < nv (model E)" using rows i by (simp add: jv_def)
  have "boundsDynamics E q v ! (jv ! i) = ?F i"
    unfolding bd using inr i
    by (subst fold_deposit_row [OF d]) (simp_all add: jv_def fadd_zero)
  then show "boundsDynamics E q v ! (jointsVelocityIdx (model E) ! i) =
           forceJoint (joints (engineOptions E)) (q ! (jointsPositionIdx (model E) ! i))
             (v ! (jointsVelocityIdx (model E) ! i))
             (boundsMin (joints_mdl (mdlOptions (model E))) ! i)
             (boundsMax (joints_mdl (mdlOptions (model E))) ! i)"
    by (simp add: jp_def jv_def)
  have img: "(\<lambda>i. jv ! i) ` set [0..<length jv] = set jv"
    by (metis list.set_map map_nth)
  have "\<forall>r < nv (model E). r \<notin> set jv \<longrightarrow> boundsDynamics E q v ! r = Some 0"
  proof (intro allI impI)
    fix r assume r: "r < nv (model E)" and "r \<notin> set jv"
    then have "r \<notin> (\<lambda>i. jv ! i) ` set [0..<length jv]" by (simp only: img not_False_eq_True)
    then have "boundsDynamics E q v ! r = replicate (nv (model E)) (Some 0) ! r"
      unfolding bd by (rule fold_deposit_other)
    with r show "boundsDynamics E q v ! r = Some 0" by simp
  qed
  then show "\<forall>r < nv (model E). r \<notin> set (jointsVelocityIdx (model E)) \<longrightarrow>
           boundsDynamics E q v ! r = Some 0"
    by (simp add: jv_def)
  show "length (boundsDynamics E q v) = nv (model E)"
    unfolding bd by (simp add: fold_deposit_length)
qed

lemma forceJoint_cases:
  assumes "boundTransitionEps jo \<noteq> 0"
  shows "(qJoint > qJointMax \<longrightarrow>
      forceJoint jo qJoint vJoint qJointMin qJointMax =
        Some (tanh (2 * (qJoint - qJointMax) / boundTransitionEps jo) *
              (- boundStiffness jo * (qJoint - qJointMax) - boundDamping jo * max 0 vJoint))) \<and>
   (qJoint < qJointMin \<and> qJointMin \<le> qJointMax \<longrightarrow>
      forceJoint jo qJoint vJoint qJointMin qJointMax =
        Some (tanh (2 * (qJointMin - qJoint) / boundTransitionEps jo) *
              (boundStiffness jo * (qJointMin - qJoint) - boundDamping jo * min 0 vJoint))) \<and>
   (qJointMin \<le> qJoint \<and> qJoint \<le> qJointMax \<longrightarrow>
      forceJoint jo qJoint vJoint qJointMin qJointMax = Some 0)"
  using assms
  by (simp add: forceJoint_def boundsBlendingLaw_def Let_def max.commute min.commute)

lemma example_joints:
  "jointsPositionIdx (model exampleEngine) = [0]"
  "jointsVelocityIdx (model exampleEngine) = [0]"
  "nv (model exampleEngine) = 1"
  "boundsMin (joints_mdl (mdlOptions (model exampleEngine))) = [- 1]"
  "boundsMax (joints_mdl (mdlOptions (model exampleEngine))) = [1]"
  "joints (engineOptions exampleEngine)
     = \<lparr>boundStiffness = 100000, boundDamping = 10000, boundTransitionEps = 1 / 100\<rparr>"
  by (simp_all add: exampleEngine_def exampleModel_def exampleOptions_def)

text \<open>
  C3, as the spec states it, holds for every value of \<^verbatim>\<open>boundTransitionEps\<close>, and the
  spec gives that option no range. With the scale at zero and the joint inside its
  limits the code divides zero by zero: the force it adds to the joint's row is NaN,
  not \<open>0\<close>. Here the joint is at \<open>1 / 2\<close>, inside \<open>[- 1, 1]\<close>.
\<close>

theorem boundsDynamics_zero_scale_counterexample:
  "boundsMin (joints_mdl (mdlOptions (model exampleEngine))) ! 0 \<le> 1 / 2 \<and>
   1 / 2 \<le> boundsMax (joints_mdl (mdlOptions (model exampleEngine))) ! 0 \<and>
   boundsDynamics
     (exampleEngine\<lparr>engineOptions := exampleOptions\<lparr>joints :=
        \<lparr>boundStiffness = 100000, boundDamping = 10000, boundTransitionEps = 0\<rparr>\<rparr>\<rparr>)
     [1 / 2] [3] ! 0 = None \<and>
   boundsDynamics
     (exampleEngine\<lparr>engineOptions := exampleOptions\<lparr>joints :=
        \<lparr>boundStiffness = 100000, boundDamping = 10000, boundTransitionEps = 0\<rparr>\<rparr>\<rparr>)
     [1 / 2] [3] ! 0 \<noteq> Some 0"
proof -
  let ?E = "exampleEngine\<lparr>engineOptions := exampleOptions\<lparr>joints :=
        \<lparr>boundStiffness = 100000, boundDamping = 10000, boundTransitionEps = 0\<rparr>\<rparr>\<rparr>"
  have h: "length (jointsPositionIdx (model ?E)) = length (jointsVelocityIdx (model ?E))"
    "distinct (jointsVelocityIdx (model ?E))"
    "\<forall>r \<in> set (jointsVelocityIdx (model ?E)). r < nv (model ?E)"
    "0 < length (jointsVelocityIdx (model ?E))"
    by (simp_all add: example_joints)
  have "boundsDynamics ?E [1 / 2] [3] ! 0 = None"
    using boundsDynamics_row(1) [OF h, of "[1 / 2]" "[3]"]
    by (simp add: example_joints exampleOptions_def forceJoint_def boundsBlendingLaw_def)
  then show ?thesis by (simp add: example_joints)
qed

text \<open>
  With the scale at zero and the joint beyond a limit the quotient is infinite and its
  \<^verbatim>\<open>tanh\<close> is \<open>1\<close>: the force is not blended. At \<open>q = 2\<close> and \<open>v = 3\<close> it is
  \<open>- 100000 * 1 - 10000 * 3\<close>.
\<close>

lemma boundsDynamics_zero_scale_outside:
  "boundsDynamics
     (exampleEngine\<lparr>engineOptions := exampleOptions\<lparr>joints :=
        \<lparr>boundStiffness = 100000, boundDamping = 10000, boundTransitionEps = 0\<rparr>\<rparr>\<rparr>)
     [2] [3] ! 0 = Some (- 130000)"
proof -
  let ?E = "exampleEngine\<lparr>engineOptions := exampleOptions\<lparr>joints :=
        \<lparr>boundStiffness = 100000, boundDamping = 10000, boundTransitionEps = 0\<rparr>\<rparr>\<rparr>"
  have h: "length (jointsPositionIdx (model ?E)) = length (jointsVelocityIdx (model ?E))"
    "distinct (jointsVelocityIdx (model ?E))"
    "\<forall>r \<in> set (jointsVelocityIdx (model ?E)). r < nv (model ?E)"
    "0 < length (jointsVelocityIdx (model ?E))"
    by (simp_all add: example_joints)
  show ?thesis
    using boundsDynamics_row(1) [OF h, of "[2]" "[3]"]
    by (simp add: example_joints exampleOptions_def forceJoint_def boundsBlendingLaw_def)
qed

text \<open>
  C3 (amended): with \<^verbatim>\<open>boundTransitionEps\<close> not zero, for an actuated joint \<open>i\<close> with
  position \<open>qi\<close>, velocity \<open>vi\<close> and limits \<open>qmin \<le> qmax\<close>, the row
  \<open>jointsVelocityIdx ! i\<close> of the output of \<^verbatim>\<open>boundsDynamics\<close> is the number
  \<open>tanh (2 * (qi - qmax) / boundTransitionEps) * (- boundStiffness * (qi - qmax) - boundDamping * max 0 vi)\<close>
  when \<open>qi > qmax\<close>,
  \<open>tanh (2 * (qmin - qi) / boundTransitionEps) * (boundStiffness * (qmin - qi) - boundDamping * min 0 vi)\<close>
  when \<open>qi < qmin\<close>, and \<open>0\<close> when \<open>qmin \<le> qi \<le> qmax\<close>; the output has \<open>nv\<close> rows, and
  every row no actuated joint points to is zero. The model is well formed: as many
  position as velocity indices, velocity rows distinct and below \<open>nv\<close>.
\<close>

theorem boundsDynamics_spec:
  fixes E :: "'c Engine" and q v :: vectorN_t and i :: nat
  defines "jv \<equiv> jointsVelocityIdx (model E)"
    and "kb \<equiv> boundStiffness (joints (engineOptions E))"
    and "db \<equiv> boundDamping (joints (engineOptions E))"
    and "epsb \<equiv> boundTransitionEps (joints (engineOptions E))"
    and "qi \<equiv> q ! (jointsPositionIdx (model E) ! i)"
    and "vi \<equiv> v ! (jointsVelocityIdx (model E) ! i)"
    and "qmin \<equiv> boundsMin (joints_mdl (mdlOptions (model E))) ! i"
    and "qmax \<equiv> boundsMax (joints_mdl (mdlOptions (model E))) ! i"
  assumes scale: "boundTransitionEps (joints (engineOptions E)) \<noteq> 0"
    and len: "length (jointsPositionIdx (model E)) = length (jointsVelocityIdx (model E))"
    and dist: "distinct (jointsVelocityIdx (model E))"
    and rows: "\<forall>r \<in> set (jointsVelocityIdx (model E)). r < nv (model E)"
    and i: "i < length (jointsVelocityIdx (model E))"
    and lim: "boundsMin (joints_mdl (mdlOptions (model E))) ! i
              \<le> boundsMax (joints_mdl (mdlOptions (model E))) ! i"
  shows "(qi > qmax \<longrightarrow>
            boundsDynamics E q v ! (jv ! i) =
              Some (tanh (2 * (qi - qmax) / epsb) * (- kb * (qi - qmax) - db * max 0 vi))) \<and>
         (qi < qmin \<longrightarrow>
            boundsDynamics E q v ! (jv ! i) =
              Some (tanh (2 * (qmin - qi) / epsb) * (kb * (qmin - qi) - db * min 0 vi))) \<and>
         (qmin \<le> qi \<and> qi \<le> qmax \<longrightarrow> boundsDynamics E q v ! (jv ! i) = Some 0) \<and>
         length (boundsDynamics E q v) = nv (model E) \<and>
         (\<forall>r < nv (model E). r \<notin> set jv \<longrightarrow> boundsDynamics E q v ! r = Some 0)"
proof -
  note row = boundsDynamics_row [OF len dist rows i, of q v]
  have lim': "qmin \<le> qmax" using lim by (simp add: qmin_def qmax_def)
  from forceJoint_cases [OF scale, of qmax qi vi qmin] lim'
  have "(qi > qmax \<longrightarrow> boundsDynamics E q v ! (jv ! i) =
              Some (tanh (2 * (qi - qmax) / epsb) * (- kb * (qi - qmax) - db * max 0 vi))) \<and>
         (qi < qmin \<longrightarrow> boundsDynamics E q v ! (jv ! i) =
              Some (tanh (2 * (qmin - qi) / epsb) * (kb * (qmin - qi) - db * min 0 vi))) \<and>
         (qmin \<le> qi \<and> qi \<le> qmax \<longrightarrow> boundsDynamics E q v ! (jv ! i) = Some 0)"
    by (simp add: row(1) qi_def vi_def qmin_def qmax_def kb_def db_def epsb_def jv_def)
  with row(2,3) show ?thesis by (simp add: jv_def)
qed

theorem boundsDynamics_spec_witness:
  "boundsDynamics exampleEngine [2] [3] ! 0 = Some (tanh 200 * (- 130000)) \<and>
   boundsDynamics exampleEngine [- 2] [- 3] ! 0 = Some (tanh 200 * 130000) \<and>
   boundsDynamics exampleEngine [1 / 2] [3] ! 0 = Some 0 \<and>
   length (boundsDynamics exampleEngine [2] [3]) = 1"
proof -
  have h: "boundTransitionEps (joints (engineOptions exampleEngine)) \<noteq> 0"
    "length (jointsPositionIdx (model exampleEngine)) = length (jointsVelocityIdx (model exampleEngine))"
    "distinct (jointsVelocityIdx (model exampleEngine))"
    "\<forall>r \<in> set (jointsVelocityIdx (model exampleEngine)). r < nv (model exampleEngine)"
    "0 < length (jointsVelocityIdx (model exampleEngine))"
    "boundsMin (joints_mdl (mdlOptions (model exampleEngine))) ! 0
       \<le> boundsMax (joints_mdl (mdlOptions (model exampleEngine))) ! 0"
    by (simp_all add: example_joints)
  from boundsDynamics_spec [OF h, of "[2]" "[3]"] boundsDynamics_spec [OF h, of "[- 2]" "[- 3]"]
    boundsDynamics_spec [OF h, of "[1 / 2]" "[3]"]
  show ?thesis by (simp add: example_joints)
qed

section \<open>Break-point period and options\<close>

text \<open>
  C4, as the spec states it, compares the periods with the machine epsilon by \<open>\<le>\<close> and
  \<open>>\<close>, and gives the period \<open>0\<close> whenever both are at most the machine epsilon. The
  code compares by \<open><\<close>: with \<open>Ds\<close> equal to the machine epsilon and \<open>Dc = 1\<close> the
  period is \<open>min Ds Dc\<close>, not \<open>Dc\<close>; and with \<open>Ds = 0\<close> and \<open>Dc\<close> half the machine
  epsilon the period is \<open>Dc\<close>, not \<open>0\<close>.
\<close>

theorem updatePeriod_claim_counterexample:
  "sensorsUpdatePeriod \<lparr>randomSeed = 0, tolAbs = 1, tolRel = 1,
       sensorsUpdatePeriod = epsilon, controllerUpdatePeriod = 1\<rparr> \<le> epsilon \<and>
   controllerUpdatePeriod \<lparr>randomSeed = 0, tolAbs = 1, tolRel = 1,
       sensorsUpdatePeriod = epsilon, controllerUpdatePeriod = 1\<rparr> > epsilon \<and>
   updatePeriod \<lparr>randomSeed = 0, tolAbs = 1, tolRel = 1,
       sensorsUpdatePeriod = epsilon, controllerUpdatePeriod = 1\<rparr>
     \<noteq> controllerUpdatePeriod \<lparr>randomSeed = 0, tolAbs = 1, tolRel = 1,
       sensorsUpdatePeriod = epsilon, controllerUpdatePeriod = 1\<rparr> \<and>
   sensorsUpdatePeriod \<lparr>randomSeed = 0, tolAbs = 1, tolRel = 1,
       sensorsUpdatePeriod = 0, controllerUpdatePeriod = epsilon / 2\<rparr> \<le> epsilon \<and>
   controllerUpdatePeriod \<lparr>randomSeed = 0, tolAbs = 1, tolRel = 1,
       sensorsUpdatePeriod = 0, controllerUpdatePeriod = epsilon / 2\<rparr> \<le> epsilon \<and>
   updatePeriod \<lparr>randomSeed = 0, tolAbs = 1, tolRel = 1,
       sensorsUpdatePeriod = 0, controllerUpdatePeriod = epsilon / 2\<rparr> \<noteq> 0"
  by (simp add: updatePeriod_def epsilon_def)

text \<open>
  C4 (amended): the break-point period \<^verbatim>\<open>simulate\<close> computes from
  \<open>Ds = sensorsUpdatePeriod\<close> and \<open>Dc = controllerUpdatePeriod\<close> is \<open>Dc\<close> when \<open>Ds\<close> is
  below the machine epsilon and \<open>Dc\<close> is not; \<open>Ds\<close> when \<open>Dc\<close> is below it and \<open>Ds\<close> is
  not; \<open>min Ds Dc\<close> when neither is below it; and \<open>0\<close> (pure adaptive mode) when \<open>Ds\<close>
  is below it and \<open>Dc = 0\<close>, in particular when both periods are \<open>0\<close>.
\<close>

theorem updatePeriod_spec:
  fixes so :: stepperOptions_t
  defines "Ds \<equiv> sensorsUpdatePeriod so" and "Dc \<equiv> controllerUpdatePeriod so"
  shows "(Ds < epsilon \<and> Dc \<ge> epsilon \<longrightarrow> updatePeriod so = Dc) \<and>
         (Dc < epsilon \<and> Ds \<ge> epsilon \<longrightarrow> updatePeriod so = Ds) \<and>
         (Ds \<ge> epsilon \<and> Dc \<ge> epsilon \<longrightarrow> updatePeriod so = min Ds Dc) \<and>
         (Ds < epsilon \<and> Dc = 0 \<longrightarrow> updatePeriod so = 0)"
  by (simp add: updatePeriod_def Ds_def Dc_def)

theorem updatePeriod_spec_witness:
  "updatePeriod \<lparr>randomSeed = 0, tolAbs = 1, tolRel = 1,
       sensorsUpdatePeriod = 0, controllerUpdatePeriod = 1 / 1000\<rparr> = 1 / 1000 \<and>
   updatePeriod \<lparr>randomSeed = 0, tolAbs = 1, tolRel = 1,
       sensorsUpdatePeriod = 1 / 2000, controllerUpdatePeriod = 0\<rparr> = 1 / 2000 \<and>
   updatePeriod \<lparr>randomSeed = 0, tolAbs = 1, tolRel = 1,
       sensorsUpdatePeriod = 1 / 2000, controllerUpdatePeriod = 1 / 1000\<rparr> = 1 / 2000 \<and>
   updatePeriod \<lparr>randomSeed = 0, tolAbs = 1, tolRel = 1,
       sensorsUpdatePeriod = 0, controllerUpdatePeriod = 0\<rparr> = 0"
  using updatePeriod_spec [of "\<lparr>randomSeed = 0, tolAbs = 1, tolRel = 1,
       sensorsUpdatePeriod = 0, controllerUpdatePeriod = 1 / 1000\<rparr>"]
    updatePeriod_spec [of "\<lparr>randomSeed = 0, tolAbs = 1, tolRel = 1,
       sensorsUpdatePeriod = 1 / 2000, controllerUpdatePeriod = 0\<rparr>"]
    updatePeriod_spec [of "\<lparr>randomSeed = 0, tolAbs = 1, tolRel = 1,
       sensorsUpdatePeriod = 1 / 2000, controllerUpdatePeriod = 1 / 1000\<rparr>"]
    updatePeriod_spec [of "\<lparr>randomSeed = 0, tolAbs = 1, tolRel = 1,
       sensorsUpdatePeriod = 0, controllerUpdatePeriod = 0\<rparr>"]
  by (simp add: epsilon_def)

text \<open>
  C8: \<^verbatim>\<open>setOptions\<close> always replaces the stored options holder (and the typed view
  built from it) by its argument. When the engine is initialised the model becomes the
  old model with the gravity of the new options written into it, and nothing else
  changed; when it is not, the model, its gravity included, is left as it was.
\<close>

theorem setOptions_spec:
  "engineOptionsHolder (setOptions E opts) = opts \<and>
   engineOptions (setOptions E opts) = opts \<and>
   (isInitialized E \<longrightarrow>
      model (setOptions E opts) =
        (model E)\<lparr>pncModel := (pncModel (model E))\<lparr>gravity_pnc := gravity (world opts)\<rparr>\<rparr>) \<and>
   (\<not> isInitialized E \<longrightarrow> model (setOptions E opts) = model E)"
  by (simp add: setOptions_def Let_def)

theorem setOptions_spec_witness:
  "gravity_pnc (pncModel (model (setOptions exampleEngine
       (exampleOptions\<lparr>world := \<lparr>gravity = [0, 0, - 1, 0, 0, 0]\<rparr>\<rparr>)))) = [0, 0, - 1, 0, 0, 0] \<and>
   model (setOptions (exampleEngine\<lparr>isInitialized := False\<rparr>)
       (exampleOptions\<lparr>world := \<lparr>gravity = [0, 0, - 1, 0, 0, 0]\<rparr>\<rparr>)) = exampleModel \<and>
   engineOptionsHolder (setOptions (exampleEngine\<lparr>isInitialized := False\<rparr>)
       (exampleOptions\<lparr>world := \<lparr>gravity = [0, 0, - 1, 0, 0, 0]\<rparr>\<rparr>))
     = exampleOptions\<lparr>world := \<lparr>gravity = [0, 0, - 1, 0, 0, 0]\<rparr>\<rparr>"
proof -
  have i: "isInitialized exampleEngine" and m: "model exampleEngine = exampleModel"
    by (simp_all add: exampleEngine_def)
  from setOptions_spec [of exampleEngine "exampleOptions\<lparr>world := \<lparr>gravity = [0, 0, - 1, 0, 0, 0]\<rparr>\<rparr>"]
    setOptions_spec [of "exampleEngine\<lparr>isInitialized := False\<rparr>"
      "exampleOptions\<lparr>world := \<lparr>gravity = [0, 0, - 1, 0, 0, 0]\<rparr>\<rparr>"]
  show ?thesis by (simp add: i m)
qed

section \<open>Properties of simulate\<close>

lemma iteration_thrown_iterLast:
  assumes "iteration X end_time period L = Some L'" and "thrown L' \<noteq> None"
  shows "iterLast (stepperState (eng L')) = iterLast (stepperState (eng L))"
proof -
  let ?r = "if period > 0
            then breakpointLoop X (breakpointUpdate X end_time period L)
            else Some (adaptiveLoop X (L\<lparr>dt := min (dt L) (end_time - current_time L)\<rparr>))"
  from assms(1) obtain L1 where r: "?r = Some L1"
    and L': "L' = (if thrown L1 \<noteq> None then L1 else postStep X L1)"
    by (auto simp: iteration_def split: option.splits if_splits)
  have s: "sameSetup (eng L) (eng L1)"
  proof (cases "period > 0")
    case True
    with r have "breakpointLoop X (breakpointUpdate X end_time period L) = Some L1" by simp
    then have "sameSetup (eng (breakpointUpdate X end_time period L)) (eng L1)"
      by (rule breakpointLoop_sameSetup)
    with breakpointUpdate_sameSetup show ?thesis by (rule sameSetup_trans)
  next
    case False
    with r have "L1 = adaptiveLoop X (L\<lparr>dt := min (dt L) (end_time - current_time L)\<rparr>)" by simp
    then show ?thesis
      using adaptiveLoop_sameSetup [of "L\<lparr>dt := min (dt L) (end_time - current_time L)\<rparr>" X] by simp
  qed
  have "thrown L1 \<noteq> None"
  proof
    assume "thrown L1 = None"
    then have "L' = postStep X L1" using L' by simp
    then have "thrown L' = thrown L1" by (simp add: postStep_def Let_def)
    with \<open>thrown L1 = None\<close> assms(2) show False by simp
  qed
  then have "L' = L1" using L' by simp
  with s show ?thesis by (simp add: sameSetup_def sameStatic_def)
qed

lemma simulate_loop_unfold:
  "simulate_loop X end_time period L =
     (if stopCondition end_time (L\<lparr>eng := publish (eng L)\<rparr>)
      then Some (L\<lparr>eng := publish (eng L)\<rparr>)
      else (case iteration X end_time period (L\<lparr>eng := publish (eng L)\<rparr>) of
              None \<Rightarrow> None
            | Some L' \<Rightarrow> if thrown L' \<noteq> None then Some L'
                         else simulate_loop X end_time period L'))"
  by (subst simulate_loop.simps) (simp add: Let_def)

lemma simulate_loop_result:
  fixes L :: "'c loopState"
  shows "simulate_loop X end_time period L = Some L' \<Longrightarrow>
     (thrown L' = None \<longrightarrow> stopCondition end_time L') \<and>
     iterLast (stepperState (eng L')) \<le> max (iterLast (stepperState (eng L))) 100000"
proof (induction X end_time period L rule: simulate_loop.induct)
  case (1 X end_time period L)
  let ?L1 = "L\<lparr>eng := publish (eng L)\<rparr>"
  have i1: "iterLast (stepperState (eng ?L1)) = iterLast (stepperState (eng L))"
    by (simp add: publish_iterLast)
  show ?case
  proof (cases "stopCondition end_time ?L1")
    case True
    with "1.prems" have "L' = ?L1" by (simp add: simulate_loop_unfold)
    with True i1 show ?thesis by simp
  next
    case False
    with "1.prems" obtain L2 where it: "iteration X end_time period ?L1 = Some L2"
      and r: "(if thrown L2 \<noteq> None then Some L2 else simulate_loop X end_time period L2) = Some L'"
      by (simp add: simulate_loop_unfold split: option.splits)
    have lt: "iterLast (stepperState (eng ?L1)) < 100000"
      using False by (rule stopCondition_iterLast)
    show ?thesis
    proof (cases "thrown L2 \<noteq> None")
      case True
      with r have "L' = L2" by simp
      then show ?thesis
        using True iteration_thrown_iterLast [OF it True] i1 by auto
    next
      case nt: False
      with r have run: "simulate_loop X end_time period L2 = Some L'" by simp
      have step: "iterLast (stepperState (eng L2)) = iterLast (stepperState (eng ?L1)) + 1"
        using it nt by (intro iteration_iterLast) simp_all
      have IH: "(thrown L' = None \<longrightarrow> stopCondition end_time L') \<and>
          iterLast (stepperState (eng L')) \<le> max (iterLast (stepperState (eng L2))) 100000"
        using "1.IH" [OF refl False it nt run] .
      then show ?thesis using step lt i1 by simp
    qed
  qed
qed

section \<open>Command saturation: the invariant of a run\<close>

lemma sameSetup_sameStatic: "sameSetup E E' \<Longrightarrow> sameStatic E E'"
  by (simp add: sameSetup_def)

lemma sameStatic_model:
  "sameStatic E E' \<Longrightarrow>
   (model E')\<lparr>pncData := D, contactForces := cf, sensorsData := sd\<rparr>
     = (model E)\<lparr>pncData := D, contactForces := cf, sensorsData := sd\<rparr>"
  by (rule Model.equality) (simp_all add: sameStatic_def)

lemma contract_sameStatic: "sameStatic E E' \<Longrightarrow> controllerContract E \<Longrightarrow> controllerContract E'"
proof -
  assume s: "sameStatic E E'" and c: "controllerContract E"
  from s have "jointsVelocityIdx (model E') = jointsVelocityIdx (model E)"
    "pncModel (model E') = pncModel (model E)"
    "compute_command (controller E') = compute_command (controller E)"
    by (simp_all add: sameStatic_def)
  with c show "controllerContract E'"
    by (simp add: controllerContract_def sameStatic_model [OF s])
qed

lemma contract_length:
  assumes "controllerContract E" and "length u = length (jointsVelocityIdx (model E))"
  shows "length (fst (compute_command (controller E) (model E) t q v u c))
           = length (jointsVelocityIdx (model E))"
proof -
  have "(model E)\<lparr>pncData := pncData (model E), contactForces := contactForces (model E),
                  sensorsData := sensorsData (model E)\<rparr> = model E"
    by simp
  moreover from assms have
    "length (fst (compute_command (controller E)
        ((model E)\<lparr>pncData := pncData (model E), contactForces := contactForces (model E),
                   sensorsData := sensorsData (model E)\<rparr>) t q v u c))
       = length (jointsVelocityIdx (model E))"
    unfolding controllerContract_def by blast
  ultimately show ?thesis by simp
qed

lemma saturated_sameStatic: "sameStatic E E' \<Longrightarrow> saturated (model E') u = saturated (model E) u"
  by (simp add: sameStatic_def saturated_def)

lemma clamp_bound: "0 \<le> T \<Longrightarrow> \<bar>clamp val (- T) T\<bar> \<le> T"
  by (auto simp: clamp_def)

lemma clamp_max_min: "0 \<le> T \<Longrightarrow> clamp val (- T) T = max (- T) (min T val)"
  by (auto simp: clamp_def)

lemma clampEntry_uCommandLast:
  "uCommandLast (clampEntry M i st) =
     (uCommandLast st)[i := clamp (uCommandLast st ! i)
        (- (effortLimit (pncModel M) ! (jointsVelocityIdx M ! i)))
        (effortLimit (pncModel M) ! (jointsVelocityIdx M ! i))]"
  by (simp add: clampEntry_def Let_def)

lemma fold_clampEntry_length:
  "length (uCommandLast (fold (clampEntry M) is st)) = length (uCommandLast st)"
  by (induction "is" arbitrary: st) (simp_all add: clampEntry_uCommandLast)

lemma fold_clampEntry_above:
  "\<forall>j \<in> set is. j \<noteq> i \<Longrightarrow>
   uCommandLast (fold (clampEntry M) is st) ! i = uCommandLast st ! i"
  by (induction "is" arbitrary: st) (simp_all add: clampEntry_uCommandLast)

lemma fold_clampEntry_nth:
  "i < n \<Longrightarrow> n \<le> length (uCommandLast st) \<Longrightarrow>
   uCommandLast (fold (clampEntry M) [0..<n] st) ! i =
     clamp (uCommandLast st ! i)
        (- (effortLimit (pncModel M) ! (jointsVelocityIdx M ! i)))
        (effortLimit (pncModel M) ! (jointsVelocityIdx M ! i))"
proof (induction n)
  case 0
  then show ?case by simp
next
  case (Suc n)
  let ?st = "fold (clampEntry M) [0..<n] st"
  have len: "length (uCommandLast ?st) = length (uCommandLast st)"
    by (rule fold_clampEntry_length)
  show ?case
  proof (cases "i = n")
    case True
    have "uCommandLast ?st ! n = uCommandLast st ! n"
      by (rule fold_clampEntry_above) simp
    then show ?thesis
      using True Suc.prems len by (simp add: clampEntry_uCommandLast)
  next
    case False
    with Suc.prems have "i < n" by simp
    then show ?thesis
      using Suc.IH Suc.prems False by (simp add: clampEntry_uCommandLast)
  qed
qed

lemma clampCommand_nth:
  "length (uCommandLast st) = length (jointsVelocityIdx M) \<Longrightarrow> i < length (jointsVelocityIdx M) \<Longrightarrow>
   uCommandLast (clampCommand M st) ! i =
     clamp (uCommandLast st ! i)
        (- (effortLimit (pncModel M) ! (jointsVelocityIdx M ! i)))
        (effortLimit (pncModel M) ! (jointsVelocityIdx M ! i))"
  by (simp add: clampCommand_def fold_clampEntry_nth)

lemma clampCommand_saturated:
  assumes "length (uCommandLast st) = length (jointsVelocityIdx M)"
    and "\<forall>j \<in> set (jointsVelocityIdx M). 0 \<le> effortLimit (pncModel M) ! j"
  shows "saturated M (uCommandLast (clampCommand M st))"
proof -
  have "length (uCommandLast (clampCommand M st)) = length (jointsVelocityIdx M)"
    using assms(1) by (simp add: clampCommand_def fold_clampEntry_length)
  moreover have "\<bar>uCommandLast (clampCommand M st) ! i\<bar>
                   \<le> effortLimit (pncModel M) ! (jointsVelocityIdx M ! i)"
    if "i < length (jointsVelocityIdx M)" for i
  proof -
    have "0 \<le> effortLimit (pncModel M) ! (jointsVelocityIdx M ! i)"
      using assms(2) that by simp
    then show ?thesis
      by (simp add: clampCommand_nth [OF assms(1) that] clamp_bound)
  qed
  ultimately show ?thesis by (simp add: saturated_def)
qed

lemma commandAndClamp_uCommandLast:
  "uCommandLast (stepperState (commandAndClamp t q v E)) =
     uCommandLast (clampCommand (model E)
       ((stepperState E)\<lparr>uCommandLast :=
          fst (compute_command (controller E) (model E) t q v
                 (uCommandLast (stepperState E)) (ctrlState (controller E)))\<rparr>))"
  by (simp add: commandAndClamp_def Let_def split: prod.splits)

lemma commandAndClamp_saturated:
  assumes "controllerContract E"
    and "length (uCommandLast (stepperState E)) = length (jointsVelocityIdx (model E))"
  shows "saturated (model E) (uCommandLast (stepperState (commandAndClamp t q v E)))"
  unfolding commandAndClamp_uCommandLast
proof (intro clampCommand_saturated)
  show "length (uCommandLast ((stepperState E)\<lparr>uCommandLast :=
          fst (compute_command (controller E) (model E) t q v
                 (uCommandLast (stepperState E)) (ctrlState (controller E)))\<rparr>))
        = length (jointsVelocityIdx (model E))"
    using contract_length [OF assms] by simp
  show "\<forall>j \<in> set (jointsVelocityIdx (model E)). 0 \<le> effortLimit (pncModel (model E)) ! j"
    using assms(1) by (simp add: controllerContract_def)
qed

lemma commandInvariant_kept:
  "sameSetup E E' \<Longrightarrow> uCommandLast (stepperState E') = uCommandLast (stepperState E) \<Longrightarrow>
   commandInvariant E \<Longrightarrow> commandInvariant E'"
  using contract_sameStatic [of E E'] saturated_sameStatic [of E E']
  by (simp add: commandInvariant_def sameSetup_def)

lemma commandInvariant_commandAndClamp:
  assumes "commandInvariant E" shows "commandInvariant (commandAndClamp t q v E)"
proof -
  have c: "controllerContract E" using assms by (simp add: commandInvariant_def)
  have l: "length (uCommandLast (stepperState E)) = length (jointsVelocityIdx (model E))"
    using assms by (simp add: commandInvariant_def saturated_def)
  have s: "sameStatic E (commandAndClamp t q v E)"
    using commandAndClamp_sameSetup by (rule sameSetup_sameStatic)
  show ?thesis
    using commandAndClamp_saturated [OF c l, of t q v] contract_sameStatic [OF s c]
      saturated_sameStatic [OF s]
    by (simp add: commandInvariant_def)
qed

lemma commandInvariant_updateKinematics:
  "commandInvariant E \<Longrightarrow> commandInvariant (updateKinematics X q v E)"
  by (rule commandInvariant_kept [OF updateKinematics_sameSetup]) (simp_all add: updateKinematics_def)

lemma commandInvariant_externalForces:
  "commandInvariant E \<Longrightarrow> commandInvariant (snd (externalForces E))"
  by (rule commandInvariant_kept [OF externalForces_sameSetup])
     (simp_all add: externalForces_def split: prod.splits)

lemma commandInvariant_updateSensors:
  "commandInvariant E \<Longrightarrow> commandInvariant (updateSensors t q v E)"
  by (rule commandInvariant_kept [OF updateSensors_sameSetup]) (simp_all add: updateSensors_def)

lemma commandInvariant_updateCommand:
  "commandInvariant E \<Longrightarrow> commandInvariant (updateCommand t q v E)"
  by (simp add: updateCommand_def commandInvariant_commandAndClamp)

lemma commandInvariant_updateInternal:
  "commandInvariant E \<Longrightarrow> commandInvariant (updateInternal t q v E)"
  by (rule commandInvariant_kept [OF updateInternal_sameSetup])
     (simp_all add: updateInternal_def Let_def split: prod.splits)

lemma commandInvariant_systemDynamics:
  "commandInvariant E \<Longrightarrow> commandInvariant (snd (systemDynamics X t x E))"
  unfolding snd_systemDynamics
  by (intro commandInvariant_updateInternal commandInvariant_updateCommand
      commandInvariant_updateSensors commandInvariant_externalForces
      commandInvariant_updateKinematics)

lemma commandInvariant_run_prog:
  "commandInvariant E \<Longrightarrow> commandInvariant (snd (run_prog (systemDynamics X) p E))"
proof (induction p arbitrary: E)
  case (Return a)
  then show ?case by simp
next
  case (Rhs t x k)
  obtain d E1 where sd: "systemDynamics X t x E = (d, E1)" by (cases "systemDynamics X t x E")
  have "commandInvariant E1"
    using commandInvariant_systemDynamics [OF Rhs.prems, of X t x] sd by simp
  then have "commandInvariant (snd (run_prog (systemDynamics X) (k d) E1))"
    by (intro Rhs.IH) simp_all
  then show ?case using sd by simp
qed

lemma commandInvariant_xState:
  "commandInvariant E \<Longrightarrow>
   commandInvariant (E\<lparr>stepperState := (stepperState E)\<lparr>xState := x', dxdtState := d'\<rparr>\<rparr>)"
  by (simp add: commandInvariant_def controllerContract_def)

lemma commandInvariant_tryStep:
  assumes "commandInvariant E" shows "commandInvariant (snd (tryStep X t h E))"
proof -
  obtain x' d' where
    "snd (tryStep X t h E) =
     (let E1 = snd (run_prog (systemDynamics X)
                 (try_step X (tolAbs (stepper (engineOptions E))) (tolRel (stepper (engineOptions E)))
                    (xState (stepperState E)) (dxdtState (stepperState E)) t h) E)
      in E1\<lparr>stepperState := (stepperState E1)\<lparr>xState := x', dxdtState := d'\<rparr>\<rparr>)"
    using tryStep_eng by blast
  then show ?thesis
    using assms by (simp only: Let_def commandInvariant_xState commandInvariant_run_prog)
qed

lemma commandInvariant_stepBreakpoint:
  assumes "commandInvariant (eng L)" shows "commandInvariant (eng (stepBreakpoint X L))"
proof -
  have "eng (stepBreakpoint X L) =
          snd (tryStep X (current_time L) (min (dt L) (next_time L - current_time L)) (eng L))"
    by (simp add: stepBreakpoint_def Let_def fail_check_eng split: prod.splits)
  then show ?thesis using assms by (simp add: commandInvariant_tryStep)
qed

lemma commandInvariant_breakpointLoop:
  fixes L :: "'c loopState"
  assumes "breakpointLoop X L = Some L'" and "commandInvariant (eng L)"
  shows "commandInvariant (eng L')"
proof -
  have "commandInvariant (eng L') \<and> \<not> (thrown L' = None \<and> current_time L' < next_time L')"
    by (rule breakpointLoop_invariant [OF assms(1), where P = "\<lambda>L. commandInvariant (eng L)"])
       (simp_all add: assms(2) commandInvariant_stepBreakpoint)
  then show ?thesis by simp
qed

lemma commandInvariant_stepAdaptive:
  assumes "commandInvariant (eng L)" shows "commandInvariant (eng (snd (stepAdaptive X L)))"
proof -
  have "eng (snd (stepAdaptive X L)) = snd (tryStep X (current_time L) (dt L) (eng L))"
    by (simp add: stepAdaptive_def Let_def fail_check_eng split: prod.splits)
  then show ?thesis using assms by (simp add: commandInvariant_tryStep)
qed

lemma commandInvariant_adaptiveLoop:
  fixes L :: "'c loopState"
  assumes "commandInvariant (eng L)"
  shows "commandInvariant (eng (adaptiveLoop X L))"
  by (rule adaptiveLoop_invariant [where P = "\<lambda>L. commandInvariant (eng L)"])
     (simp_all add: assms commandInvariant_stepAdaptive)

lemma commandInvariant_breakpointSensors:
  "commandInvariant E \<Longrightarrow> commandInvariant (breakpointSensors t E)"
  by (rule commandInvariant_kept [OF breakpointSensors_sameSetup])
     (simp_all add: breakpointSensors_def Let_def)

lemma commandInvariant_refreshDerivative:
  assumes "commandInvariant E" shows "commandInvariant (refreshDerivative X t E)"
proof -
  obtain d E1 where sd: "systemDynamics X t (xState (stepperState E)) E = (d, E1)"
    by (cases "systemDynamics X t (xState (stepperState E)) E")
  have "commandInvariant E1"
    using commandInvariant_systemDynamics [OF assms, of X t "xState (stepperState E)"] sd by simp
  then show ?thesis
    using sd by (simp add: refreshDerivative_def commandInvariant_def controllerContract_def)
qed

lemma commandInvariant_breakpointController:
  "commandInvariant E \<Longrightarrow> commandInvariant (breakpointController X t E)"
  by (simp add: breakpointController_def Let_def commandInvariant_refreshDerivative
      commandInvariant_commandAndClamp)

lemma commandInvariant_breakpointUpdate:
  "commandInvariant (eng L) \<Longrightarrow> commandInvariant (eng (breakpointUpdate X end_time period L))"
  by (simp add: breakpointUpdate_def advanceTimes_def Let_def
      commandInvariant_breakpointController commandInvariant_breakpointSensors)

lemma commandInvariant_postStep:
  "commandInvariant (eng L) \<Longrightarrow> commandInvariant (eng (postStep X L))"
  by (simp add: postStep_def updateLast_def Let_def commandInvariant_def controllerContract_def)

lemma commandInvariant_iteration:
  fixes L :: "'c loopState"
  assumes "iteration X end_time period L = Some L'" and inv: "commandInvariant (eng L)"
  shows "commandInvariant (eng L')"
proof -
  let ?r = "if period > 0
            then breakpointLoop X (breakpointUpdate X end_time period L)
            else Some (adaptiveLoop X (L\<lparr>dt := min (dt L) (end_time - current_time L)\<rparr>))"
  from assms(1) obtain L1 where r: "?r = Some L1"
    and L': "L' = (if thrown L1 \<noteq> None then L1 else postStep X L1)"
    by (auto simp: iteration_def split: option.splits if_splits)
  have "commandInvariant (eng L1)"
  proof (cases "period > 0")
    case True
    with r have "breakpointLoop X (breakpointUpdate X end_time period L) = Some L1" by simp
    then show ?thesis
      by (rule commandInvariant_breakpointLoop) (rule commandInvariant_breakpointUpdate [OF inv])
  next
    case False
    with r have "L1 = adaptiveLoop X (L\<lparr>dt := min (dt L) (end_time - current_time L)\<rparr>)" by simp
    then show ?thesis
      using commandInvariant_adaptiveLoop [of "L\<lparr>dt := min (dt L) (end_time - current_time L)\<rparr>" X] inv
      by simp
  qed
  then show ?thesis using L' by (simp add: commandInvariant_postStep)
qed

lemma postStep_unchanged:
  "sameStatic (eng L) (eng (postStep X L)) \<and>
   telemetryRecorder (eng (postStep X L)) = telemetryRecorder (eng L)"
  by (simp add: postStep_def Let_def sameStatic_def)

lemma iteration_unchanged:
  fixes L :: "'c loopState"
  assumes "iteration X end_time period L = Some L'"
  shows "sameStatic (eng L) (eng L') \<and> telemetryRecorder (eng L') = telemetryRecorder (eng L)"
proof -
  let ?r = "if period > 0
            then breakpointLoop X (breakpointUpdate X end_time period L)
            else Some (adaptiveLoop X (L\<lparr>dt := min (dt L) (end_time - current_time L)\<rparr>))"
  from assms(1) obtain L1 where r: "?r = Some L1"
    and L': "L' = (if thrown L1 \<noteq> None then L1 else postStep X L1)"
    by (auto simp: iteration_def split: option.splits if_splits)
  have s: "sameSetup (eng L) (eng L1)"
  proof (cases "period > 0")
    case True
    with r have "breakpointLoop X (breakpointUpdate X end_time period L) = Some L1" by simp
    then have "sameSetup (eng (breakpointUpdate X end_time period L)) (eng L1)"
      by (rule breakpointLoop_sameSetup)
    with breakpointUpdate_sameSetup show ?thesis by (rule sameSetup_trans)
  next
    case False
    with r have "L1 = adaptiveLoop X (L\<lparr>dt := min (dt L) (end_time - current_time L)\<rparr>)" by simp
    then show ?thesis
      using adaptiveLoop_sameSetup [of "L\<lparr>dt := min (dt L) (end_time - current_time L)\<rparr>" X] by simp
  qed
  then have a: "sameStatic (eng L) (eng L1)" and b: "telemetryRecorder (eng L1) = telemetryRecorder (eng L)"
    by (simp_all add: sameSetup_def)
  show ?thesis
  proof (cases "thrown L1 \<noteq> None")
    case True
    with L' a b show ?thesis by simp
  next
    case False
    with L' have "L' = postStep X L1" by simp
    then show ?thesis
      using postStep_unchanged [of L1 X] a b by (auto intro: sameStatic_trans)
  qed
qed

lemma logInvariant_iteration:
  fixes L :: "'c loopState"
  assumes it: "iteration X end_time period L = Some L'" and inv: "logInvariant (eng L)"
  shows "logInvariant (eng L')"
proof -
  have c: "commandInvariant (eng L')"
    using it inv by (intro commandInvariant_iteration [OF it]) (simp add: logInvariant_def)
  have s: "sameStatic (eng L) (eng L')"
    and t: "telemetryRecorder (eng L') = telemetryRecorder (eng L)"
    using iteration_unchanged [OF it] by simp_all
  have "engineOptions (eng L') = engineOptions (eng L)" using s by (simp add: sameStatic_def)
  moreover have "rowsSaturated (eng L')"
    using inv t saturated_sameStatic [OF s] by (simp add: logInvariant_def rowsSaturated_def)
  ultimately show ?thesis using c inv by (simp add: logInvariant_def)
qed

lemma publish_unchanged:
  "sameStatic E (publish E) \<and> stepperState (publish E) = stepperState E"
  by (simp add: publish_def Let_def sameStatic_def)

lemma publish_rows:
  "logCommand (telemetry (engineOptions E)) \<Longrightarrow>
   \<exists>t td. telemetryRecorder (publish E) = telemetryRecorder E @ [(t, td)] \<and>
          (uCommandEntry td = None \<or> uCommandEntry td = Some (uCommandLast (stepperState E)))"
  by (cases "uCommandEntry (telemetryData E)")
     (simp_all add: publish_def Let_def updateVectorValue_def)

lemma logInvariant_publish:
  assumes "logInvariant E" shows "logInvariant (publish E)"
proof -
  have s: "sameStatic E (publish E)" and st: "stepperState (publish E) = stepperState E"
    using publish_unchanged [of E] by simp_all
  have c: "commandInvariant E" and l: "logCommand (telemetry (engineOptions E))"
    and r: "rowsSaturated E"
    using assms by (simp_all add: logInvariant_def)
  have c': "commandInvariant (publish E)"
    using c contract_sameStatic [OF s] saturated_sameStatic [OF s] st
    by (simp add: commandInvariant_def)
  obtain t td where rows: "telemetryRecorder (publish E) = telemetryRecorder E @ [(t, td)]"
    and td: "uCommandEntry td = None \<or> uCommandEntry td = Some (uCommandLast (stepperState E))"
    using publish_rows [OF l] by blast
  have "saturated (model E) (uCommandLast (stepperState E))"
    using c by (simp add: commandInvariant_def)
  then have "rowsSaturated (publish E)"
    using r rows td saturated_sameStatic [OF s] by (auto simp: rowsSaturated_def)
  moreover have "logCommand (telemetry (engineOptions (publish E)))"
    using l s by (simp add: sameStatic_def)
  ultimately show ?thesis using c' by (simp add: logInvariant_def)
qed

lemma logInvariant_simulate_loop:
  fixes L :: "'c loopState"
  shows "simulate_loop X end_time period L = Some L' \<Longrightarrow> logInvariant (eng L) \<Longrightarrow>
         logInvariant (eng L')"
proof (induction X end_time period L rule: simulate_loop.induct)
  case (1 X end_time period L)
  let ?L1 = "L\<lparr>eng := publish (eng L)\<rparr>"
  have p: "logInvariant (eng ?L1)" using "1.prems"(2) by (simp add: logInvariant_publish)
  show ?case
  proof (cases "stopCondition end_time ?L1")
    case True
    with "1.prems"(1) have "L' = ?L1" by (simp add: simulate_loop_unfold)
    with p show ?thesis by simp
  next
    case False
    with "1.prems"(1) obtain L2 where it: "iteration X end_time period ?L1 = Some L2"
      and r: "(if thrown L2 \<noteq> None then Some L2 else simulate_loop X end_time period L2) = Some L'"
      by (simp add: simulate_loop_unfold split: option.splits)
    have i2: "logInvariant (eng L2)" using it p by (rule logInvariant_iteration)
    show ?thesis
    proof (cases "thrown L2 \<noteq> None")
      case True
      with r i2 show ?thesis by simp
    next
      case nt: False
      with r have run: "simulate_loop X end_time period L2 = Some L'" by simp
      show ?thesis using "1.IH" [OF refl False it nt run i2] .
    qed
  qed
qed

lemma resetState_props:
  "sameStatic E (resetState X x_init E) \<and>
   telemetryData (resetState X x_init E) = telemetryData E \<and>
   stepperState (resetState X x_init E) = initialize_stepperState (model E) x_init"
  by (simp add: resetState_def Let_def sameStatic_def reset_model_def initialize_stepperState_def)

lemma startSimulation_props:
  "sameStatic E (startSimulation X x_init E) \<and>
   telemetryRecorder (startSimulation X x_init E) = [] \<and>
   iterLast (stepperState (startSimulation X x_init E)) = 0"
proof -
  let ?E1 = "resetState X x_init E"
  have a: "sameSetup ?E1 (refreshDerivative X 0 ?E1)" by (rule refreshDerivative_sameSetup)
  have b: "sameStatic E ?E1" and c: "iterLast (stepperState ?E1) = 0"
    using resetState_props [of E X x_init] by (simp_all add: initialize_stepperState_def)
  have "sameStatic E (refreshDerivative X 0 ?E1)"
    using b a by (blast intro: sameStatic_trans sameSetup_sameStatic)
  then have "sameStatic E (startSimulation X x_init E)"
    by (simp add: startSimulation_def sameStatic_def)
  moreover have "iterLast (stepperState (startSimulation X x_init E)) = 0"
    using a c by (simp add: startSimulation_def sameSetup_def)
  ultimately show ?thesis by (simp add: startSimulation_def)
qed

lemma saturated_Zero:
  "\<forall>j \<in> set (jointsVelocityIdx M). 0 \<le> effortLimit (pncModel M) ! j \<Longrightarrow>
   saturated M (Zero (length (jointsVelocityIdx M)))"
  by (simp add: saturated_def Zero_def)

lemma logInvariant_startSimulation:
  assumes c: "controllerContract E" and l: "logCommand (telemetry (engineOptions E))"
  shows "logInvariant (startSimulation X x_init E)"
proof -
  let ?E1 = "resetState X x_init E"
  have s1: "sameStatic E ?E1"
    and st: "stepperState ?E1 = initialize_stepperState (model E) x_init"
    using resetState_props [of E X x_init] by simp_all
  have "saturated (model E) (uCommandLast (stepperState ?E1))"
    using c by (simp add: st initialize_stepperState_def saturated_Zero controllerContract_def)
  then have "commandInvariant ?E1"
    using contract_sameStatic [OF s1 c] saturated_sameStatic [OF s1]
    by (simp add: commandInvariant_def)
  then have "commandInvariant (refreshDerivative X 0 ?E1)"
    by (rule commandInvariant_refreshDerivative)
  then have "commandInvariant (startSimulation X x_init E)"
    by (simp add: startSimulation_def commandInvariant_def controllerContract_def)
  moreover have "engineOptions (startSimulation X x_init E) = engineOptions E"
    using startSimulation_props [of E X x_init] by (simp add: sameStatic_def)
  moreover have "rowsSaturated (startSimulation X x_init E)"
    using startSimulation_props [of E X x_init] by (simp add: rowsSaturated_def)
  ultimately show ?thesis using l by (simp add: logInvariant_def)
qed

lemma simulate_loop_sameStatic:
  fixes L :: "'c loopState"
  shows "simulate_loop X end_time period L = Some L' \<Longrightarrow> sameStatic (eng L) (eng L')"
proof (induction X end_time period L rule: simulate_loop.induct)
  case (1 X end_time period L)
  let ?L1 = "L\<lparr>eng := publish (eng L)\<rparr>"
  have p: "sameStatic (eng L) (eng ?L1)" using publish_unchanged [of "eng L"] by simp
  show ?case
  proof (cases "stopCondition end_time ?L1")
    case True
    with "1.prems"(1) have "L' = ?L1" by (simp add: simulate_loop_unfold)
    with p show ?thesis by simp
  next
    case False
    with "1.prems"(1) obtain L2 where it: "iteration X end_time period ?L1 = Some L2"
      and r: "(if thrown L2 \<noteq> None then Some L2 else simulate_loop X end_time period L2) = Some L'"
      by (simp add: simulate_loop_unfold split: option.splits)
    have i2: "sameStatic (eng L) (eng L2)"
      using p iteration_unchanged [OF it] by (blast intro: sameStatic_trans)
    show ?thesis
    proof (cases "thrown L2 \<noteq> None")
      case True
      with r i2 show ?thesis by simp
    next
      case nt: False
      with r have run: "simulate_loop X end_time period L2 = Some L'" by simp
      have "sameStatic (eng L2) (eng L')" using "1.IH" [OF refl False it nt run] .
      with i2 show ?thesis by (rule sameStatic_trans)
    qed
  qed
qed

lemma simulate_started:
  assumes "isInitialized E" and "length x_init = nx (model E)" and "5 / 100 \<le> end_time"
  shows "simulate X E x_init end_time =
     (case simulate_loop X end_time (updatePeriod (stepper (engineOptions E)))
             \<lparr>eng = startSimulation X x_init E,
              dt = (if updatePeriod (stepper (engineOptions E)) > 0
                    then updatePeriod (stepper (engineOptions E)) else 5 / 10 ^ 4),
              current_time = 0, next_time = 0, fail_checker = 0, thrown = None\<rparr> of
        None \<Rightarrow> None
      | Some L \<Rightarrow> Some (case thrown L of None \<Rightarrow> Inr SUCCESS | Some e \<Rightarrow> Inl e, eng L))"
proof -
  have o: "engineOptions (startSimulation X x_init E) = engineOptions E"
    using startSimulation_props [of E X x_init] by (simp add: sameStatic_def)
  show ?thesis using assms by (simp add: simulate_def Let_def o)
qed

lemma simulate_run:
  assumes "isInitialized E" and "length x_init = nx (model E)" and "5 / 100 \<le> end_time"
    and "simulate X E x_init end_time = Some (r, E')"
  obtains L' where
    "simulate_loop X end_time (updatePeriod (stepper (engineOptions E)))
       \<lparr>eng = startSimulation X x_init E,
        dt = (if updatePeriod (stepper (engineOptions E)) > 0
              then updatePeriod (stepper (engineOptions E)) else 5 / 10 ^ 4),
        current_time = 0, next_time = 0, fail_checker = 0, thrown = None\<rparr> = Some L'"
    and "E' = eng L'"
    and "r = (case thrown L' of None \<Rightarrow> Inr SUCCESS | Some e \<Rightarrow> Inl e)"
proof -
  let ?p = "updatePeriod (stepper (engineOptions E))"
  let ?L0 = "\<lparr>eng = startSimulation X x_init E, dt = (if ?p > 0 then ?p else 5 / 10 ^ 4),
        current_time = 0, next_time = 0, fail_checker = 0, thrown = None\<rparr>"
  from assms(4) obtain L' where "simulate_loop X end_time ?p ?L0 = Some L'"
    and "(r, E') = (case thrown L' of None \<Rightarrow> Inr SUCCESS | Some e \<Rightarrow> Inl e, eng L')"
    unfolding simulate_started [OF assms(1-3)]
    by (cases "simulate_loop X end_time ?p ?L0") simp_all
  then show ?thesis by (intro that [of L']) simp_all
qed


section \<open>A run of the small engine\<close>

text \<open>
  On the small engine, with the first break-point at the end time of 50 ms, the Euler
  stepper lands on the break-point in one step, the loop counts one iteration and stops
  at the second test: \<^verbatim>\<open>simulate\<close> returns \<^verbatim>\<open>SUCCESS\<close>.
\<close>

lemma tryStep_example: "fst (tryStep exampleExt t h E) = (success, t + h, h)"
  by (simp add: tryStep_def exampleExt_def Let_def split: prod.splits)

lemma stepBreakpoint_example:
  "current_time (stepBreakpoint exampleExt L)
     = current_time L + min (dt L) (next_time L - current_time L) \<and>
   next_time (stepBreakpoint exampleExt L) = next_time L \<and>
   thrown (stepBreakpoint exampleExt L) = thrown L"
proof -
  obtain E' where "tryStep exampleExt (current_time L) (min (dt L) (next_time L - current_time L)) (eng L)
      = ((success, current_time L + min (dt L) (next_time L - current_time L),
          min (dt L) (next_time L - current_time L)), E')"
    using tryStep_example [of "current_time L" "min (dt L) (next_time L - current_time L)" "eng L"]
    by (cases "tryStep exampleExt (current_time L) (min (dt L) (next_time L - current_time L)) (eng L)")
       simp
  then show ?thesis by (simp add: stepBreakpoint_def Let_def)
qed

lemma breakpointLoop_example:
  fixes L :: "'c loopState"
  assumes "thrown L = None" and "current_time L < next_time L"
    and "next_time L - current_time L \<le> dt L"
  shows "\<exists>L'. breakpointLoop exampleExt L = Some L' \<and> current_time L' = next_time L \<and>
              thrown L' = None"
proof -
  let ?L1 = "stepBreakpoint exampleExt L"
  have c: "current_time ?L1 = next_time L" and n: "next_time ?L1 = next_time L"
    and t: "thrown ?L1 = None"
    using stepBreakpoint_example [of L] assms by (simp_all add: min_def)
  have "breakpointLoop exampleExt L = breakpointLoop exampleExt ?L1"
    using assms by (subst breakpointLoop.simps) simp
  also have "\<dots> = Some ?L1"
    using c n by (subst breakpointLoop.simps) simp
  finally show ?thesis using c t by simp
qed

lemma example_period: "updatePeriod (stepper exampleOptions) = 5 / 100"
  by (simp add: updatePeriod_def exampleOptions_def epsilon_def)

lemma example_simulate:
  "\<exists>E'. simulate exampleExt exampleEngine [0, 0] (5 / 100) = Some (Inr SUCCESS, E')"
proof -
  let ?E0 = "startSimulation exampleExt [0, 0] exampleEngine"
  let ?L0 = "\<lparr>eng = ?E0, dt = 5 / 100, current_time = 0, next_time = 0,
              fail_checker = 0, thrown = None\<rparr> :: unit loopState"
  let ?L1 = "?L0\<lparr>eng := publish ?E0\<rparr>"
  have s0: "sameStatic exampleEngine ?E0" and i0: "iterLast (stepperState ?E0) = 0"
    using startSimulation_props [of exampleEngine exampleExt "[0, 0]"] by simp_all
  have s1: "sameStatic exampleEngine (publish ?E0)"
    using s0 publish_unchanged [of ?E0] by (blast intro: sameStatic_trans)
  have cb: "\<And>E t x. sameStatic exampleEngine E \<Longrightarrow> callbackFct E t x"
    by (simp add: sameStatic_def exampleEngine_def)
  have ns: "\<not> stopCondition (5 / 100) ?L1"
    using cb [OF s1] i0 by (simp add: stopCondition_def publish_iterLast epsilon_def)
  let ?L2 = "breakpointUpdate exampleExt (5 / 100) (5 / 100) ?L1"
  have t2: "thrown ?L2 = None" "current_time ?L2 = 0" "next_time ?L2 = 5 / 100" "dt ?L2 = 5 / 100"
    by (simp_all add: breakpointUpdate_def advanceTimes_def Let_def)
  obtain L3 where b: "breakpointLoop exampleExt ?L2 = Some L3"
    and c3: "current_time L3 = 5 / 100" and t3: "thrown L3 = None"
    using breakpointLoop_example [of ?L2] t2 by auto
  let ?L4 = "postStep exampleExt L3"
  have it: "iteration exampleExt (5 / 100) (5 / 100) ?L1 = Some ?L4"
    using b t3 by (simp add: iteration_def)
  have t4: "thrown ?L4 = None" and c4: "current_time ?L4 = 5 / 100"
    using t3 c3 by (simp_all add: postStep_def Let_def)
  let ?L5 = "?L4\<lparr>eng := publish (eng ?L4)\<rparr>"
  have stop: "stopCondition (5 / 100) ?L5"
    using c4 by (simp add: stopCondition_def epsilon_def)
  have "simulate_loop exampleExt (5 / 100) (5 / 100) ?L0
          = simulate_loop exampleExt (5 / 100) (5 / 100) ?L4"
    using ns it t4 by (subst simulate_loop_unfold) simp
  also have "\<dots> = Some ?L5"
    using stop by (subst simulate_loop_unfold) simp
  finally have run: "simulate_loop exampleExt (5 / 100) (5 / 100) ?L0 = Some ?L5" .
  have pre: "isInitialized exampleEngine" "length [0, 0 :: real] = nx (model exampleEngine)"
    "(5 / 100 :: real) \<le> 5 / 100"
    by (simp_all add: exampleEngine_def exampleModel_def)
  have o: "engineOptions exampleEngine = exampleOptions" by (simp add: exampleEngine_def)
  have "simulate exampleExt exampleEngine [0, 0] (5 / 100) = Some (Inr SUCCESS, eng ?L5)"
    unfolding simulate_started [OF pre] o example_period
    using run t4 by simp
  then show ?thesis by blast
qed

section \<open>simulate: errors, termination, saturation\<close>

text \<open>
  C7: \<^verbatim>\<open>simulate\<close> returns \<^verbatim>\<open>ERROR_INIT_FAILED\<close> when the engine is not initialised,
  and, on an initialised engine, \<^verbatim>\<open>ERROR_BAD_INPUT\<close> when the length of \<open>x_init\<close> is
  not \<open>nx\<close> or when the end time is below 0.05; in each case the engine it leaves is
  the engine it was given: nothing was reset, integrated or recorded.
\<close>

theorem simulate_errors:
  "(\<not> isInitialized E \<longrightarrow> simulate X E x_init end_time = Some (Inr ERROR_INIT_FAILED, E)) \<and>
   (isInitialized E \<and> (length x_init \<noteq> nx (model E) \<or> end_time < 5 / 100) \<longrightarrow>
      simulate X E x_init end_time = Some (Inr ERROR_BAD_INPUT, E))"
  by (simp add: simulate_def)

theorem simulate_errors_witness:
  "simulate exampleExt (exampleEngine\<lparr>isInitialized := False\<rparr>) [0, 0] 1
     = Some (Inr ERROR_INIT_FAILED, exampleEngine\<lparr>isInitialized := False\<rparr>) \<and>
   simulate exampleExt exampleEngine [0, 0, 0] 1 = Some (Inr ERROR_BAD_INPUT, exampleEngine) \<and>
   simulate exampleExt exampleEngine [0, 0] (4 / 100) = Some (Inr ERROR_BAD_INPUT, exampleEngine)"
proof -
  have i: "isInitialized exampleEngine" and n: "nx (model exampleEngine) = 2"
    by (simp_all add: exampleEngine_def exampleModel_def)
  from simulate_errors [of "exampleEngine\<lparr>isInitialized := False\<rparr>" exampleExt "[0, 0]" 1]
    simulate_errors [of exampleEngine exampleExt "[0, 0, 0]" 1]
    simulate_errors [of exampleEngine exampleExt "[0, 0]" "4 / 100"]
  show ?thesis by (simp add: i n)
qed

text \<open>
  C5: the loop of \<^verbatim>\<open>simulate\<close> stops exactly at the first test, made after the snapshot
  is published, at which one of the three conditions holds: the time is within the
  machine epsilon of the end time, or the call-back applied to the time and the state
  \<open>x\<close> answers false, or the iteration counter has reached 100000. If one of them holds
  the loop returns the state with the snapshot published (publishing changes the
  telemetry only, not what the conditions read); if none holds it goes on with the
  iteration and tests again at the next snapshot. A loop that ends without an exception
  ends in a state where one of the three holds. The counter at the end is at most
  100000 when it was at the start, and so for every run of \<^verbatim>\<open>simulate\<close> that passes the
  checks of its arguments, also for one an exception ends. (The counter is the one
  \<^verbatim>\<open>updateLast\<close> increments and \<^verbatim>\<open>initialize\<close> sets to zero.)
\<close>

theorem simulate_loop_stops:
  fixes L L' :: "'c loopState" and E E' :: "'c Engine"
  shows "(\<bar>end_time - current_time L\<bar> < epsilon
          \<or> \<not> callbackFct (eng L) (current_time L) (xState (stepperState (eng L)))
          \<or> iterLast (stepperState (eng L)) \<ge> 100000 \<longrightarrow>
            simulate_loop X end_time period L = Some (L\<lparr>eng := publish (eng L)\<rparr>)) \<and>
         (\<not> (\<bar>end_time - current_time L\<bar> < epsilon
             \<or> \<not> callbackFct (eng L) (current_time L) (xState (stepperState (eng L)))
             \<or> iterLast (stepperState (eng L)) \<ge> 100000) \<longrightarrow>
            simulate_loop X end_time period L =
              (case iteration X end_time period (L\<lparr>eng := publish (eng L)\<rparr>) of
                 None \<Rightarrow> None
               | Some L1 \<Rightarrow> if thrown L1 \<noteq> None then Some L1
                            else simulate_loop X end_time period L1)) \<and>
         (simulate_loop X end_time period L = Some L' \<and> thrown L' = None \<longrightarrow>
            \<bar>end_time - current_time L'\<bar> < epsilon
            \<or> \<not> callbackFct (eng L') (current_time L') (xState (stepperState (eng L')))
            \<or> iterLast (stepperState (eng L')) \<ge> 100000) \<and>
         (simulate_loop X end_time period L = Some L' \<longrightarrow>
            iterLast (stepperState (eng L')) \<le> max (iterLast (stepperState (eng L))) 100000) \<and>
         (isInitialized E \<and> length x_init = nx (model E) \<and> 5 / 100 \<le> end_time \<and>
          simulate X E x_init end_time = Some (r, E') \<longrightarrow>
            iterLast (stepperState E') \<le> 100000)"
proof -
  have cnt: "(real (iterLast (stepperState (eng L))) \<ge> 10 ^ 5)
               = (iterLast (stepperState (eng L)) \<ge> 100000)"
  proof -
    have "(real (iterLast (stepperState (eng L))) \<ge> real 100000)
            = (iterLast (stepperState (eng L)) \<ge> 100000)"
      by (simp only: of_nat_le_iff)
    then show ?thesis by simp
  qed
  have test: "stopCondition end_time (L\<lparr>eng := publish (eng L)\<rparr>) =
        (\<bar>end_time - current_time L\<bar> < epsilon
          \<or> \<not> callbackFct (eng L) (current_time L) (xState (stepperState (eng L)))
          \<or> iterLast (stepperState (eng L)) \<ge> 100000)"
    unfolding cnt [symmetric] by (simp add: stopCondition_def publish_def Let_def)
  have c1: "\<bar>end_time - current_time L\<bar> < epsilon
          \<or> \<not> callbackFct (eng L) (current_time L) (xState (stepperState (eng L)))
          \<or> iterLast (stepperState (eng L)) \<ge> 100000 \<longrightarrow>
            simulate_loop X end_time period L = Some (L\<lparr>eng := publish (eng L)\<rparr>)"
    unfolding test [symmetric] by (subst simulate_loop_unfold) simp
  have c2: "\<not> (\<bar>end_time - current_time L\<bar> < epsilon
             \<or> \<not> callbackFct (eng L) (current_time L) (xState (stepperState (eng L)))
             \<or> iterLast (stepperState (eng L)) \<ge> 100000) \<longrightarrow>
            simulate_loop X end_time period L =
              (case iteration X end_time period (L\<lparr>eng := publish (eng L)\<rparr>) of
                 None \<Rightarrow> None
               | Some L1 \<Rightarrow> if thrown L1 \<noteq> None then Some L1
                            else simulate_loop X end_time period L1)"
    unfolding test [symmetric] by (subst simulate_loop_unfold) simp
  have c3: "simulate_loop X end_time period L = Some L' \<and> thrown L' = None \<longrightarrow>
            \<bar>end_time - current_time L'\<bar> < epsilon
            \<or> \<not> callbackFct (eng L') (current_time L') (xState (stepperState (eng L')))
            \<or> iterLast (stepperState (eng L')) \<ge> 100000"
  proof
    assume a: "simulate_loop X end_time period L = Some L' \<and> thrown L' = None"
    then have "stopCondition end_time L'"
      using simulate_loop_result [of X end_time period L L'] by simp
    then have "\<bar>end_time - current_time L'\<bar> < epsilon
            \<or> \<not> callbackFct (eng L') (current_time L') (xState (stepperState (eng L')))
            \<or> real (iterLast (stepperState (eng L'))) \<ge> real 100000"
      by (simp add: stopCondition_def)
    then show "\<bar>end_time - current_time L'\<bar> < epsilon
            \<or> \<not> callbackFct (eng L') (current_time L') (xState (stepperState (eng L')))
            \<or> iterLast (stepperState (eng L')) \<ge> 100000"
      by (simp only: of_nat_le_iff)
  qed
  have c4: "simulate_loop X end_time period L = Some L' \<longrightarrow>
            iterLast (stepperState (eng L')) \<le> max (iterLast (stepperState (eng L))) 100000"
    using simulate_loop_result [of X end_time period L L'] by simp
  have c5: "isInitialized E \<and> length x_init = nx (model E) \<and> 5 / 100 \<le> end_time \<and>
          simulate X E x_init end_time = Some (r, E') \<longrightarrow>
            iterLast (stepperState E') \<le> 100000"
  proof
    assume a: "isInitialized E \<and> length x_init = nx (model E) \<and> 5 / 100 \<le> end_time \<and>
          simulate X E x_init end_time = Some (r, E')"
    then obtain L1 where run: "simulate_loop X end_time (updatePeriod (stepper (engineOptions E)))
       \<lparr>eng = startSimulation X x_init E,
        dt = (if updatePeriod (stepper (engineOptions E)) > 0
              then updatePeriod (stepper (engineOptions E)) else 5 / 10 ^ 4),
        current_time = 0, next_time = 0, fail_checker = 0, thrown = None\<rparr> = Some L1"
      and E': "E' = eng L1"
      by (auto elim: simulate_run [of E x_init end_time X r E'])
    have "iterLast (stepperState (startSimulation X x_init E)) = 0"
      using startSimulation_props [of E X x_init] by simp
    then show "iterLast (stepperState E') \<le> 100000"
      using simulate_loop_result [OF run] E' by simp
  qed
  show ?thesis by (intro conjI c1 c2 c3 c4 c5)
qed

text \<open>
  The witness: the loop stops when the time has reached the end time; it stops, at
  time zero, when the call-back answers false; it stops, at time zero, when the counter
  is at 100000; and at time zero with a call-back that answers true and a counter at
  zero it goes on with the iteration. A whole run of the small engine ends with
  \<^verbatim>\<open>SUCCESS\<close> and a counter within the cap.
\<close>

theorem simulate_loop_stops_witness:
  "simulate_loop exampleExt (5 / 100) (5 / 100)
     \<lparr>eng = exampleEngine, dt = 5 / 100, current_time = 5 / 100, next_time = 5 / 100,
      fail_checker = 0, thrown = None\<rparr>
     = Some \<lparr>eng = publish exampleEngine, dt = 5 / 100, current_time = 5 / 100,
             next_time = 5 / 100, fail_checker = 0, thrown = None\<rparr> \<and>
   simulate_loop exampleExt 1 (5 / 100)
     \<lparr>eng = exampleEngine\<lparr>callbackFct := (\<lambda>t x. False)\<rparr>, dt = 5 / 100, current_time = 0,
      next_time = 0, fail_checker = 0, thrown = None\<rparr>
     = Some \<lparr>eng = publish (exampleEngine\<lparr>callbackFct := (\<lambda>t x. False)\<rparr>), dt = 5 / 100,
             current_time = 0, next_time = 0, fail_checker = 0, thrown = None\<rparr> \<and>
   simulate_loop exampleExt 1 (5 / 100)
     \<lparr>eng = exampleEngine\<lparr>stepperState := (stepperState exampleEngine)\<lparr>iterLast := 100000\<rparr>\<rparr>,
      dt = 5 / 100, current_time = 0, next_time = 0, fail_checker = 0, thrown = None\<rparr>
     = Some \<lparr>eng = publish (exampleEngine\<lparr>stepperState :=
                       (stepperState exampleEngine)\<lparr>iterLast := 100000\<rparr>\<rparr>),
             dt = 5 / 100, current_time = 0, next_time = 0, fail_checker = 0, thrown = None\<rparr> \<and>
   simulate_loop exampleExt 1 (5 / 100)
     \<lparr>eng = exampleEngine, dt = 5 / 100, current_time = 0, next_time = 0,
      fail_checker = 0, thrown = None\<rparr>
     = (case iteration exampleExt 1 (5 / 100)
               \<lparr>eng = publish exampleEngine, dt = 5 / 100, current_time = 0, next_time = 0,
                fail_checker = 0, thrown = None\<rparr> of
          None \<Rightarrow> None
        | Some L1 \<Rightarrow> if thrown L1 \<noteq> None then Some L1
                     else simulate_loop exampleExt 1 (5 / 100) L1) \<and>
   (\<exists>E'. simulate exampleExt exampleEngine [0, 0] (5 / 100) = Some (Inr SUCCESS, E') \<and>
          iterLast (stepperState E') \<le> 100000)"
proof -
  let ?L = "\<lparr>eng = exampleEngine, dt = 5 / 100, current_time = 5 / 100, next_time = 5 / 100,
      fail_checker = 0, thrown = None\<rparr> :: unit loopState"
  let ?Lc = "\<lparr>eng = exampleEngine\<lparr>callbackFct := (\<lambda>t x. False)\<rparr>, dt = 5 / 100,
      current_time = 0, next_time = 0, fail_checker = 0, thrown = None\<rparr> :: unit loopState"
  let ?Li = "\<lparr>eng = exampleEngine\<lparr>stepperState :=
                       (stepperState exampleEngine)\<lparr>iterLast := 100000\<rparr>\<rparr>,
      dt = 5 / 100, current_time = 0, next_time = 0, fail_checker = 0, thrown = None\<rparr>
      :: unit loopState"
  let ?Ls = "\<lparr>eng = exampleEngine, dt = 5 / 100, current_time = 0, next_time = 0,
      fail_checker = 0, thrown = None\<rparr> :: unit loopState"
  have cb: "callbackFct exampleEngine = (\<lambda>t x. True)"
    and it: "iterLast (stepperState exampleEngine) = 0"
    by (simp_all add: exampleEngine_def initialize_stepperState_def)
  have a: "simulate_loop exampleExt (5 / 100) (5 / 100) ?L = Some (?L\<lparr>eng := publish (eng ?L)\<rparr>)"
    using simulate_loop_stops [of "5 / 100" ?L exampleExt "5 / 100"]
    by (simp add: epsilon_def)
  have b: "simulate_loop exampleExt 1 (5 / 100) ?Lc = Some (?Lc\<lparr>eng := publish (eng ?Lc)\<rparr>)"
    using simulate_loop_stops [of 1 ?Lc exampleExt "5 / 100"]
    by simp
  have c: "simulate_loop exampleExt 1 (5 / 100) ?Li = Some (?Li\<lparr>eng := publish (eng ?Li)\<rparr>)"
    using simulate_loop_stops [of 1 ?Li exampleExt "5 / 100"]
    by simp
  have d: "simulate_loop exampleExt 1 (5 / 100) ?Ls =
             (case iteration exampleExt 1 (5 / 100) (?Ls\<lparr>eng := publish (eng ?Ls)\<rparr>) of
                None \<Rightarrow> None
              | Some L1 \<Rightarrow> if thrown L1 \<noteq> None then Some L1
                           else simulate_loop exampleExt 1 (5 / 100) L1)"
    using simulate_loop_stops [of 1 ?Ls exampleExt "5 / 100"]
    by (simp add: cb it epsilon_def)
  obtain E' where run: "simulate exampleExt exampleEngine [0, 0] (5 / 100) = Some (Inr SUCCESS, E')"
    using example_simulate by blast
  have pre: "isInitialized exampleEngine" "length [0, 0 :: real] = nx (model exampleEngine)"
    by (simp_all add: exampleEngine_def exampleModel_def)
  have "iterLast (stepperState E') \<le> 100000"
    using simulate_loop_stops [of "5 / 100" ?L exampleExt "5 / 100" ?L exampleEngine "[0, 0]"
        "Inr SUCCESS" E'] pre run
    by simp
  with a b c d run show ?thesis by simp
qed

lemma updateInternal_uCommandLast:
  "uCommandLast (stepperState (updateInternal t q v E)) = uCommandLast (stepperState E)"
  by (simp add: updateInternal_def Let_def split: prod.splits)

text \<open>
  Inside \<^verbatim>\<open>systemDynamics\<close> the controller finds the engine as the kinematics, the
  contact forces and the sensors left it: the model has changed, the stepper state and
  the controller have not.
\<close>

lemma beforeCommand_same:
  fixes E :: "'c Engine" and t :: real and q v :: vectorN_t and X :: ext_t
  defines "E3 \<equiv> updateSensors t q v (snd (externalForces (updateKinematics X q v E)))"
  shows "stepperState E3 = stepperState E" and "controller E3 = controller E"
    and "sameStatic E E3"
proof -
  show "stepperState E3 = stepperState E"
    by (simp add: E3_def updateSensors_def externalForces_def updateKinematics_def
        split: prod.splits)
  show "controller E3 = controller E"
    by (simp add: E3_def updateSensors_def externalForces_def updateKinematics_def
        split: prod.splits)
  have "sameSetup E E3"
    unfolding E3_def
    by (intro sameSetup_trans [OF _ updateSensors_sameSetup]
        sameSetup_trans [OF _ externalForces_sameSetup] updateKinematics_sameSetup)
  then show "sameStatic E E3" by (rule sameSetup_sameStatic)
qed

lemma systemDynamics_uCommandLast:
  fixes E :: "'c Engine" and x :: vectorN_t
  defines "q \<equiv> take (nq (model E)) x" and "v \<equiv> drop (length x - nv (model E)) x"
  shows "uCommandLast (stepperState (snd (systemDynamics X t x E))) =
           (if controllerUpdatePeriod (stepper (engineOptions E)) < epsilon
            then uCommandLast (stepperState (commandAndClamp t q v
                   (updateSensors t q v (snd (externalForces (updateKinematics X q v E))))))
            else uCommandLast (stepperState E))"
proof -
  let ?E3 = "updateSensors t q v (snd (externalForces (updateKinematics X q v E)))"
  have o: "engineOptions ?E3 = engineOptions E"
    using beforeCommand_same(3) [where E = E and t = t and q = q and v = v and X = X] by (simp add: sameStatic_def)
  have "uCommandLast (stepperState (snd (systemDynamics X t x E)))
          = uCommandLast (stepperState (updateCommand t q v ?E3))"
    unfolding snd_systemDynamics updateInternal_uCommandLast q_def v_def by simp
  then show ?thesis
    by (simp add: updateCommand_def o beforeCommand_same(1))
qed

lemma commandAndClamp_entry:
  assumes c: "controllerContract E"
    and l: "length (uCommandLast (stepperState E)) = length (jointsVelocityIdx (model E))"
    and i: "i < length (jointsVelocityIdx (model E))"
  shows "uCommandLast (stepperState (commandAndClamp t q v E)) ! i =
           max (- (effortLimit (pncModel (model E)) ! (jointsVelocityIdx (model E) ! i)))
             (min (effortLimit (pncModel (model E)) ! (jointsVelocityIdx (model E) ! i))
                (fst (compute_command (controller E) (model E) t q v
                        (uCommandLast (stepperState E)) (ctrlState (controller E))) ! i))"
proof -
  have T: "0 \<le> effortLimit (pncModel (model E)) ! (jointsVelocityIdx (model E) ! i)"
    using c i by (simp add: controllerContract_def)
  have "length (uCommandLast ((stepperState E)\<lparr>uCommandLast :=
          fst (compute_command (controller E) (model E) t q v
                 (uCommandLast (stepperState E)) (ctrlState (controller E)))\<rparr>))
        = length (jointsVelocityIdx (model E))"
    using contract_length [OF c l] by simp
  then show ?thesis
    unfolding commandAndClamp_uCommandLast
    by (simp add: clampCommand_nth [OF _ i] clamp_max_min [OF T])
qed

lemma systemDynamics_continuous_entry:
  fixes E :: "'c Engine" and x :: vectorN_t
  defines "q \<equiv> take (nq (model E)) x" and "v \<equiv> drop (length x - nv (model E)) x"
  assumes c: "controllerContract E"
    and l: "length (uCommandLast (stepperState E)) = length (jointsVelocityIdx (model E))"
    and i: "i < length (jointsVelocityIdx (model E))"
    and p: "controllerUpdatePeriod (stepper (engineOptions E)) < epsilon"
  shows "uCommandLast (stepperState (snd (systemDynamics X t x E))) ! i =
           max (- (effortLimit (pncModel (model E)) ! (jointsVelocityIdx (model E) ! i)))
             (min (effortLimit (pncModel (model E)) ! (jointsVelocityIdx (model E) ! i))
                (fst (compute_command (controller E)
                        (model (updateSensors t q v
                                 (snd (externalForces (updateKinematics X q v E)))))
                        t q v (uCommandLast (stepperState E)) (ctrlState (controller E))) ! i))"
    and "saturated (model E) (uCommandLast (stepperState (snd (systemDynamics X t x E))))"
proof -
  let ?E3 = "updateSensors t q v (snd (externalForces (updateKinematics X q v E)))"
  note same = beforeCommand_same [where E = E and t = t and q = q and v = v and X = X]
  have st: "sameStatic E ?E3" by (rule same(3))
  have c3: "controllerContract ?E3" using st c by (rule contract_sameStatic)
  have m: "jointsVelocityIdx (model ?E3) = jointsVelocityIdx (model E)"
    "pncModel (model ?E3) = pncModel (model E)"
    using st by (simp_all add: sameStatic_def)
  have l3: "length (uCommandLast (stepperState ?E3)) = length (jointsVelocityIdx (model ?E3))"
    using l by (simp add: same(1) m)
  have i3: "i < length (jointsVelocityIdx (model ?E3))" using i by (simp add: m)
  have u: "uCommandLast (stepperState (snd (systemDynamics X t x E)))
             = uCommandLast (stepperState (commandAndClamp t q v ?E3))"
    using p systemDynamics_uCommandLast [of X t x E] by (simp add: q_def v_def)
  show "uCommandLast (stepperState (snd (systemDynamics X t x E))) ! i =
           max (- (effortLimit (pncModel (model E)) ! (jointsVelocityIdx (model E) ! i)))
             (min (effortLimit (pncModel (model E)) ! (jointsVelocityIdx (model E) ! i))
                (fst (compute_command (controller E) (model ?E3)
                        t q v (uCommandLast (stepperState E)) (ctrlState (controller E))) ! i))"
    unfolding u commandAndClamp_entry [OF c3 l3 i3] by (simp add: m same(1,2))
  have "saturated (model ?E3) (uCommandLast (stepperState (commandAndClamp t q v ?E3)))"
    using c3 l3 by (rule commandAndClamp_saturated)
  then show "saturated (model E) (uCommandLast (stepperState (snd (systemDynamics X t x E))))"
    unfolding u using saturated_sameStatic [OF st] by simp
qed

lemma breakpointController_saturated:
  assumes c: "controllerContract E"
    and l: "length (uCommandLast (stepperState E)) = length (jointsVelocityIdx (model E))"
    and p: "controllerUpdatePeriod (stepper (engineOptions E)) > 0"
    and t: "\<bar>t - std_round (t / controllerUpdatePeriod (stepper (engineOptions E)))
                  * controllerUpdatePeriod (stepper (engineOptions E))\<bar> < 1 / 10 ^ 8"
  shows "saturated (model E) (uCommandLast (stepperState (breakpointController X t E)))"
proof -
  let ?E1 = "commandAndClamp (tLast (stepperState E)) (qLast (stepperState E))
               (vLast (stepperState E)) E"
  have s1: "sameStatic E ?E1" using commandAndClamp_sameSetup by (rule sameSetup_sameStatic)
  have "saturated (model E) (uCommandLast (stepperState ?E1))"
    using c l by (rule commandAndClamp_saturated)
  then have "commandInvariant ?E1"
    using contract_sameStatic [OF s1 c] saturated_sameStatic [OF s1]
    by (simp add: commandInvariant_def)
  then have i: "commandInvariant (refreshDerivative X t ?E1)"
    by (rule commandInvariant_refreshDerivative)
  have s2: "sameStatic E (refreshDerivative X t ?E1)"
    using s1 refreshDerivative_sameSetup [of ?E1 X t]
    by (blast intro: sameStatic_trans sameSetup_sameStatic)
  have "breakpointController X t E = refreshDerivative X t ?E1"
    using p t by (simp add: breakpointController_def Let_def)
  then show ?thesis
    using i saturated_sameStatic [OF s2] by (simp add: commandInvariant_def)
qed

lemma breakpointController_entry:
  assumes c: "controllerContract E"
    and l: "length (uCommandLast (stepperState E)) = length (jointsVelocityIdx (model E))"
    and i: "i < length (jointsVelocityIdx (model E))"
    and p: "controllerUpdatePeriod (stepper (engineOptions E)) \<ge> epsilon"
    and t: "\<bar>t - std_round (t / controllerUpdatePeriod (stepper (engineOptions E)))
                  * controllerUpdatePeriod (stepper (engineOptions E))\<bar> < 1 / 10 ^ 8"
  shows "uCommandLast (stepperState (breakpointController X t E)) ! i =
           max (- (effortLimit (pncModel (model E)) ! (jointsVelocityIdx (model E) ! i)))
             (min (effortLimit (pncModel (model E)) ! (jointsVelocityIdx (model E) ! i))
                (fst (compute_command (controller E) (model E) (tLast (stepperState E))
                        (qLast (stepperState E)) (vLast (stepperState E))
                        (uCommandLast (stepperState E)) (ctrlState (controller E))) ! i))"
proof -
  let ?E1 = "commandAndClamp (tLast (stepperState E)) (qLast (stepperState E))
               (vLast (stepperState E)) E"
  have s1: "sameStatic E ?E1" using commandAndClamp_sameSetup by (rule sameSetup_sameStatic)
  then have o: "engineOptions ?E1 = engineOptions E" by (simp add: sameStatic_def)
  have pos: "controllerUpdatePeriod (stepper (engineOptions E)) > 0"
    using p by (simp add: epsilon_def)
  have b: "breakpointController X t E = refreshDerivative X t ?E1"
    using pos t by (simp add: breakpointController_def Let_def)
  have "uCommandLast (stepperState (refreshDerivative X t ?E1))
          = uCommandLast (stepperState (snd (systemDynamics X t (xState (stepperState ?E1)) ?E1)))"
    by (simp add: refreshDerivative_def split: prod.splits)
  also have "\<dots> = uCommandLast (stepperState ?E1)"
    using p by (simp add: systemDynamics_uCommandLast o)
  finally show ?thesis
    unfolding b using commandAndClamp_entry [OF c l i] by simp
qed

text \<open>
  C6: under the controller's contract (effort limits of the actuated joints not
  negative; \<^verbatim>\<open>compute_command\<close> leaves one entry per actuated joint in the command
  vector), each call of the controller is followed by the saturation: entry \<open>i\<close> of the
  stored command is the controller's entry \<open>i\<close> brought into \<open>[- taumax, taumax]\<close>, that
  is \<open>max (- taumax) (min taumax u_i)\<close>, with \<open>taumax\<close> the effort limit of the actuated
  joint \<open>i\<close>. This holds of the call itself; of the stored command after a controller
  break-point of the break-point mode, where the controller was handed the last
  snapshot; and of the stored command after every evaluation of the dynamics in
  continuous mode, where the controller was handed the time and state of the
  evaluation. In both modes the stored command is then saturated. For every run of
  \<^verbatim>\<open>simulate\<close> that logs the command and passes the checks of its arguments, every
  command vector \<open>u\<close> of every row of the telemetry record has \<open>\<bar>u ! i\<bar> \<le> taumax_i\<close> for
  every actuated joint \<open>i\<close>, and so has the command stored at the end.
\<close>

theorem command_saturation:
  fixes E E' E0 :: "'c Engine" and i :: nat and x :: vectorN_t
  defines "taumax \<equiv> effortLimit (pncModel (model E0)) ! (jointsVelocityIdx (model E0) ! i)"
    and "q0 \<equiv> take (nq (model E0)) x"
    and "v0 \<equiv> drop (length x - nv (model E0)) x"
  assumes contract: "controllerContract E"
    and logged: "logCommand (telemetry (engineOptions E))"
    and pre: "isInitialized E" "length x_init = nx (model E)" "5 / 100 \<le> end_time"
    and run: "simulate X E x_init end_time = Some (r, E')"
    and contract0: "controllerContract E0"
    and len0: "length (uCommandLast (stepperState E0)) = length (jointsVelocityIdx (model E0))"
    and i: "i < length (jointsVelocityIdx (model E0))"
  shows "uCommandLast (stepperState (commandAndClamp t q v E0)) ! i =
           max (- taumax) (min taumax
             (fst (compute_command (controller E0) (model E0) t q v
                     (uCommandLast (stepperState E0)) (ctrlState (controller E0))) ! i)) \<and>
         (controllerUpdatePeriod (stepper (engineOptions E0)) \<ge> epsilon \<and>
          \<bar>t - std_round (t / controllerUpdatePeriod (stepper (engineOptions E0)))
                 * controllerUpdatePeriod (stepper (engineOptions E0))\<bar> < 1 / 10 ^ 8 \<longrightarrow>
            uCommandLast (stepperState (breakpointController X t E0)) ! i =
              max (- taumax) (min taumax
                (fst (compute_command (controller E0) (model E0) (tLast (stepperState E0))
                        (qLast (stepperState E0)) (vLast (stepperState E0))
                        (uCommandLast (stepperState E0)) (ctrlState (controller E0))) ! i))) \<and>
         (controllerUpdatePeriod (stepper (engineOptions E0)) > 0 \<and>
          \<bar>t - std_round (t / controllerUpdatePeriod (stepper (engineOptions E0)))
                 * controllerUpdatePeriod (stepper (engineOptions E0))\<bar> < 1 / 10 ^ 8 \<longrightarrow>
            saturated (model E0) (uCommandLast (stepperState (breakpointController X t E0)))) \<and>
         (controllerUpdatePeriod (stepper (engineOptions E0)) < epsilon \<longrightarrow>
            uCommandLast (stepperState (snd (systemDynamics X t x E0))) ! i =
              max (- taumax) (min taumax
                (fst (compute_command (controller E0)
                        (model (updateSensors t q0 v0
                                 (snd (externalForces (updateKinematics X q0 v0 E0)))))
                        t q0 v0 (uCommandLast (stepperState E0)) (ctrlState (controller E0))) ! i)) \<and>
            saturated (model E0) (uCommandLast (stepperState (snd (systemDynamics X t x E0))))) \<and>
         (\<forall>row \<in> set (telemetryRecorder E').
            \<forall>u. uCommandEntry (snd row) = Some u \<longrightarrow>
              length u = length (jointsVelocityIdx (model E)) \<and>
              (\<forall>i < length (jointsVelocityIdx (model E)).
                 \<bar>u ! i\<bar> \<le> effortLimit (pncModel (model E)) ! (jointsVelocityIdx (model E) ! i))) \<and>
         saturated (model E) (uCommandLast (stepperState E'))"
proof -
  have a: "uCommandLast (stepperState (commandAndClamp t q v E0)) ! i =
           max (- taumax) (min taumax
             (fst (compute_command (controller E0) (model E0) t q v
                     (uCommandLast (stepperState E0)) (ctrlState (controller E0))) ! i))"
    unfolding taumax_def by (rule commandAndClamp_entry [OF contract0 len0 i])
  have b0: "controllerUpdatePeriod (stepper (engineOptions E0)) \<ge> epsilon \<and>
          \<bar>t - std_round (t / controllerUpdatePeriod (stepper (engineOptions E0)))
                 * controllerUpdatePeriod (stepper (engineOptions E0))\<bar> < 1 / 10 ^ 8 \<longrightarrow>
            uCommandLast (stepperState (breakpointController X t E0)) ! i =
              max (- taumax) (min taumax
                (fst (compute_command (controller E0) (model E0) (tLast (stepperState E0))
                        (qLast (stepperState E0)) (vLast (stepperState E0))
                        (uCommandLast (stepperState E0)) (ctrlState (controller E0))) ! i))"
    unfolding taumax_def using breakpointController_entry [OF contract0 len0 i] by blast
  have b1: "controllerUpdatePeriod (stepper (engineOptions E0)) > 0 \<and>
          \<bar>t - std_round (t / controllerUpdatePeriod (stepper (engineOptions E0)))
                 * controllerUpdatePeriod (stepper (engineOptions E0))\<bar> < 1 / 10 ^ 8 \<longrightarrow>
            saturated (model E0) (uCommandLast (stepperState (breakpointController X t E0)))"
    using breakpointController_saturated [OF contract0 len0] by blast
  have b2: "controllerUpdatePeriod (stepper (engineOptions E0)) < epsilon \<longrightarrow>
            uCommandLast (stepperState (snd (systemDynamics X t x E0))) ! i =
              max (- taumax) (min taumax
                (fst (compute_command (controller E0)
                        (model (updateSensors t q0 v0
                                 (snd (externalForces (updateKinematics X q0 v0 E0)))))
                        t q0 v0 (uCommandLast (stepperState E0)) (ctrlState (controller E0))) ! i)) \<and>
            saturated (model E0) (uCommandLast (stepperState (snd (systemDynamics X t x E0))))"
    unfolding taumax_def q0_def v0_def
    using systemDynamics_continuous_entry [OF contract0 len0 i] by blast
  obtain L1 where loop: "simulate_loop X end_time (updatePeriod (stepper (engineOptions E)))
       \<lparr>eng = startSimulation X x_init E,
        dt = (if updatePeriod (stepper (engineOptions E)) > 0
              then updatePeriod (stepper (engineOptions E)) else 5 / 10 ^ 4),
        current_time = 0, next_time = 0, fail_checker = 0, thrown = None\<rparr> = Some L1"
    and E': "E' = eng L1"
    using simulate_run [OF pre run] by blast
  have "logInvariant (startSimulation X x_init E)"
    using contract logged by (rule logInvariant_startSimulation)
  then have inv: "logInvariant E'"
    using logInvariant_simulate_loop [OF loop] E' by simp
  have "sameStatic (startSimulation X x_init E) E'"
    using simulate_loop_sameStatic [OF loop] E' by simp
  then have s: "sameStatic E E'"
    using startSimulation_props [of E X x_init] by (blast intro: sameStatic_trans)
  have c: "\<forall>row \<in> set (telemetryRecorder E').
            \<forall>u. uCommandEntry (snd row) = Some u \<longrightarrow>
              length u = length (jointsVelocityIdx (model E)) \<and>
              (\<forall>i < length (jointsVelocityIdx (model E)).
                 \<bar>u ! i\<bar> \<le> effortLimit (pncModel (model E)) ! (jointsVelocityIdx (model E) ! i))"
    using inv saturated_sameStatic [OF s]
    by (simp add: logInvariant_def rowsSaturated_def) (simp add: saturated_def)
  have d: "saturated (model E) (uCommandLast (stepperState E'))"
    using inv saturated_sameStatic [OF s] by (simp add: logInvariant_def commandInvariant_def)
  show ?thesis by (intro conjI a b0 b1 b2 c d)
qed

lemma request_contract:
  "model E = exampleModel \<Longrightarrow>
   compute_command (controller E) = (\<lambda>M t q v u c. (u[0 := r], c)) \<Longrightarrow>
   controllerContract E"
  by (simp add: controllerContract_def exampleModel_def)

lemma example_contract: "controllerContract exampleEngine"
  by (rule request_contract [of _ 1000])
     (simp_all add: exampleEngine_def exampleController_def requestController_def)

text \<open>
  The witness: on the small engine, whose effort limit is 10, a request of 1000 is stored
  as 10, a request of 3 as 3 and a request of \<open>- 1000\<close> as \<open>- 10\<close>; the command stored
  after a controller break-point at time zero is 10; with the controller's period at
  zero the command stored after an evaluation of the dynamics is 10; and every command
  logged by a whole run is within the limit.
\<close>

theorem command_saturation_witness:
  "uCommandLast (stepperState (commandAndClamp 0 [0] [0] exampleEngine)) ! 0 = 10 \<and>
   uCommandLast (stepperState (commandAndClamp 0 [0] [0]
      (exampleEngine\<lparr>controller := requestController 3\<rparr>))) ! 0 = 3 \<and>
   uCommandLast (stepperState (commandAndClamp 0 [0] [0]
      (exampleEngine\<lparr>controller := requestController (- 1000)\<rparr>))) ! 0 = - 10 \<and>
   uCommandLast (stepperState (breakpointController exampleExt 0 exampleEngine)) ! 0 = 10 \<and>
   uCommandLast (stepperState (snd (systemDynamics exampleExt 0 [0, 0]
      (exampleEngine\<lparr>engineOptions := exampleOptions\<lparr>stepper :=
         \<lparr>randomSeed = 0, tolAbs = 1 / 10 ^ 5, tolRel = 1 / 10 ^ 4,
          sensorsUpdatePeriod = 0, controllerUpdatePeriod = 0\<rparr>\<rparr>\<rparr>)))) ! 0 = 10 \<and>
   (\<exists>E'. simulate exampleExt exampleEngine [0, 0] (5 / 100) = Some (Inr SUCCESS, E') \<and>
          length (uCommandLast (stepperState E')) = 1 \<and>
          \<bar>uCommandLast (stepperState E') ! 0\<bar> \<le> 10 \<and>
          (\<forall>row \<in> set (telemetryRecorder E').
             \<forall>u. uCommandEntry (snd row) = Some u \<longrightarrow> length u = 1 \<and> \<bar>u ! 0\<bar> \<le> 10))"
proof -
  let ?E3 = "exampleEngine\<lparr>controller := requestController 3\<rparr>"
  let ?Em = "exampleEngine\<lparr>controller := requestController (- 1000)\<rparr>"
  let ?Ec = "exampleEngine\<lparr>engineOptions := exampleOptions\<lparr>stepper :=
         \<lparr>randomSeed = 0, tolAbs = 1 / 10 ^ 5, tolRel = 1 / 10 ^ 4,
          sensorsUpdatePeriod = 0, controllerUpdatePeriod = 0\<rparr>\<rparr>\<rparr>"
  obtain E' where run: "simulate exampleExt exampleEngine [0, 0] (5 / 100) = Some (Inr SUCCESS, E')"
    using example_simulate by blast
  have pre: "isInitialized exampleEngine" "length [0, 0 :: real] = nx (model exampleEngine)"
    "(5 / 100 :: real) \<le> 5 / 100"
    by (simp_all add: exampleEngine_def exampleModel_def)
  have lg: "logCommand (telemetry (engineOptions exampleEngine))"
    by (simp add: exampleEngine_def exampleOptions_def)
  have sel: "jointsVelocityIdx (model exampleEngine) = [0]"
    "effortLimit (pncModel (model exampleEngine)) = [10]"
    "uCommandLast (stepperState exampleEngine) = [0]"
    "\<And>M t q v u c. fst (compute_command (controller exampleEngine) M t q v u c) = u[0 := 1000]"
    "\<And>r M t q v u c. fst (compute_command (requestController r) M t q v u c) = u[0 := r]"
    "controllerUpdatePeriod (stepper (engineOptions exampleEngine)) = 5 / 100"
    by (simp_all add: exampleEngine_def exampleModel_def exampleController_def
        requestController_def exampleOptions_def initialize_stepperState_def Zero_def)
  have c3: "controllerContract ?E3" and cm: "controllerContract ?Em"
    and cc: "controllerContract ?Ec"
    by (rule request_contract [of _ 3], simp_all add: exampleEngine_def requestController_def,
        rule request_contract [of _ "- 1000"], simp_all add: exampleEngine_def requestController_def,
        rule request_contract [of _ 1000],
        simp_all add: exampleEngine_def exampleController_def requestController_def)
  have l0: "length (uCommandLast (stepperState exampleEngine))
              = length (jointsVelocityIdx (model exampleEngine))"
    and l3: "length (uCommandLast (stepperState ?E3)) = length (jointsVelocityIdx (model ?E3))"
    and lm: "length (uCommandLast (stepperState ?Em)) = length (jointsVelocityIdx (model ?Em))"
    and lc: "length (uCommandLast (stepperState ?Ec)) = length (jointsVelocityIdx (model ?Ec))"
    by (simp_all add: sel)
  have i0: "0 < length (jointsVelocityIdx (model exampleEngine))"
    and i3: "0 < length (jointsVelocityIdx (model ?E3))"
    and im: "0 < length (jointsVelocityIdx (model ?Em))"
    and ic: "0 < length (jointsVelocityIdx (model ?Ec))"
    by (simp_all add: sel)
  note base = command_saturation [OF example_contract lg pre run]
  from base [OF example_contract l0 i0, where t = 0 and q = "[0]" and v = "[0]" and x = "[0, 0]"]
  have a: "uCommandLast (stepperState (commandAndClamp 0 [0] [0] exampleEngine)) ! 0 = 10 \<and>
        uCommandLast (stepperState (breakpointController exampleExt 0 exampleEngine)) ! 0 = 10 \<and>
        saturated (model exampleEngine) (uCommandLast (stepperState E')) \<and>
        (\<forall>row \<in> set (telemetryRecorder E').
             \<forall>u. uCommandEntry (snd row) = Some u \<longrightarrow> length u = 1 \<and> \<bar>u ! 0\<bar> \<le> 10)"
    by (simp add: sel epsilon_def std_round_def)
  from base [OF c3 l3 i3, where t = 0 and q = "[0]" and v = "[0]" and x = "[0, 0]"]
  have b: "uCommandLast (stepperState (commandAndClamp 0 [0] [0] ?E3)) ! 0 = 3"
    by (simp add: sel)
  from base [OF cm lm im, where t = 0 and q = "[0]" and v = "[0]" and x = "[0, 0]"]
  have c: "uCommandLast (stepperState (commandAndClamp 0 [0] [0] ?Em)) ! 0 = - 10"
    by (simp add: sel)
  from base [OF cc lc ic, where t = 0 and q = "[0]" and v = "[0]" and x = "[0, 0]"]
  have d: "uCommandLast (stepperState (snd (systemDynamics exampleExt 0 [0, 0] ?Ec))) ! 0 = 10"
    by (simp add: sel epsilon_def)
  from a b c d run show ?thesis by (auto simp: saturated_def sel)
qed
end
